theory Spec2Isabelle
  imports Complex_Main
begin

section \<open>Values the configuration code handles\<close>

text \<open>
  \<^verbatim>\<open>time.Duration\<close> is an \<^verbatim>\<open>int64\<close> count of nanoseconds. The code only
  stores and compares durations (no arithmetic), so no wrap-around can arise and the
  value is carried by an \<open>int\<close>.
\<close>

type_synonym Duration = int

text \<open>
  A \<^verbatim>\<open>float64\<close>, as far as the code looks at one: the job's rate is stored and
  compared with the constant 0. A finite value is carried by the real number it denotes
  (the two signed zeros are the same value: Go's \<^verbatim>\<open>==\<close> identifies them as well);
  the infinities and NaN are values of their own. Every comparison with NaN is false.
\<close>

datatype float64 = NaN | NegInf | Finite real | PosInf

definition f64_lt0 :: "float64 \<Rightarrow> bool" where
  \<comment> \<open>\<^verbatim>\<open>x < 0\<close>\<close>
  "f64_lt0 x = (case x of NaN \<Rightarrow> False | NegInf \<Rightarrow> True | Finite r \<Rightarrow> r < 0 | PosInf \<Rightarrow> False)"

definition f64_eq0 :: "float64 \<Rightarrow> bool" where
  \<comment> \<open>\<^verbatim>\<open>x == 0\<close>\<close>
  "f64_eq0 x = (case x of NaN \<Rightarrow> False | NegInf \<Rightarrow> False | Finite r \<Rightarrow> r = 0 | PosInf \<Rightarrow> False)"

definition f64_gt0 :: "float64 \<Rightarrow> bool" where
  \<comment> \<open>\<^verbatim>\<open>x > 0\<close>\<close>
  "f64_gt0 x = (case x of NaN \<Rightarrow> False | NegInf \<Rightarrow> False | Finite r \<Rightarrow> 0 < r | PosInf \<Rightarrow> True)"

definition f64_ge0 :: "float64 \<Rightarrow> bool" where
  \<comment> \<open>\<^verbatim>\<open>x >= 0\<close>\<close>
  "f64_ge0 x = (case x of NaN \<Rightarrow> False | NegInf \<Rightarrow> False | Finite r \<Rightarrow> 0 \<le> r | PosInf \<Rightarrow> True)"

text \<open>
  Errors are values. \<open>New\<close> is \<^verbatim>\<open>errors.New\<close> with the message of the source; the
  other constructors are the \<^verbatim>\<open>fmt.Errorf\<close> sites of the source, each keeping the
  values its format string prints. \<open>EmptyQueryError\<close> is the sentinel the flavour's
  \<^verbatim>\<open>CheckQuery\<close> returns for a query with no statement in it. A library function
  may return any error.
\<close>

datatype error =
    EmptyQueryError
  | New string
  | InvalidQuery error
      \<comment> \<open>\<^verbatim>\<open>fmt.Errorf("invalid query %v", err)\<close>\<close>
  | InvalidMultiQueryMode string
      \<comment> \<open>\<^verbatim>\<open>fmt.Errorf("invalid value for multi-query-mode: %s", strconv.Quote(v))\<close>\<close>
  | MustHaveOnlyOneQuery
      \<comment> \<open>\<^verbatim>\<open>fmt.Errorf("must have only one query")\<close>\<close>
  | ErrorParsingJob string error
      \<comment> \<open>\<^verbatim>\<open>fmt.Errorf("Error parsing job %s: %v", strconv.Quote(name), err)\<close>\<close>
  | ErrorParsingSection string error
      \<comment> \<open>\<^verbatim>\<open>fmt.Errorf("Error parsing global section: %v", err)\<close>, and the same for
         the setup and the teardown section\<close>
  | StartsAfterTestFinishes string
      \<comment> \<open>\<^verbatim>\<open>fmt.Errorf("job %s starts after test finishes.", strconv.Quote(name))\<close>\<close>
  | StopsAfterTestFinishes string
      \<comment> \<open>\<^verbatim>\<open>fmt.Errorf("job %s stops after test finishes.", strconv.Quote(name))\<close>\<close>
  | UnknownOption string
  | DuplicateOption string

text \<open>An open file (\<^verbatim>\<open>*os.File\<close>), named by the path it was opened at.\<close>

datatype File = File string

text \<open>The writer \<^verbatim>\<open>NewSafeCSVWriter\<close> returns, named by its path.\<close>

datatype SafeCSVWriter = SafeCSVWriter string

text \<open>
  A \<^verbatim>\<open>csv.Reader\<close>: the reader it wraps and its field delimiter \<^verbatim>\<open>Comma\<close>, which
  \<^verbatim>\<open>csv.NewReader\<close> sets to a comma (the rune 44).
\<close>

record csvReader =
  csv_r :: File
  Comma :: int

definition csv_NewReader :: "File \<Rightarrow> csvReader" where
  "csv_NewReader f = \<lparr>csv_r = f, Comma = 44\<rparr>"

text \<open>
  \<^verbatim>\<open>utf8.DecodeRuneInString\<close> on a string of one byte, the only strings the source
  passes to it: the byte itself when it is ASCII, and \<^verbatim>\<open>RuneError\<close> (U+FFFD) for a
  byte that is no complete UTF-8 sequence.
\<close>

definition runeOfByte :: "char \<Rightarrow> int" where
  "runeOfByte c = (if (of_char c :: nat) < 128 then int (of_char c) else 65533)"

section \<open>The structures of the configuration\<close>

text \<open>
  The fields of \<^verbatim>\<open>Job\<close> that the configuration code assigns. A pointer that may be
  \<^verbatim>\<open>nil\<close> is an option. \<open>newJob\<close> is \<^verbatim>\<open>new(Job)\<close>: every field has its zero value.
\<close>

record Job =
  Name :: string
  Start :: Duration
  Stop :: Duration
  Queries :: "string list"
  QueryLog :: "File option"
  QueryArgs :: "csvReader option"
  QueryResults :: "SafeCSVWriter option"
  Rate :: float64
  BatchSize :: nat
  QueueDepth :: nat
  Count :: nat

definition newJob :: Job where
  "newJob = \<lparr>Name = [], Start = 0, Stop = 0, Queries = [], QueryLog = None,
     QueryArgs = None, QueryResults = None, Rate = Finite 0, BatchSize = 0,
     QueueDepth = 0, Count = 0\<rparr>"

text \<open>
  The flavour of the database, an interface of the repository: the two methods the
  configuration code calls. \<open>CheckQuery\<close> returns \<open>None\<close> for \<^verbatim>\<open>nil\<close>.
\<close>

record DatabaseFlavor =
  QuerySeparator :: string
  CheckQuery :: "string \<Rightarrow> error option"

text \<open>The JSON form of a job, of a reserved section and of a whole configuration.\<close>

record JobOptions =
  opt_Start :: string
  opt_Stop :: string
  opt_Queries :: "string list"
  opt_QueryFiles :: "string list"
  opt_QueryArgsFile :: string
  opt_QueryArgsDelim :: string
  opt_QueryResultsFile :: string
  opt_Rate :: float64
  opt_BatchSize :: nat
  opt_QueueDepth :: nat
  opt_Concurrency :: nat
  opt_Count :: nat
  opt_MultiQueryMode :: bool
  opt_QueryLogFile :: string

record ReservedSectionOptions =
  sec_Queries :: "string list"
  sec_QueryFiles :: "string list"

record JSONConfig =
  json_Duration :: string
  json_Errors :: "string list"
  json_Setup :: ReservedSectionOptions
  json_Teardown :: ReservedSectionOptions
  json_Jobs :: "(string \<times> JobOptions) list"

text \<open>
  The INI form as \<^verbatim>\<open>goini\<close> hands it over. A \<^verbatim>\<open>RawSection\<close> is the list of the
  section's properties, name and value, in the order in which \<^verbatim>\<open>Decode\<close> visits them.
  A \<^verbatim>\<open>RawConfig\<close> has its global section and its named sections, in the order of
  \<^verbatim>\<open>Sections()\<close>; \<open>Section\<close> is \<^verbatim>\<open>iniConfig.Section(name)\<close>, the empty section for a
  name the file does not have.
\<close>

type_synonym RawSection = "(string \<times> string) list"

record RawConfig =
  GlobalSection :: RawSection
  Sections :: "(string \<times> RawSection) list"

definition Section :: "RawConfig \<Rightarrow> string \<Rightarrow> RawSection" where
  "Section iniConfig name = (case map_of (Sections iniConfig) name of None \<Rightarrow> [] | Some s \<Rightarrow> s)"

text \<open>
  The functions the code calls and this repository's files under study do not define:
  Go's standard library (\<^verbatim>\<open>time.ParseDuration\<close>, \<^verbatim>\<open>strconv.ParseFloat\<close>,
  \<^verbatim>\<open>strconv.ParseUint(v, 10, 0)\<close>, \<^verbatim>\<open>strconv.Unquote\<close>, \<^verbatim>\<open>filepath.IsAbs\<close>,
  \<^verbatim>\<open>filepath.Join\<close>, \<^verbatim>\<open>os.Open\<close>, \<^verbatim>\<open>ioutil.ReadAll\<close>, \<^verbatim>\<open>strings.Split\<close>) and two
  functions of the repository, \<^verbatim>\<open>NewSafeCSVWriter\<close> and \<^verbatim>\<open>isFieldSet\<close>. They are
  parameters of the model: every theorem holds whatever they compute. \<^verbatim>\<open>isFieldSet\<close>
  is given the structure and the name of the field, as in the source, once for each
  type of structure it is called on. \<open>isJSONFile\<close> is the repository's test on the
  name of the configuration file; \<open>ReadJSONFile\<close> is \<^verbatim>\<open>ioutil.ReadFile\<close> followed by
  \<^verbatim>\<open>json.Unmarshal\<close>, and \<open>ParseIniFile\<close> is \<^verbatim>\<open>ParseFile\<close> followed by \<^verbatim>\<open>Finish\<close>.
  \<open>rangeJobs\<close> is the order in which \<^verbatim>\<open>range\<close> visits the entries of the map of jobs,
  which Go leaves open: it returns the entries of the map in some order.
\<close>

record Env =
  ParseDuration :: "string \<Rightarrow> error + Duration"
  ParseFloat :: "string \<Rightarrow> error + float64"
  ParseUint :: "string \<Rightarrow> error + nat"
  Unquote :: "string \<Rightarrow> error + string"
  IsAbs :: "string \<Rightarrow> bool"
  Join :: "string \<Rightarrow> string \<Rightarrow> string"
  Open :: "string \<Rightarrow> error + File"
  ReadAll :: "File \<Rightarrow> error + string"
  Split :: "string \<Rightarrow> string \<Rightarrow> string list"
  NewSafeCSVWriter :: "string \<Rightarrow> error + SafeCSVWriter"
  isFieldSetJob :: "JobOptions \<Rightarrow> string \<Rightarrow> bool"
  isFieldSetSection :: "ReservedSectionOptions \<Rightarrow> string \<Rightarrow> bool"
  isFieldSetConfig :: "JSONConfig \<Rightarrow> string \<Rightarrow> bool"
  isJSONFile :: "string \<Rightarrow> bool"
  ReadJSONFile :: "string \<Rightarrow> error + JSONConfig"
  ParseIniFile :: "string \<Rightarrow> error + RawConfig"
  rangeJobs :: "(string \<times> Job) list \<Rightarrow> (string \<times> Job) list"

section \<open>Reading queries from a file\<close>

text \<open>
  The loop of \<^verbatim>\<open>readQueriesFromReader\<close> over the segments of the file, with the
  queries kept so far. A segment \<^verbatim>\<open>CheckQuery\<close> rejects with an error other than
  \<open>EmptyQueryError\<close> ends the loop with \<^verbatim>\<open>nil, fmt.Errorf("invalid query %v", err)\<close>;
  a segment it accepts is appended; an empty one is passed over.
\<close>

fun readQueriesLoop :: "DatabaseFlavor \<Rightarrow> string list \<Rightarrow> string list \<Rightarrow> error + string list" where
  "readQueriesLoop df [] queries = Inr queries"
| "readQueriesLoop df (query # rest) queries =
     (case CheckQuery df query of
        None \<Rightarrow> readQueriesLoop df rest (queries @ [query])
      | Some err \<Rightarrow>
          if err \<noteq> EmptyQueryError then Inl (InvalidQuery err)
          else readQueriesLoop df rest queries)"

definition readQueriesFromReader :: "Env \<Rightarrow> DatabaseFlavor \<Rightarrow> File \<Rightarrow> error + string list" where
  "readQueriesFromReader env df r =
     (case ReadAll env r of
        Inl err \<Rightarrow> Inl err
      | Inr contents \<Rightarrow> readQueriesLoop df (Split env contents (QuerySeparator df)) [])"

definition readQueriesFromFile :: "Env \<Rightarrow> DatabaseFlavor \<Rightarrow> string \<Rightarrow> error + string list" where
  "readQueriesFromFile env df queryFile =
     (case Open env queryFile of
        Inl err \<Rightarrow> Inl err
      | Inr file \<Rightarrow> readQueriesFromReader env df file)"

text \<open>
  The path a file option names: \<^verbatim>\<open>if !filepath.IsAbs(v) { v = filepath.Join(basedir, v) }\<close>.
\<close>

definition inBasedir :: "Env \<Rightarrow> string \<Rightarrow> string \<Rightarrow> string" where
  "inBasedir env basedir v = (if \<not> IsAbs env v then Join env basedir v else v)"

section \<open>Decoding an INI section\<close>

text \<open>
  \<^verbatim>\<open>goini\<close> is a library outside the repository. A \<^verbatim>\<open>DecodeOptionSet\<close> maps the name
  of an option to its kind and its \<^verbatim>\<open>Parse\<close> function, as the source writes it.
  \<open>Decode\<close> calls the \<^verbatim>\<open>Parse\<close> function of
  each property on its value and the destination, and stops at the first error, which it
  returns; a property whose name is no option of the set, and a second property for a
  \<open>UniqueOption\<close>, are errors. The third argument lists the names visited so far.
\<close>

datatype DecodeOptionKind = UniqueOption | MultiOption

type_synonym 's DecodeOption = "DecodeOptionKind \<times> (string \<Rightarrow> 's \<Rightarrow> error + 's)"

type_synonym 's DecodeOptionSet = "string \<Rightarrow> 's DecodeOption option"

fun Decode :: "'s DecodeOptionSet \<Rightarrow> RawSection \<Rightarrow> string list \<Rightarrow> 's \<Rightarrow> error + 's" where
  "Decode dos [] seen dst = Inr dst"
| "Decode dos ((name, v) # rs) seen dst =
     (case dos name of
        None \<Rightarrow> Inl (UnknownOption name)
      | Some (kind, parse) \<Rightarrow>
          if kind = UniqueOption \<and> name \<in> set seen then Inl (DuplicateOption name)
          else (case parse v dst of
                  Inl err \<Rightarrow> Inl err
                | Inr dst' \<Rightarrow> Decode dos rs (name # seen) dst'))"

section \<open>Jobs, INI form\<close>

record jobParser =
  jp_j :: Job
  jp_df :: DatabaseFlavor
  jp_basedir :: string
  queryArgsFile :: "File option"
  queryArgsDelim :: int
  multiQueryAllowed :: bool

text \<open>
  \<^verbatim>\<open>jobParser{j: job, df: df, basedir: basedir}\<close>: the other fields have their zero
  values.
\<close>

definition newJobParser :: "Job \<Rightarrow> DatabaseFlavor \<Rightarrow> string \<Rightarrow> jobParser" where
  "newJobParser job df basedir =
     \<lparr>jp_j = job, jp_df = df, jp_basedir = basedir, queryArgsFile = None,
      queryArgsDelim = 0, multiQueryAllowed = False\<rparr>"

text \<open>The \<^verbatim>\<open>Parse\<close> functions of \<^verbatim>\<open>jobOptions\<close>, in the order of the source.\<close>

definition parse_start :: "Env \<Rightarrow> string \<Rightarrow> jobParser \<Rightarrow> error + jobParser" where
  "parse_start env v jp =
     (case ParseDuration env v of
        Inl e \<Rightarrow> Inl e
      | Inr d \<Rightarrow> Inr (jp\<lparr>jp_j := (jp_j jp)\<lparr>Start := d\<rparr>\<rparr>))"

definition parse_stop :: "Env \<Rightarrow> string \<Rightarrow> jobParser \<Rightarrow> error + jobParser" where
  "parse_stop env v jp =
     (case ParseDuration env v of
        Inl e \<Rightarrow> Inl e
      | Inr d \<Rightarrow> Inr (jp\<lparr>jp_j := (jp_j jp)\<lparr>Stop := d\<rparr>\<rparr>))"

definition parse_query :: "string \<Rightarrow> jobParser \<Rightarrow> error + jobParser" where
  "parse_query v jp =
     (case CheckQuery (jp_df jp) v of
        Some e \<Rightarrow> Inl e
      | None \<Rightarrow> Inr (jp\<lparr>jp_j := (jp_j jp)\<lparr>Queries := Queries (jp_j jp) @ [v]\<rparr>\<rparr>))"

definition parse_query_file :: "Env \<Rightarrow> string \<Rightarrow> jobParser \<Rightarrow> error + jobParser" where
  "parse_query_file env v jp =
     (case readQueriesFromFile env (jp_df jp) (inBasedir env (jp_basedir jp) v) of
        Inl err \<Rightarrow> Inl err
      | Inr qs \<Rightarrow> Inr (jp\<lparr>jp_j := (jp_j jp)\<lparr>Queries := Queries (jp_j jp) @ qs\<rparr>\<rparr>))"

definition parse_query_args_file :: "Env \<Rightarrow> string \<Rightarrow> jobParser \<Rightarrow> error + jobParser" where
  "parse_query_args_file env v jp =
     (case Open env (inBasedir env (jp_basedir jp) v) of
        Inl err \<Rightarrow> Inl err
      | Inr f \<Rightarrow> Inr (jp\<lparr>queryArgsFile := Some f\<rparr>))"

definition parse_query_args_delim :: "Env \<Rightarrow> string \<Rightarrow> jobParser \<Rightarrow> error + jobParser" where
  "parse_query_args_delim env v jp =
     (case Unquote env v of
        Inl err \<Rightarrow> Inl err
      | Inr s \<Rightarrow>
          if length s \<noteq> 1 then Inl (New ''Must provide exactly one character for delimiter'')
          else Inr (jp\<lparr>queryArgsDelim := runeOfByte (hd s)\<rparr>))"

definition parse_query_results_file :: "Env \<Rightarrow> string \<Rightarrow> jobParser \<Rightarrow> error + jobParser" where
  "parse_query_results_file env v jp =
     (case NewSafeCSVWriter env (inBasedir env (jp_basedir jp) v) of
        Inl err \<Rightarrow> Inl err
      | Inr w \<Rightarrow> Inr (jp\<lparr>jp_j := (jp_j jp)\<lparr>QueryResults := Some w\<rparr>\<rparr>))"

definition parse_rate :: "Env \<Rightarrow> string \<Rightarrow> jobParser \<Rightarrow> error + jobParser" where
  "parse_rate env v jp =
     (case ParseFloat env v of
        Inl e \<Rightarrow> Inl e
      | Inr r \<Rightarrow>
          if f64_lt0 r then Inl (New ''invalid negative value for rate'')
          else Inr (jp\<lparr>jp_j := (jp_j jp)\<lparr>Rate := r\<rparr>\<rparr>))"

definition parse_batch_size :: "Env \<Rightarrow> string \<Rightarrow> jobParser \<Rightarrow> error + jobParser" where
  "parse_batch_size env v jp =
     (case ParseUint env v of
        Inl e \<Rightarrow> Inl e
      | Inr n \<Rightarrow> Inr (jp\<lparr>jp_j := (jp_j jp)\<lparr>BatchSize := n\<rparr>\<rparr>))"

text \<open>The options \<^verbatim>\<open>queue-depth\<close> and \<^verbatim>\<open>concurrency\<close> have the same \<^verbatim>\<open>Parse\<close> function.\<close>

definition parse_queue_depth :: "Env \<Rightarrow> string \<Rightarrow> jobParser \<Rightarrow> error + jobParser" where
  "parse_queue_depth env v jp =
     (case ParseUint env v of
        Inl e \<Rightarrow> Inl e
      | Inr n \<Rightarrow> Inr (jp\<lparr>jp_j := (jp_j jp)\<lparr>QueueDepth := n\<rparr>\<rparr>))"

definition parse_count :: "Env \<Rightarrow> string \<Rightarrow> jobParser \<Rightarrow> error + jobParser" where
  "parse_count env v jp =
     (case ParseUint env v of
        Inl e \<Rightarrow> Inl e
      | Inr n \<Rightarrow> Inr (jp\<lparr>jp_j := (jp_j jp)\<lparr>Count := n\<rparr>\<rparr>))"

definition parse_multi_query_mode :: "string \<Rightarrow> jobParser \<Rightarrow> error + jobParser" where
  "parse_multi_query_mode v jp =
     (if v = ''multi-connection'' then Inr (jp\<lparr>multiQueryAllowed := True\<rparr>)
      else Inl (InvalidMultiQueryMode v))"

definition parse_query_log_file :: "Env \<Rightarrow> string \<Rightarrow> jobParser \<Rightarrow> error + jobParser" where
  "parse_query_log_file env v jp =
     (case Open env (inBasedir env (jp_basedir jp) v) of
        Inl e \<Rightarrow> Inl e
      | Inr f \<Rightarrow> Inr (jp\<lparr>jp_j := (jp_j jp)\<lparr>QueryLog := Some f\<rparr>\<rparr>))"

definition jobOptions :: "Env \<Rightarrow> jobParser DecodeOptionSet" where
  "jobOptions env = map_of
     [(''start'', (UniqueOption, parse_start env)),
      (''stop'', (UniqueOption, parse_stop env)),
      (''query'', (MultiOption, parse_query)),
      (''query-file'', (MultiOption, parse_query_file env)),
      (''query-args-file'', (UniqueOption, parse_query_args_file env)),
      (''query-args-delim'', (UniqueOption, parse_query_args_delim env)),
      (''query-results-file'', (UniqueOption, parse_query_results_file env)),
      (''rate'', (UniqueOption, parse_rate env)),
      (''batch-size'', (UniqueOption, parse_batch_size env)),
      (''queue-depth'', (UniqueOption, parse_queue_depth env)),
      (''concurrency'', (UniqueOption, parse_queue_depth env)),
      (''count'', (UniqueOption, parse_count env)),
      (''multi-query-mode'', (UniqueOption, parse_multi_query_mode)),
      (''query-log-file'', (UniqueOption, parse_query_log_file env))]"

text \<open>
  The number of job types a job asks for: the variable \<^verbatim>\<open>differentJobTypes\<close> of
  \<^verbatim>\<open>decodeJobSection\<close> and of \<^verbatim>\<open>validateJobSection\<close> once the three tests have run.
\<close>

definition differentJobTypes :: "Job \<Rightarrow> nat" where
  "differentJobTypes job =
     (if QueueDepth job > 0 then 1 else 0) + (if QueryLog job \<noteq> None then 1 else 0) +
     (if f64_gt0 (Rate job) then 1 else 0)"

text \<open>
  The end of both functions: \<^verbatim>\<open>job.QueryArgs\<close> is a CSV reader on the arguments file,
  when there is one, with the delimiter of the section when there is one.
\<close>

definition wireQueryArgs :: "jobParser \<Rightarrow> Job \<Rightarrow> Job" where
  "wireQueryArgs jp job =
     (case queryArgsFile jp of
        None \<Rightarrow> job
      | Some f \<Rightarrow>
          job\<lparr>QueryArgs := Some (if queryArgsDelim jp \<noteq> 0
                                    then (csv_NewReader f)\<lparr>Comma := queryArgsDelim jp\<rparr>
                                    else csv_NewReader f)\<rparr>)"

text \<open>
  \<^verbatim>\<open>decodeJobSection\<close> returns an error or \<^verbatim>\<open>nil\<close> and writes the job through its
  pointer; the model returns the error or the job as written. On an error the caller
  drops the job.
\<close>

definition decodeJobSection :: "Env \<Rightarrow> DatabaseFlavor \<Rightarrow> RawSection \<Rightarrow> string \<Rightarrow> Job \<Rightarrow> error + Job" where
  "decodeJobSection env df section basedir job0 =
     (case Decode (jobOptions env) section [] (newJobParser job0 df basedir) of
        Inl err \<Rightarrow> Inl err
      | Inr jp \<Rightarrow>
          let job = jp_j jp in
          if length (Queries job) = 0 \<and> QueryLog job = None then
            Inl (New ''no query provided'')
          else if length (Queries job) > 0 \<and> QueryLog job \<noteq> None then
            Inl (New ''cannot have both queries and a query log'')
          else if length (Queries job) > 1 \<and> \<not> multiQueryAllowed jp then
            Inl MustHaveOnlyOneQuery
          else if f64_eq0 (Rate job) \<and> BatchSize job > 0 then
            Inl (New ''can only specify batch-size with rate'')
          else if queryArgsDelim jp \<noteq> 0 \<and> queryArgsFile jp = None then
            Inl (New ''Cannot set query-args-delim with no query-args-file'')
          else if queryArgsFile jp \<noteq> None \<and> QueryLog job \<noteq> None then
            Inl (New ''Cannot use query-args-file with query-log-file'')
          else
            let n = differentJobTypes job;
                job = (if n = 0 then job\<lparr>QueueDepth := 1\<rparr> else job)
            in if n > 1 then
                 Inl (New ''Can only specify one of rate, queue-depth, or query-log-file'')
               else
                 let job = (if f64_gt0 (Rate job) \<and> BatchSize job = 0
                            then job\<lparr>BatchSize := 1\<rparr> else job)
                 in Inr (wireQueryArgs jp job))"

section \<open>Jobs, JSON form\<close>

text \<open>
  \<^verbatim>\<open>validateJobSection\<close> is a sequence of blocks \<^verbatim>\<open>if isFieldSet(v, "Field") { ... }\<close>,
  each of which may return an error. Each block is a function on the parser state;
  \<open>runBlocks\<close> runs them in order and returns the first error.
\<close>

fun runBlocks :: "('s \<Rightarrow> error + 's) list \<Rightarrow> 's \<Rightarrow> error + 's" where
  "runBlocks [] s = Inr s"
| "runBlocks (f # fs) s = (case f s of Inl err \<Rightarrow> Inl err | Inr s' \<Rightarrow> runBlocks fs s')"

text \<open>
  \<^verbatim>\<open>for _, query := range queries\<close>: a query \<^verbatim>\<open>CheckQuery\<close> rejects is returned as the
  error, the others are appended.
\<close>

fun appendQueries :: "DatabaseFlavor \<Rightarrow> string list \<Rightarrow> string list \<Rightarrow> error + string list" where
  "appendQueries df [] acc = Inr acc"
| "appendQueries df (query # rest) acc =
     (case CheckQuery df query of
        Some err \<Rightarrow> Inl err
      | None \<Rightarrow> appendQueries df rest (acc @ [query]))"

text \<open>\<^verbatim>\<open>for _, queryFile := range queryFiles\<close>: the queries of each file are appended.\<close>

fun appendQueryFiles :: "Env \<Rightarrow> DatabaseFlavor \<Rightarrow> string \<Rightarrow> string list \<Rightarrow> string list \<Rightarrow> error + string list" where
  "appendQueryFiles env df basedir [] acc = Inr acc"
| "appendQueryFiles env df basedir (queryFile # rest) acc =
     (case readQueriesFromFile env df (inBasedir env basedir queryFile) of
        Inl err \<Rightarrow> Inl err
      | Inr queries \<Rightarrow> appendQueryFiles env df basedir rest (acc @ queries))"

definition field_Start :: "Env \<Rightarrow> JobOptions \<Rightarrow> jobParser \<Rightarrow> error + jobParser" where
  "field_Start env jobSpec jp =
     (if isFieldSetJob env jobSpec ''Start'' then
        (case ParseDuration env (opt_Start jobSpec) of
           Inl err \<Rightarrow> Inl err
         | Inr d \<Rightarrow> Inr (jp\<lparr>jp_j := (jp_j jp)\<lparr>Start := d\<rparr>\<rparr>))
      else Inr jp)"

definition field_Stop :: "Env \<Rightarrow> JobOptions \<Rightarrow> jobParser \<Rightarrow> error + jobParser" where
  "field_Stop env jobSpec jp =
     (if isFieldSetJob env jobSpec ''Stop'' then
        (case ParseDuration env (opt_Stop jobSpec) of
           Inl err \<Rightarrow> Inl err
         | Inr d \<Rightarrow> Inr (jp\<lparr>jp_j := (jp_j jp)\<lparr>Stop := d\<rparr>\<rparr>))
      else Inr jp)"

definition field_Queries :: "Env \<Rightarrow> DatabaseFlavor \<Rightarrow> JobOptions \<Rightarrow> jobParser \<Rightarrow> error + jobParser" where
  "field_Queries env df jobSpec jp =
     (if isFieldSetJob env jobSpec ''Queries'' then
        (case appendQueries df (opt_Queries jobSpec) (Queries (jp_j jp)) of
           Inl err \<Rightarrow> Inl err
         | Inr qs \<Rightarrow> Inr (jp\<lparr>jp_j := (jp_j jp)\<lparr>Queries := qs\<rparr>\<rparr>))
      else Inr jp)"

definition field_QueryFiles :: "Env \<Rightarrow> DatabaseFlavor \<Rightarrow> JobOptions \<Rightarrow> string \<Rightarrow> jobParser \<Rightarrow> error + jobParser" where
  "field_QueryFiles env df jobSpec basedir jp =
     (if isFieldSetJob env jobSpec ''QueryFiles'' then
        (case appendQueryFiles env df basedir (opt_QueryFiles jobSpec) (Queries (jp_j jp)) of
           Inl err \<Rightarrow> Inl err
         | Inr qs \<Rightarrow> Inr (jp\<lparr>jp_j := (jp_j jp)\<lparr>Queries := qs\<rparr>\<rparr>))
      else Inr jp)"

definition field_QueryArgsFile :: "Env \<Rightarrow> JobOptions \<Rightarrow> string \<Rightarrow> jobParser \<Rightarrow> error + jobParser" where
  "field_QueryArgsFile env jobSpec basedir jp =
     (if isFieldSetJob env jobSpec ''QueryArgsFile'' then
        (case Open env (inBasedir env basedir (opt_QueryArgsFile jobSpec)) of
           Inl err \<Rightarrow> Inl err
         | Inr f \<Rightarrow> Inr (jp\<lparr>queryArgsFile := Some f\<rparr>))
      else Inr jp)"

definition field_QueryArgsDelim :: "Env \<Rightarrow> JobOptions \<Rightarrow> jobParser \<Rightarrow> error + jobParser" where
  "field_QueryArgsDelim env jobSpec jp =
     (if isFieldSetJob env jobSpec ''QueryArgsDelim'' then
        (if length (opt_QueryArgsDelim jobSpec) \<noteq> 1 then
           Inl (New ''Must provide exactly one character for delimiter'')
         else Inr (jp\<lparr>queryArgsDelim := runeOfByte (hd (opt_QueryArgsDelim jobSpec))\<rparr>))
      else Inr jp)"

definition field_QueryResultsFile :: "Env \<Rightarrow> JobOptions \<Rightarrow> string \<Rightarrow> jobParser \<Rightarrow> error + jobParser" where
  "field_QueryResultsFile env jobSpec basedir jp =
     (if isFieldSetJob env jobSpec ''QueryResultsFile'' then
        (case NewSafeCSVWriter env (inBasedir env basedir (opt_QueryResultsFile jobSpec)) of
           Inl err \<Rightarrow> Inl err
         | Inr w \<Rightarrow> Inr (jp\<lparr>jp_j := (jp_j jp)\<lparr>QueryResults := Some w\<rparr>\<rparr>))
      else Inr jp)"

definition field_Rate :: "Env \<Rightarrow> JobOptions \<Rightarrow> jobParser \<Rightarrow> error + jobParser" where
  "field_Rate env jobSpec jp =
     (if isFieldSetJob env jobSpec ''Rate'' then
        (if f64_lt0 (opt_Rate jobSpec) then Inl (New ''invalid negative value for rate'')
         else Inr (jp\<lparr>jp_j := (jp_j jp)\<lparr>Rate := opt_Rate jobSpec\<rparr>\<rparr>))
      else Inr jp)"

definition field_BatchSize :: "Env \<Rightarrow> JobOptions \<Rightarrow> jobParser \<Rightarrow> error + jobParser" where
  "field_BatchSize env jobSpec jp =
     (if isFieldSetJob env jobSpec ''BatchSize''
      then Inr (jp\<lparr>jp_j := (jp_j jp)\<lparr>BatchSize := opt_BatchSize jobSpec\<rparr>\<rparr>)
      else Inr jp)"

definition field_QueueDepth :: "Env \<Rightarrow> JobOptions \<Rightarrow> jobParser \<Rightarrow> error + jobParser" where
  "field_QueueDepth env jobSpec jp =
     (if isFieldSetJob env jobSpec ''QueueDepth''
      then Inr (jp\<lparr>jp_j := (jp_j jp)\<lparr>QueueDepth := opt_QueueDepth jobSpec\<rparr>\<rparr>)
      else Inr jp)"

definition field_Concurrency :: "Env \<Rightarrow> JobOptions \<Rightarrow> jobParser \<Rightarrow> error + jobParser" where
  "field_Concurrency env jobSpec jp =
     (if isFieldSetJob env jobSpec ''Concurrency''
      then Inr (jp\<lparr>jp_j := (jp_j jp)\<lparr>QueueDepth := opt_Concurrency jobSpec\<rparr>\<rparr>)
      else Inr jp)"

definition field_Count :: "Env \<Rightarrow> JobOptions \<Rightarrow> jobParser \<Rightarrow> error + jobParser" where
  "field_Count env jobSpec jp =
     (if isFieldSetJob env jobSpec ''Count''
      then Inr (jp\<lparr>jp_j := (jp_j jp)\<lparr>Count := opt_Count jobSpec\<rparr>\<rparr>)
      else Inr jp)"

definition field_MultiQueryMode :: "Env \<Rightarrow> JobOptions \<Rightarrow> jobParser \<Rightarrow> error + jobParser" where
  "field_MultiQueryMode env jobSpec jp =
     (if isFieldSetJob env jobSpec ''MultiQueryMode''
      then Inr (jp\<lparr>multiQueryAllowed := opt_MultiQueryMode jobSpec\<rparr>)
      else Inr jp)"

definition field_QueryLogFile :: "Env \<Rightarrow> JobOptions \<Rightarrow> string \<Rightarrow> jobParser \<Rightarrow> error + jobParser" where
  "field_QueryLogFile env jobSpec basedir jp =
     (if isFieldSetJob env jobSpec ''QueryLogFile'' then
        (case Open env (inBasedir env basedir (opt_QueryLogFile jobSpec)) of
           Inl err \<Rightarrow> Inl err
         | Inr f \<Rightarrow> Inr (jp\<lparr>jp_j := (jp_j jp)\<lparr>QueryLog := Some f\<rparr>\<rparr>))
      else Inr jp)"

text \<open>The blocks of \<^verbatim>\<open>validateJobSection\<close> up to line 579, in the order of the source.\<close>

definition jobFields :: "Env \<Rightarrow> DatabaseFlavor \<Rightarrow> JobOptions \<Rightarrow> string \<Rightarrow> (jobParser \<Rightarrow> error + jobParser) list" where
  "jobFields env df jobSpec basedir =
     [field_Start env jobSpec, field_Stop env jobSpec, field_Queries env df jobSpec,
      field_QueryFiles env df jobSpec basedir, field_QueryArgsFile env jobSpec basedir,
      field_QueryArgsDelim env jobSpec, field_QueryResultsFile env jobSpec basedir,
      field_Rate env jobSpec, field_BatchSize env jobSpec, field_QueueDepth env jobSpec,
      field_Concurrency env jobSpec, field_Count env jobSpec,
      field_MultiQueryMode env jobSpec, field_QueryLogFile env jobSpec basedir]"

definition validateJobSection :: "Env \<Rightarrow> DatabaseFlavor \<Rightarrow> JobOptions \<Rightarrow> string \<Rightarrow> Job \<Rightarrow> error + Job" where
  "validateJobSection env df jobSpec basedir job0 =
     (case runBlocks (jobFields env df jobSpec basedir) (newJobParser job0 df basedir) of
        Inl err \<Rightarrow> Inl err
      | Inr jp \<Rightarrow>
          let job = jp_j jp in
          if length (Queries job) = 0 \<and> QueryLog job = None then
            Inl (New ''no query provided'')
          else if length (Queries job) > 0 \<and> QueryLog job \<noteq> None then
            Inl (New ''cannot have both queries and a queryLog'')
          else if length (Queries job) > 1 \<and> \<not> multiQueryAllowed jp then
            Inl MustHaveOnlyOneQuery
          else if f64_eq0 (Rate job) \<and> BatchSize job > 0 then
            Inl (New ''can only specify batchSize with rate'')
          else if queryArgsDelim jp \<noteq> 0 \<and> queryArgsFile jp = None then
            Inl (New ''Cannot set queryArgsDelim with no queryArgsFile'')
          else if queryArgsFile jp \<noteq> None \<and> QueryLog job \<noteq> None then
            Inl (New ''Cannot use queryArgsFile with queryLogFile'')
          else
            let n = differentJobTypes job in
            if n = 0 then
              (let job = job\<lparr>QueueDepth := 1\<rparr>;
                   job = (if f64_gt0 (Rate job) \<and> BatchSize job = 0
                          then job\<lparr>BatchSize := 1\<rparr> else job)
               in Inr (wireQueryArgs jp job))
            else if n > 1 then
              Inl (New ''Can only specify one of rate, queue-depth, or query-log-file'')
            else
              (let job = (if f64_gt0 (Rate job) \<and> BatchSize job = 0
                          then job\<lparr>BatchSize := 1\<rparr> else job)
               in Inr (wireQueryArgs jp job)))"

section \<open>The whole configuration\<close>

text \<open>
  \<^verbatim>\<open>Config\<close>. The map of jobs is an association list with one entry for a name;
  \<open>putJob\<close> is the assignment \<^verbatim>\<open>config.Jobs[name] = job\<close>. The set of accepted errors is
  \<^verbatim>\<open>nil\<close> until the first error is added.
\<close>

record Config =
  Flavor :: DatabaseFlavor
  Duration :: Duration
  Setup :: "string list"
  Teardown :: "string list"
  Jobs :: "(string \<times> Job) list"
  AcceptedErrors :: "string set option"

fun putJob :: "(string \<times> Job) list \<Rightarrow> string \<Rightarrow> Job \<Rightarrow> (string \<times> Job) list" where
  "putJob [] name job = [(name, job)]"
| "putJob ((k, v) # m) name job = (if k = name then (k, job) # m else (k, v) # putJob m name job)"

text \<open>\<^verbatim>\<open>new(Config)\<close> followed by \<^verbatim>\<open>config.Flavor = df\<close>.\<close>

definition newConfig :: "DatabaseFlavor \<Rightarrow> Config" where
  "newConfig df = \<lparr>Flavor = df, Duration = 0, Setup = [], Teardown = [], Jobs = [],
     AcceptedErrors = None\<rparr>"

definition parse_duration :: "Env \<Rightarrow> string \<Rightarrow> Config \<Rightarrow> error + Config" where
  "parse_duration env v c =
     (case ParseDuration env v of Inl e \<Rightarrow> Inl e | Inr d \<Rightarrow> Inr (c\<lparr>Duration := d\<rparr>))"

definition parse_error :: "string \<Rightarrow> Config \<Rightarrow> error + Config" where
  "parse_error v c =
     Inr (c\<lparr>AcceptedErrors :=
            Some (insert v (case AcceptedErrors c of None \<Rightarrow> {} | Some s \<Rightarrow> s))\<rparr>)"

definition globalOptions :: "Env \<Rightarrow> Config DecodeOptionSet" where
  "globalOptions env = map_of
     [(''duration'', (UniqueOption, parse_duration env)),
      (''error'', (MultiOption, parse_error))]"

definition decodeGlobalSection :: "Env \<Rightarrow> DatabaseFlavor \<Rightarrow> RawSection \<Rightarrow> Config \<Rightarrow> error + Config" where
  "decodeGlobalSection env df s c = Decode (globalOptions env) s [] c"

definition validateGlobalSection :: "Env \<Rightarrow> JSONConfig \<Rightarrow> Config \<Rightarrow> error + Config" where
  "validateGlobalSection env jsonConfig c =
     (case (if isFieldSetConfig env jsonConfig ''Duration'' then
              (case ParseDuration env (json_Duration jsonConfig) of
                 Inl err \<Rightarrow> Inl err
               | Inr d \<Rightarrow> Inr (c\<lparr>Duration := d\<rparr>))
            else Inr c) of
        Inl err \<Rightarrow> Inl err
      | Inr c \<Rightarrow>
          if isFieldSetConfig env jsonConfig ''Errors''
          then Inr (c\<lparr>AcceptedErrors := Some (set (json_Errors jsonConfig))\<rparr>)
          else Inr c)"

record setupSectionParser =
  ssp_queries :: "string list"
  ssp_df :: DatabaseFlavor
  ssp_basedir :: string

definition setup_query :: "string \<Rightarrow> setupSectionParser \<Rightarrow> error + setupSectionParser" where
  "setup_query v ssp =
     (case CheckQuery (ssp_df ssp) v of
        Some e \<Rightarrow> Inl e
      | None \<Rightarrow> Inr (ssp\<lparr>ssp_queries := ssp_queries ssp @ [v]\<rparr>))"

definition setup_query_file :: "Env \<Rightarrow> string \<Rightarrow> setupSectionParser \<Rightarrow> error + setupSectionParser" where
  "setup_query_file env v ssp =
     (case readQueriesFromFile env (ssp_df ssp) (inBasedir env (ssp_basedir ssp) v) of
        Inl err \<Rightarrow> Inl err
      | Inr qs \<Rightarrow> Inr (ssp\<lparr>ssp_queries := ssp_queries ssp @ qs\<rparr>))"

definition setupOptions :: "Env \<Rightarrow> setupSectionParser DecodeOptionSet" where
  "setupOptions env = map_of
     [(''query'', (MultiOption, setup_query)),
      (''query-file'', (MultiOption, setup_query_file env))]"

text \<open>
  \<^verbatim>\<open>decodeSetupSection\<close> writes the queries through \<^verbatim>\<open>ss\<close> when there is no error; the
  model returns them.
\<close>

definition decodeSetupSection :: "Env \<Rightarrow> DatabaseFlavor \<Rightarrow> RawSection \<Rightarrow> string \<Rightarrow> error + string list" where
  "decodeSetupSection env df s basedir =
     (case Decode (setupOptions env) s [] \<lparr>ssp_queries = [], ssp_df = df, ssp_basedir = basedir\<rparr> of
        Inl err \<Rightarrow> Inl err
      | Inr parser \<Rightarrow> Inr (ssp_queries parser))"

text \<open>
  \<^verbatim>\<open>validateReservedSection\<close> appends to the list behind \<^verbatim>\<open>ss\<close>; the model takes the
  list and returns it extended. For a section name other than the two of the
  \<^verbatim>\<open>switch\<close> the section keeps its zero value.
\<close>

definition validateReservedSection :: "Env \<Rightarrow> DatabaseFlavor \<Rightarrow> JSONConfig \<Rightarrow> string \<Rightarrow> string \<Rightarrow> string list \<Rightarrow> error + string list" where
  "validateReservedSection env df jsonConfig basedir sectionName ss =
     (if \<not> isFieldSetConfig env jsonConfig sectionName then Inr ss
      else
        let section = (if sectionName = ''Setup'' then json_Setup jsonConfig
                       else if sectionName = ''Teardown'' then json_Teardown jsonConfig
                       else \<lparr>sec_Queries = [], sec_QueryFiles = []\<rparr>)
        in case (if isFieldSetSection env section ''Queries''
                 then appendQueries df (sec_Queries section) ss else Inr ss) of
             Inl err \<Rightarrow> Inl err
           | Inr ss \<Rightarrow>
               if isFieldSetSection env section ''QueryFiles''
               then appendQueryFiles env df basedir (sec_QueryFiles section) ss
               else Inr ss)"

text \<open>
  The loop of \<^verbatim>\<open>decodeConfigJobs\<close> over the names of the sections. \<^verbatim>\<open>new(Job)\<close> with
  its name is the job the section is decoded into.
\<close>

fun decodeJobsLoop :: "Env \<Rightarrow> DatabaseFlavor \<Rightarrow> RawConfig \<Rightarrow> string \<Rightarrow> string list \<Rightarrow> (string \<times> Job) list \<Rightarrow> error + (string \<times> Job) list" where
  "decodeJobsLoop env df iniConfig basedir [] jobs = Inr jobs"
| "decodeJobsLoop env df iniConfig basedir (name # rest) jobs =
     (if name = ''setup'' \<or> name = ''teardown'' \<or> name = ''global''
      then decodeJobsLoop env df iniConfig basedir rest jobs
      else (case decodeJobSection env df (Section iniConfig name) basedir (newJob\<lparr>Name := name\<rparr>) of
              Inl err \<Rightarrow> Inl (ErrorParsingJob name err)
            | Inr job \<Rightarrow> decodeJobsLoop env df iniConfig basedir rest (putJob jobs name job)))"

definition decodeConfigJobs :: "Env \<Rightarrow> DatabaseFlavor \<Rightarrow> RawConfig \<Rightarrow> string \<Rightarrow> Config \<Rightarrow> error + Config" where
  "decodeConfigJobs env df iniConfig basedir config =
     (case decodeJobsLoop env df iniConfig basedir (map fst (Sections iniConfig)) [] of
        Inl err \<Rightarrow> Inl err
      | Inr jobs \<Rightarrow> Inr (config\<lparr>Jobs := jobs\<rparr>))"

text \<open>
  The loop of \<^verbatim>\<open>validateConfigJobs\<close> over the entries of \<^verbatim>\<open>jsonConfig.Jobs\<close>, in the
  order in which \<^verbatim>\<open>range\<close> visits them.
\<close>

fun validateJobsLoop :: "Env \<Rightarrow> DatabaseFlavor \<Rightarrow> string \<Rightarrow> (string \<times> JobOptions) list \<Rightarrow> (string \<times> Job) list \<Rightarrow> error + (string \<times> Job) list" where
  "validateJobsLoop env df basedir [] jobs = Inr jobs"
| "validateJobsLoop env df basedir ((name, jobSpec) # rest) jobs =
     (if name = ''setup'' \<or> name = ''teardown'' \<or> name = ''global''
      then validateJobsLoop env df basedir rest jobs
      else (case validateJobSection env df jobSpec basedir (newJob\<lparr>Name := name\<rparr>) of
              Inl err \<Rightarrow> Inl (ErrorParsingJob name err)
            | Inr job \<Rightarrow> validateJobsLoop env df basedir rest (putJob jobs name job)))"

definition validateConfigJobs :: "Env \<Rightarrow> DatabaseFlavor \<Rightarrow> JSONConfig \<Rightarrow> string \<Rightarrow> Config \<Rightarrow> error + Config" where
  "validateConfigJobs env df jsonConfig basedir c =
     (if \<not> isFieldSetConfig env jsonConfig ''Jobs'' then Inr (c\<lparr>Jobs := []\<rparr>)
      else (case validateJobsLoop env df basedir (json_Jobs jsonConfig) [] of
              Inl err \<Rightarrow> Inl err
            | Inr jobs \<Rightarrow> Inr (c\<lparr>Jobs := jobs\<rparr>)))"

text \<open>
  The last loop of \<^verbatim>\<open>parseIniConfig\<close> and of \<^verbatim>\<open>parseJSONConfig\<close>, the same text in
  both: \<^verbatim>\<open>for name, job := range config.Jobs\<close>, over the entries in the order given.
\<close>

fun checkJobTimes :: "Duration \<Rightarrow> (string \<times> Job) list \<Rightarrow> error option" where
  "checkJobTimes duration [] = None"
| "checkJobTimes duration ((name, job) # rest) =
     (if duration > 0 \<and> Start job > duration then Some (StartsAfterTestFinishes name)
      else if Stop job > 0 \<and> duration > 0 \<and> Stop job > duration then Some (StopsAfterTestFinishes name)
      else checkJobTimes duration rest)"

text \<open>
  Lines 660 to 675 of \<^verbatim>\<open>parseIniConfig\<close>: the four kinds of section decoded into a
  \<^verbatim>\<open>Config\<close>.
\<close>

definition iniSections :: "Env \<Rightarrow> DatabaseFlavor \<Rightarrow> RawConfig \<Rightarrow> string \<Rightarrow> error + Config" where
  "iniSections env df iniConfig basedir =
     (case decodeGlobalSection env df (GlobalSection iniConfig) (newConfig df) of
        Inl err \<Rightarrow> Inl (ErrorParsingSection ''global'' err)
      | Inr config \<Rightarrow>
     (case decodeSetupSection env df (Section iniConfig ''setup'') basedir of
        Inl err \<Rightarrow> Inl (ErrorParsingSection ''setup'' err)
      | Inr setup \<Rightarrow>
     (case decodeSetupSection env df (Section iniConfig ''teardown'') basedir of
        Inl err \<Rightarrow> Inl (ErrorParsingSection ''teardown'' err)
      | Inr teardown \<Rightarrow>
          decodeConfigJobs env df iniConfig basedir
            (config\<lparr>Setup := setup, Teardown := teardown\<rparr>))))"

definition parseIniConfig :: "Env \<Rightarrow> DatabaseFlavor \<Rightarrow> RawConfig \<Rightarrow> string \<Rightarrow> error + Config" where
  "parseIniConfig env df iniConfig basedir =
     (case iniSections env df iniConfig basedir of
        Inl err \<Rightarrow> Inl err
      | Inr config \<Rightarrow>
          (case checkJobTimes (Duration config) (rangeJobs env (Jobs config)) of
             Some err \<Rightarrow> Inl err
           | None \<Rightarrow> Inr config))"

text \<open>Lines 699 to 714 of \<^verbatim>\<open>parseJSONConfig\<close>.\<close>

definition jsonSections :: "Env \<Rightarrow> DatabaseFlavor \<Rightarrow> JSONConfig \<Rightarrow> string \<Rightarrow> error + Config" where
  "jsonSections env df jsonConfig basedir =
     (case validateGlobalSection env jsonConfig (newConfig df) of
        Inl err \<Rightarrow> Inl (ErrorParsingSection ''global'' err)
      | Inr config \<Rightarrow>
     (case validateReservedSection env df jsonConfig basedir ''Setup'' (Setup config) of
        Inl err \<Rightarrow> Inl (ErrorParsingSection ''setup'' err)
      | Inr setup \<Rightarrow>
     (case validateReservedSection env df jsonConfig basedir ''Teardown'' (Teardown config) of
        Inl err \<Rightarrow> Inl (ErrorParsingSection ''teardown'' err)
      | Inr teardown \<Rightarrow>
          validateConfigJobs env df jsonConfig basedir
            (config\<lparr>Setup := setup, Teardown := teardown\<rparr>))))"

definition parseJSONConfig :: "Env \<Rightarrow> DatabaseFlavor \<Rightarrow> JSONConfig \<Rightarrow> string \<Rightarrow> error + Config" where
  "parseJSONConfig env df jsonConfig basedir =
     (case jsonSections env df jsonConfig basedir of
        Inl err \<Rightarrow> Inl err
      | Inr config \<Rightarrow>
          (case checkJobTimes (Duration config) (rangeJobs env (Jobs config)) of
             Some err \<Rightarrow> Inl err
           | None \<Rightarrow> Inr config))"

definition parseConfig :: "Env \<Rightarrow> DatabaseFlavor \<Rightarrow> string \<Rightarrow> string \<Rightarrow> error + Config" where
  "parseConfig env df configFile baseDir =
     (if isJSONFile env configFile then
        (case ReadJSONFile env configFile of
           Inl err \<Rightarrow> Inl err
         | Inr jsonConfig \<Rightarrow> parseJSONConfig env df jsonConfig baseDir)
      else
        (case ParseIniFile env configFile of
           Inl err \<Rightarrow> Inl err
         | Inr iniConfig \<Rightarrow> parseIniConfig env df iniConfig baseDir))"

section \<open>Running a test\<close>

text \<open>
  What \<^verbatim>\<open>runTest\<close> does that can be seen from outside, in order: the lines it logs,
  the queries it runs on the database, the jobs it runs, the file of statistics it
  writes. \<^verbatim>\<open>log.Fatalf\<close> prints its message and ends the process with status 1: no
  statement after it runs.
\<close>

datatype fatal =
    ErrorInSetupQuery string error
      \<comment> \<open>\<^verbatim>\<open>log.Fatalf("error in setup query %q: %v", query, err)\<close>\<close>
  | ErrorInTeardownQuery string error
      \<comment> \<open>\<^verbatim>\<open>log.Fatalf("error in teardown query %q: %v", query, err)\<close>\<close>
  | CreatingOutputFile error
      \<comment> \<open>\<^verbatim>\<open>log.Fatalf("creating output file %v", err)\<close>\<close>
  | WrittingOutputToFile error
      \<comment> \<open>\<^verbatim>\<open>log.Fatalf("writting output to file %v", err)\<close>\<close>

datatype 'stats event =
    PerformingSetup
      \<comment> \<open>\<^verbatim>\<open>log.Printf("Performing setup")\<close>\<close>
  | PerformingTeardown
      \<comment> \<open>\<^verbatim>\<open>log.Printf("Performing teardown")\<close>\<close>
  | SetupQuery string
      \<comment> \<open>\<^verbatim>\<open>db.RunQuery(nil, query, nil)\<close> in the loop over \<^verbatim>\<open>config.Setup\<close>\<close>
  | TeardownQuery string
      \<comment> \<open>\<^verbatim>\<open>db.RunQuery(nil, query, nil)\<close> in the loop over \<^verbatim>\<open>config.Teardown\<close>\<close>
  | JobsStarted
      \<comment> \<open>\<^verbatim>\<open>makeJobResultChan(ctx, db, df, config.Jobs)\<close> starts the jobs\<close>
  | Stats string 'stats
      \<comment> \<open>\<^verbatim>\<open>log.Printf("%s: %v", name, stats)\<close>\<close>
  | StatsFile string
      \<comment> \<open>\<^verbatim>\<open>writeStatsToFile\<close> has written the file of this name\<close>
  | Fatalf fatal

text \<open>
  How the call ends: it returns, the process exits in \<^verbatim>\<open>log.Fatalf\<close>, or the jobs never
  all return (a test with no duration runs until it is interrupted).
\<close>

datatype outcome = Returns | Exits | Waits

text \<open>
  What \<^verbatim>\<open>runTest\<close> calls and the files under study do not define. The database is a
  state \<open>'db\<close>; \<open>RunQuery\<close> gives the error of \<^verbatim>\<open>db.RunQuery(nil, query, nil)\<close>, if any,
  and the next state. \<open>processResults\<close> is
  \<^verbatim>\<open>processResults(config, makeJobResultChan(ctx, db, df, config.Jobs))\<close>: the statistics
  of each job in the order \<^verbatim>\<open>range testStats\<close> visits them, and the next state of the
  database, or \<open>None\<close> when the jobs never all return. \<open>JsonOutputFile\<close> is the field of
  \<^verbatim>\<open>RunnerConfig\<close>; \<open>Create\<close> is the error of \<^verbatim>\<open>os.Create\<close> and \<open>Encode\<close> the error
  of \<^verbatim>\<open>encoder.Encode(getJobsSummary(testStats))\<close>, if any.
\<close>

record ('db, 'stats) Runner =
  RunQuery :: "'db \<Rightarrow> string \<Rightarrow> error option \<times> 'db"
  processResults :: "Config \<Rightarrow> 'db \<Rightarrow> ((string \<times> 'stats) list \<times> 'db) option"
  JsonOutputFile :: string
  Create :: "string \<Rightarrow> error option"
  Encode :: "(string \<times> 'stats) list \<Rightarrow> error option"

text \<open>
  \<^verbatim>\<open>for _, query := range queries { if _, err := db.RunQuery(nil, query, nil); err != nil
  { log.Fatalf(...) } }\<close>: the queries run, the query that failed with its error if one
  did, and the database afterwards.
\<close>

fun runQueries :: "('db \<Rightarrow> string \<Rightarrow> error option \<times> 'db) \<Rightarrow> 'db \<Rightarrow> string list \<Rightarrow> string list \<times> (string \<times> error) option \<times> 'db" where
  "runQueries rq db [] = ([], None, db)"
| "runQueries rq db (query # rest) =
     (case rq db query of
        (Some err, db') \<Rightarrow> ([query], Some (query, err), db')
      | (None, db') \<Rightarrow>
          (case runQueries rq db' rest of (executed, failure, db'') \<Rightarrow> (query # executed, failure, db'')))"

text \<open>\<^verbatim>\<open>writeStatsToFile\<close>: the events it adds and whether it ended the process.\<close>

definition writeStatsToFile :: "('db, 'stats) Runner \<Rightarrow> (string \<times> 'stats) list \<Rightarrow> 'stats event list \<times> bool" where
  "writeStatsToFile r testStats =
     (case Create r (JsonOutputFile r @ ''.json'') of
        Some err \<Rightarrow> ([Fatalf (CreatingOutputFile err)], True)
      | None \<Rightarrow>
          (case Encode r testStats of
             Some err \<Rightarrow> ([Fatalf (WrittingOutputToFile err)], True)
           | None \<Rightarrow> ([StatsFile (JsonOutputFile r @ ''.json'')], False)))"

text \<open>The teardown of \<^verbatim>\<open>runTest\<close>, lines 97 to 104.\<close>

definition runTeardown :: "('db, 'stats) Runner \<Rightarrow> 'db \<Rightarrow> Config \<Rightarrow> 'stats event list \<times> outcome" where
  "runTeardown r db config =
     (if length (Teardown config) > 0 then
        (case runQueries (RunQuery r) db (Teardown config) of
           (executed, Some (query, err), db') \<Rightarrow>
             (PerformingTeardown # map TeardownQuery executed @ [Fatalf (ErrorInTeardownQuery query err)], Exits)
         | (executed, None, db') \<Rightarrow> (PerformingTeardown # map TeardownQuery executed, Returns))
      else ([], Returns))"

text \<open>\<^verbatim>\<open>runTest\<close> from line 80 on: the jobs, the statistics, the teardown.\<close>

definition runJobsAndTeardown :: "('db, 'stats) Runner \<Rightarrow> 'db \<Rightarrow> Config \<Rightarrow> 'stats event list \<times> outcome" where
  "runJobsAndTeardown r db config =
     (case processResults r config db of
        None \<Rightarrow> ([JobsStarted], Waits)
      | Some (testStats, db') \<Rightarrow>
          let logged = JobsStarted # map (\<lambda>(name, stats). Stats name stats) testStats in
          (case (if length (JsonOutputFile r) > 0 then writeStatsToFile r testStats else ([], False)) of
             (written, True) \<Rightarrow> (logged @ written, Exits)
           | (written, False) \<Rightarrow>
               (case runTeardown r db' config of
                  (evs, out) \<Rightarrow> (logged @ written @ evs, out))))"

definition runTest :: "('db, 'stats) Runner \<Rightarrow> 'db \<Rightarrow> DatabaseFlavor \<Rightarrow> Config \<Rightarrow> 'stats event list \<times> outcome" where
  "runTest r db df config =
     (if length (Setup config) > 0 then
        (case runQueries (RunQuery r) db (Setup config) of
           (executed, Some (query, err), db') \<Rightarrow>
             (PerformingSetup # map SetupQuery executed @ [Fatalf (ErrorInSetupQuery query err)], Exits)
         | (executed, None, db') \<Rightarrow>
             (case runJobsAndTeardown r db' config of
                (evs, out) \<Rightarrow> (PerformingSetup # map SetupQuery executed @ evs, out)))
      else runJobsAndTeardown r db config)"

text \<open>
  \<^verbatim>\<open>main\<close> from the parsing of the configuration on: a configuration that does not
  parse ends the process in \<^verbatim>\<open>log.Fatalf("parsing config file %v", err)\<close> before the
  database is connected and before \<^verbatim>\<open>runTest\<close> is called. \<open>connect\<close> is
  \<^verbatim>\<open>flavor.Connect(&GlobalConfig)\<close>.
\<close>

datatype 'stats mainResult =
    ParsingConfigFile error
  | ErrorConnecting error
  | Ran "'stats event list" outcome

definition main_run :: "Env \<Rightarrow> ('db, 'stats) Runner \<Rightarrow> (error + 'db) \<Rightarrow> DatabaseFlavor \<Rightarrow> string \<Rightarrow> string \<Rightarrow> 'stats mainResult" where
  "main_run env r connect flavor configFile baseDir =
     (case parseConfig env flavor configFile baseDir of
        Inl err \<Rightarrow> ParsingConfigFile err
      | Inr config \<Rightarrow>
          (case connect of
             Inl err \<Rightarrow> ErrorConnecting err
           | Inr db \<Rightarrow> (case runTest r db flavor config of (evs, out) \<Rightarrow> Ran evs out)))"

section \<open>An instance of the parameters\<close>

text \<open>
  To run the model on concrete inputs the parameters need values. The instance below
  gives each library function the value Go gives it on the few strings the examples
  use, and an error on every other string: \<^verbatim>\<open>time.ParseDuration\<close> of \<^verbatim>\<open>2s\<close>, \<^verbatim>\<open>5s\<close>,
  \<^verbatim>\<open>10s\<close> and \<^verbatim>\<open>-5s\<close> in nanoseconds; \<^verbatim>\<open>strconv.ParseFloat\<close> of \<^verbatim>\<open>0\<close>, \<^verbatim>\<open>10\<close>, \<^verbatim>\<open>-1\<close>
  and \<^verbatim>\<open>NaN\<close> (which Go parses, without an error, to the value NaN); \<^verbatim>\<open>strconv.ParseUint\<close>
  of the numbers up to 5; \<^verbatim>\<open>strings.Split\<close> on a separator of one byte. The file
  system has a directory \<^verbatim>\<open>/base\<close> with two files of queries and a file of arguments.
  \<^verbatim>\<open>isFieldSet\<close> holds of a field that differs from the zero value of its type.
\<close>

fun splitByte :: "char \<Rightarrow> string \<Rightarrow> string \<Rightarrow> string list" where
  "splitByte sep cur [] = [cur]"
| "splitByte sep cur (c # cs) =
     (if c = sep then cur # splitByte sep [] cs else splitByte sep (cur @ [c]) cs)"

text \<open>The euro sign, U+20AC, in UTF-8.\<close>

definition euro :: string where
  "euro = [CHR 0xE2, CHR 0x82, CHR 0xAC]"

text \<open>
  \<^verbatim>\<open>strconv.Unquote\<close> on the texts the examples use: a text between double quotes whose
  bytes are printable ASCII characters other than the quote and the backslash, or are
  the euro sign. Every other text is answered with an error.
\<close>

definition sampleUnquote :: "string \<Rightarrow> error + string" where
  "sampleUnquote v =
     (if 2 \<le> length v \<and> hd v = CHR 0x22 \<and> last v = CHR 0x22 \<and>
         (butlast (tl v) = euro \<or>
          list_all (\<lambda>c. c \<noteq> CHR 0x22 \<and> c \<noteq> CHR 0x5C \<and>
                         (32::nat) \<le> of_char c \<and> of_char c < (127::nat)) (butlast (tl v)))
      then Inr (butlast (tl v)) else Inl (New ''invalid syntax''))"

definition sampleFiles :: "(string \<times> string) list" where
  "sampleFiles =
     [(''/base/queries.sql'', ''select 1;;select 2''),
      (''/base/bad.sql'', ''select 1;begin;select 2''),
      (''/base/args.csv'', ''1;2'')]"

definition sampleIsFieldSetJob :: "JobOptions \<Rightarrow> string \<Rightarrow> bool" where
  "sampleIsFieldSetJob jobSpec field =
     (if field = ''Start'' then opt_Start jobSpec \<noteq> []
      else if field = ''Stop'' then opt_Stop jobSpec \<noteq> []
      else if field = ''Queries'' then opt_Queries jobSpec \<noteq> []
      else if field = ''QueryFiles'' then opt_QueryFiles jobSpec \<noteq> []
      else if field = ''QueryArgsFile'' then opt_QueryArgsFile jobSpec \<noteq> []
      else if field = ''QueryArgsDelim'' then opt_QueryArgsDelim jobSpec \<noteq> []
      else if field = ''QueryResultsFile'' then opt_QueryResultsFile jobSpec \<noteq> []
      else if field = ''Rate'' then opt_Rate jobSpec \<noteq> Finite 0
      else if field = ''BatchSize'' then opt_BatchSize jobSpec \<noteq> 0
      else if field = ''QueueDepth'' then opt_QueueDepth jobSpec \<noteq> 0
      else if field = ''Concurrency'' then opt_Concurrency jobSpec \<noteq> 0
      else if field = ''Count'' then opt_Count jobSpec \<noteq> 0
      else if field = ''MultiQueryMode'' then opt_MultiQueryMode jobSpec
      else if field = ''QueryLogFile'' then opt_QueryLogFile jobSpec \<noteq> []
      else False)"

definition sampleIsFieldSetConfig :: "JSONConfig \<Rightarrow> string \<Rightarrow> bool" where
  "sampleIsFieldSetConfig jsonConfig field =
     (if field = ''Duration'' then json_Duration jsonConfig \<noteq> []
      else if field = ''Errors'' then json_Errors jsonConfig \<noteq> []
      else if field = ''Setup'' then
        sec_Queries (json_Setup jsonConfig) \<noteq> [] \<or> sec_QueryFiles (json_Setup jsonConfig) \<noteq> []
      else if field = ''Teardown'' then
        sec_Queries (json_Teardown jsonConfig) \<noteq> [] \<or> sec_QueryFiles (json_Teardown jsonConfig) \<noteq> []
      else if field = ''Jobs'' then json_Jobs jsonConfig \<noteq> []
      else False)"

definition sampleEnv :: Env where
  "sampleEnv =
     \<lparr>ParseDuration = (\<lambda>v. case map_of [(''2s'', 2000000000), (''5s'', 5000000000),
                                          (''10s'', 10000000000), (''-5s'', - 5000000000)] v of
                               None \<Rightarrow> Inl (New ''time: invalid duration'') | Some d \<Rightarrow> Inr d),
      ParseFloat = (\<lambda>v. case map_of [(''0'', Finite 0), (''10'', Finite 10), (''-1'', Finite (- 1)),
                                       (''NaN'', NaN)] v of
                            None \<Rightarrow> Inl (New ''strconv.ParseFloat: invalid syntax'') | Some r \<Rightarrow> Inr r),
      ParseUint = (\<lambda>v. case map_of [(''0'', 0), (''1'', 1), (''2'', 2), (''3'', 3), (''4'', 4), (''5'', 5)] v of
                           None \<Rightarrow> Inl (New ''strconv.ParseUint: invalid syntax'') | Some n \<Rightarrow> Inr n),
      Unquote = sampleUnquote,
      IsAbs = (\<lambda>v. case v of [] \<Rightarrow> False | c # cs \<Rightarrow> c = CHR ''/''),
      Join = (\<lambda>dir v. dir @ ''/'' @ v),
      Open = (\<lambda>path. case map_of sampleFiles path of
                         None \<Rightarrow> Inl (New ''open: no such file or directory'') | Some contents \<Rightarrow> Inr (File path)),
      ReadAll = (\<lambda>f. case f of File path \<Rightarrow>
                   (case map_of sampleFiles path of
                      None \<Rightarrow> Inl (New ''read: bad file descriptor'') | Some contents \<Rightarrow> Inr contents)),
      Split = (\<lambda>contents sep. splitByte (hd sep) [] contents),
      NewSafeCSVWriter = (\<lambda>path. Inr (SafeCSVWriter path)),
      isFieldSetJob = sampleIsFieldSetJob,
      isFieldSetSection = (\<lambda>section field.
         if field = ''Queries'' then sec_Queries section \<noteq> []
         else if field = ''QueryFiles'' then sec_QueryFiles section \<noteq> [] else False),
      isFieldSetConfig = sampleIsFieldSetConfig,
      isJSONFile = (\<lambda>configFile. 5 \<le> length configFile \<and> drop (length configFile - 5) configFile = ''.json''),
      ReadJSONFile = (\<lambda>configFile. Inl (New ''open: no such file or directory'')),
      ParseIniFile = (\<lambda>configFile. Inl (New ''open: no such file or directory'')),
      rangeJobs = (\<lambda>jobs. jobs)\<rparr>"

definition sampleFlavor :: DatabaseFlavor where
  "sampleFlavor =
     \<lparr>QuerySeparator = '';'',
      CheckQuery = (\<lambda>query. if query = [] then Some EmptyQueryError
                             else if query = ''begin'' then Some (New ''cannot use BEGIN'')
                             else None)\<rparr>"

text \<open>The zero value of \<^verbatim>\<open>JobOptions\<close>: a JSON job with no field.\<close>

definition noJobOptions :: JobOptions where
  "noJobOptions =
     \<lparr>opt_Start = [], opt_Stop = [], opt_Queries = [], opt_QueryFiles = [],
      opt_QueryArgsFile = [], opt_QueryArgsDelim = [], opt_QueryResultsFile = [],
      opt_Rate = Finite 0, opt_BatchSize = 0, opt_QueueDepth = 0, opt_Concurrency = 0,
      opt_Count = 0, opt_MultiQueryMode = False, opt_QueryLogFile = []\<rparr>"

text \<open>
  A database for the examples: its state is the list of the queries it has run, and a
  query fails when it is \<^verbatim>\<open>drop table missing\<close>. The jobs return at once with no
  statistics, and no file of statistics is asked for.
\<close>

definition sampleRunner :: "(string list, nat) Runner" where
  "sampleRunner =
     \<lparr>RunQuery = (\<lambda>db query.
         (if query = ''drop table missing'' then Some (New ''unknown table'') else None, db @ [query])),
      processResults = (\<lambda>config db. Some ([], db)),
      JsonOutputFile = [],
      Create = (\<lambda>name. None),
      Encode = (\<lambda>testStats. None)\<rparr>"

text \<open>Two configurations for the examples of \<^verbatim>\<open>runTest\<close>.\<close>

definition sampleConfig :: Config where
  "sampleConfig = (newConfig sampleFlavor)
     \<lparr>Setup := [''create table t'', ''drop table missing'', ''create table u''],
      Teardown := [''drop table t'']\<rparr>"

definition teardownConfig :: Config where
  "teardownConfig = (newConfig sampleFlavor)
     \<lparr>Setup := [''create table t''],
      Teardown := [''drop table missing'', ''drop table t'']\<rparr>"

text \<open>
  Configurations for the examples of \<^verbatim>\<open>parseConfig\<close>, in the INI and in the JSON form,
  and the \<^verbatim>\<open>Config\<close> each of them parses to. In \<open>sampleIni\<close> the test lasts ten seconds,
  the job \<^verbatim>\<open>early\<close> starts five seconds before the setup completes, and the job
  \<^verbatim>\<open>backwards\<close> stops three seconds before it starts. In \<open>lateIni\<close> and \<open>lateJSON\<close> the
  test lasts five seconds and the job stops after ten.
\<close>

definition sampleIni :: RawConfig where
  "sampleIni =
     \<lparr>GlobalSection = [(''duration'', ''10s'')],
      Sections = [(''setup'', [(''query'', ''create table t'')]),
                  (''early'', [(''start'', ''-5s''), (''query'', ''select 1'')]),
                  (''backwards'', [(''start'', ''5s''), (''stop'', ''2s''), (''query'', ''select 2'')])]\<rparr>"

definition lateIni :: RawConfig where
  "lateIni =
     \<lparr>GlobalSection = [(''duration'', ''5s'')],
      Sections = [(''late'', [(''start'', ''2s''), (''stop'', ''10s''), (''query'', ''select 1'')])]\<rparr>"

definition lateJSON :: JSONConfig where
  "lateJSON =
     \<lparr>json_Duration = ''5s'', json_Errors = [],
      json_Setup = \<lparr>sec_Queries = [], sec_QueryFiles = []\<rparr>,
      json_Teardown = \<lparr>sec_Queries = [], sec_QueryFiles = []\<rparr>,
      json_Jobs = [(''late'', noJobOptions\<lparr>opt_Start := ''2s'', opt_Stop := ''10s'', opt_Queries := [''select 1'']\<rparr>)]\<rparr>"

definition lateConfig :: Config where
  "lateConfig = (newConfig sampleFlavor)
     \<lparr>Duration := 5000000000,
      Jobs := [(''late'', newJob\<lparr>Name := ''late'', Start := 2000000000, Stop := 10000000000,
                                Queries := [''select 1''], QueueDepth := 1\<rparr>)]\<rparr>"

definition acceptedConfig :: Config where
  "acceptedConfig = (newConfig sampleFlavor)
     \<lparr>Duration := 10000000000, Setup := [''create table t''],
      Jobs := [(''early'', newJob\<lparr>Name := ''early'', Start := - 5000000000,
                                 Queries := [''select 1''], QueueDepth := 1\<rparr>),
               (''backwards'', newJob\<lparr>Name := ''backwards'', Start := 5000000000,
                                     Stop := 2000000000, Queries := [''select 2''],
                                     QueueDepth := 1\<rparr>)]\<rparr>"

definition sampleEnvWithIni :: "RawConfig \<Rightarrow> Env" where
  "sampleEnvWithIni iniConfig = sampleEnv\<lparr>ParseIniFile := (\<lambda>configFile. Inr iniConfig)\<rparr>"

text \<open>
  A second runner, whose jobs return with statistics for two jobs and which writes them
  to the file \<^verbatim>\<open>stats.json\<close>, and a configuration whose setup and teardown succeed.
\<close>

definition statsRunner :: "(string list, nat) Runner" where
  "statsRunner = sampleRunner
     \<lparr>processResults := (\<lambda>config db. Some ([(''reads'', 7), (''writes'', 3)], db)),
      JsonOutputFile := ''stats''\<rparr>"

definition cleanConfig :: Config where
  "cleanConfig = (newConfig sampleFlavor)
     \<lparr>Setup := [''create table t''], Teardown := [''truncate table t'', ''drop table t'']\<rparr>"

text \<open>
  Examples for the type of a job. A job with a rate of 10 and a queue depth of 2, as an INI
  section and as a JSON job, and a configuration of each form that holds it after a
  setup section; a section with a rate of 0 and a queue depth of 2; a job with one query
  and nothing else. \<open>sampleEnvWithJSON\<close> reads the given configuration from any JSON
  file.
\<close>

definition sampleEnvWithJSON :: "JSONConfig \<Rightarrow> Env" where
  "sampleEnvWithJSON jsonConfig = sampleEnv\<lparr>ReadJSONFile := (\<lambda>configFile. Inr jsonConfig)\<rparr>"

definition twoTypesSection :: RawSection where
  "twoTypesSection = [(''rate'', ''10''), (''queue-depth'', ''2''), (''query'', ''select 1'')]"

definition twoTypesSpec :: JobOptions where
  "twoTypesSpec = noJobOptions\<lparr>opt_Queries := [''select 1''], opt_Rate := Finite 10, opt_QueueDepth := 2\<rparr>"

definition twoTypesIni :: RawConfig where
  "twoTypesIni =
     \<lparr>GlobalSection = [],
      Sections = [(''setup'', [(''query'', ''create table t'')]), (''both'', twoTypesSection)]\<rparr>"

definition twoTypesJSON :: JSONConfig where
  "twoTypesJSON =
     \<lparr>json_Duration = [], json_Errors = [],
      json_Setup = \<lparr>sec_Queries = [''create table t''], sec_QueryFiles = []\<rparr>,
      json_Teardown = \<lparr>sec_Queries = [], sec_QueryFiles = []\<rparr>,
      json_Jobs = [(''both'', twoTypesSpec)]\<rparr>"

definition zeroRateSection :: RawSection where
  "zeroRateSection = [(''rate'', ''0''), (''queue-depth'', ''2''), (''query'', ''select 1'')]"

definition zeroRateIni :: RawConfig where
  "zeroRateIni = \<lparr>GlobalSection = [], Sections = [(''mixed'', zeroRateSection)]\<rparr>"

definition defaultSection :: RawSection where
  "defaultSection = [(''query'', ''select 1'')]"

definition defaultSpec :: JobOptions where
  "defaultSpec = noJobOptions\<lparr>opt_Queries := [''select 1'']\<rparr>"

text \<open>
  A section whose rate is the text \<^verbatim>\<open>NaN\<close>, with a batch size of 5, and a configuration
  that holds it.
\<close>

definition nanRateSection :: RawSection where
  "nanRateSection = [(''rate'', ''NaN''), (''batch-size'', ''5''), (''query'', ''select 1'')]"

definition nanRateIni :: RawConfig where
  "nanRateIni = \<lparr>GlobalSection = [], Sections = [(''paced'', nanRateSection)]\<rparr>"

text \<open>
  Examples for the rate and the batch size: a job with a rate of 10 and no batch size, a
  job with a rate of -1, and a job with a batch size of 5 and a rate of 0 or no rate, each
  as an INI section and as a JSON job.
\<close>

definition pacedSection :: RawSection where
  "pacedSection = [(''rate'', ''10''), (''query'', ''select 1'')]"

definition pacedSpec :: JobOptions where
  "pacedSpec = noJobOptions\<lparr>opt_Queries := [''select 1''], opt_Rate := Finite 10\<rparr>"

definition negativeSection :: RawSection where
  "negativeSection = [(''rate'', ''-1''), (''query'', ''select 1'')]"

definition negativeSpec :: JobOptions where
  "negativeSpec = noJobOptions\<lparr>opt_Queries := [''select 1''], opt_Rate := Finite (- 1)\<rparr>"

definition batchOnlySection :: RawSection where
  "batchOnlySection = [(''rate'', ''0''), (''batch-size'', ''5''), (''query'', ''select 1'')]"

definition batchOnlySpec :: JobOptions where
  "batchOnlySpec = noJobOptions\<lparr>opt_Queries := [''select 1''], opt_BatchSize := 5\<rparr>"

section \<open>Predicates of the properties\<close>

text \<open>
  A segment of a query file that \<^verbatim>\<open>readQueriesFromReader\<close> does not fail on:
  \<^verbatim>\<open>CheckQuery\<close> returns \<^verbatim>\<open>nil\<close> or \<open>EmptyQueryError\<close> for it.
\<close>

definition acceptedOrEmpty :: "DatabaseFlavor \<Rightarrow> string \<Rightarrow> bool" where
  "acceptedOrEmpty df q = (CheckQuery df q = None \<or> CheckQuery df q = Some EmptyQueryError)"

text \<open>
  Every job starts and stops within the duration; some job starts or stops after it.
\<close>

definition withinDuration :: "Duration \<Rightarrow> (string \<times> Job) list \<Rightarrow> bool" where
  "withinDuration d jobs = list_all (\<lambda>(name, job). Start job \<le> d \<and> Stop job \<le> d) jobs"

definition someJobAfter :: "Duration \<Rightarrow> (string \<times> Job) list \<Rightarrow> bool" where
  "someJobAfter d jobs = list_ex (\<lambda>(name, job). Start job > d \<or> Stop job > d) jobs"

text \<open>
  The invariant on the type of a job, in the words of the specification: exactly one of
  \<^verbatim>\<open>rate > 0\<close>, \<^verbatim>\<open>queueDepth > 0\<close> and \<^verbatim>\<open>queryLog != nil\<close> holds. \<open>otherInvariants\<close>
  holds of the state after decoding when none of the six tests that come before the
  count of the job types fails. \<open>onlyOneOf\<close> is the error of that count.
\<close>

definition exactlyOneJobType :: "Job \<Rightarrow> bool" where
  "exactlyOneJobType job =
     ((f64_gt0 (Rate job) \<and> QueueDepth job = 0 \<and> QueryLog job = None) \<or>
      (QueueDepth job > 0 \<and> \<not> f64_gt0 (Rate job) \<and> QueryLog job = None) \<or>
      (QueryLog job \<noteq> None \<and> \<not> f64_gt0 (Rate job) \<and> QueueDepth job = 0))"

definition otherInvariants :: "jobParser \<Rightarrow> bool" where
  "otherInvariants jp =
     ((Queries (jp_j jp) \<noteq> [] \<or> QueryLog (jp_j jp) \<noteq> None) \<and>
      (Queries (jp_j jp) = [] \<or> QueryLog (jp_j jp) = None) \<and>
      (length (Queries (jp_j jp)) \<le> 1 \<or> multiQueryAllowed jp) \<and>
      (BatchSize (jp_j jp) = 0 \<or> \<not> f64_eq0 (Rate (jp_j jp))) \<and>
      (queryArgsDelim jp = 0 \<or> queryArgsFile jp \<noteq> None) \<and>
      (queryArgsFile jp = None \<or> QueryLog (jp_j jp) = None))"

definition onlyOneOf :: error where
  "onlyOneOf = New ''Can only specify one of rate, queue-depth, or query-log-file''"

text \<open>The error of a delimiter that is not one byte long.\<close>

definition mustProvideOneCharacter :: error where
  "mustProvideOneCharacter = New ''Must provide exactly one character for delimiter''"

text \<open>
  What a section asks for, read on the section itself. An INI section asks for a rate when
  it has a property \<^verbatim>\<open>rate\<close> and the value of each one parses to a number above zero; for
  a queue depth when it has a property \<^verbatim>\<open>queue-depth\<close> or \<^verbatim>\<open>concurrency\<close> and the value
  of each one parses to a number above zero; for a query log when it has a property
  \<^verbatim>\<open>query-log-file\<close>. It asks for none of the three when it has none of these four
  properties.
\<close>

definition asksRate :: "Env \<Rightarrow> RawSection \<Rightarrow> bool" where
  "asksRate env rs =
     (list_ex (\<lambda>(name, v). name = ''rate'') rs \<and>
      list_all (\<lambda>(name, v). name = ''rate'' \<longrightarrow>
                  (case ParseFloat env v of Inl err \<Rightarrow> False | Inr r \<Rightarrow> f64_gt0 r)) rs)"

definition asksQueueDepth :: "Env \<Rightarrow> RawSection \<Rightarrow> bool" where
  "asksQueueDepth env rs =
     (list_ex (\<lambda>(name, v). name = ''queue-depth'' \<or> name = ''concurrency'') rs \<and>
      list_all (\<lambda>(name, v). name = ''queue-depth'' \<or> name = ''concurrency'' \<longrightarrow>
                  (case ParseUint env v of Inl err \<Rightarrow> False | Inr n \<Rightarrow> 0 < n)) rs)"

definition asksQueryLog :: "RawSection \<Rightarrow> bool" where
  "asksQueryLog rs = list_ex (\<lambda>(name, v). name = ''query-log-file'') rs"

definition asksNone :: "RawSection \<Rightarrow> bool" where
  "asksNone rs =
     list_all (\<lambda>(name, v). name \<noteq> ''rate'' \<and> name \<noteq> ''queue-depth'' \<and>
                              name \<noteq> ''concurrency'' \<and> name \<noteq> ''query-log-file'') rs"

text \<open>
  The same for a job of the JSON form, on its fields: the rate is set and above zero; the
  concurrency, which is read after the queue depth, is set and above zero, or it is not
  set and the queue depth is set and above zero; the query log file is set. None of the
  four fields is set.
\<close>

definition setsRate :: "Env \<Rightarrow> JobOptions \<Rightarrow> bool" where
  "setsRate env jobSpec = (isFieldSetJob env jobSpec ''Rate'' \<and> f64_gt0 (opt_Rate jobSpec))"

definition setsQueueDepth :: "Env \<Rightarrow> JobOptions \<Rightarrow> bool" where
  "setsQueueDepth env jobSpec =
     (if isFieldSetJob env jobSpec ''Concurrency'' then 0 < opt_Concurrency jobSpec
      else isFieldSetJob env jobSpec ''QueueDepth'' \<and> 0 < opt_QueueDepth jobSpec)"

definition setsQueryLog :: "Env \<Rightarrow> JobOptions \<Rightarrow> bool" where
  "setsQueryLog env jobSpec = isFieldSetJob env jobSpec ''QueryLogFile''"

definition setsNone :: "Env \<Rightarrow> JobOptions \<Rightarrow> bool" where
  "setsNone env jobSpec =
     (\<not> isFieldSetJob env jobSpec ''Rate'' \<and> \<not> isFieldSetJob env jobSpec ''QueueDepth'' \<and>
      \<not> isFieldSetJob env jobSpec ''Concurrency'' \<and> \<not> isFieldSetJob env jobSpec ''QueryLogFile'')"

text \<open>
  Two or more of three conditions hold. A job asks for no type: the job a section is
  decoded into starts so. The three names that are not names of jobs.
\<close>

definition twoOrMore :: "bool \<Rightarrow> bool \<Rightarrow> bool \<Rightarrow> bool" where
  "twoOrMore a b c = ((a \<and> b) \<or> (a \<and> c) \<or> (b \<and> c))"

definition zeroJobType :: "Job \<Rightarrow> bool" where
  "zeroJobType job = (QueueDepth job = 0 \<and> QueryLog job = None \<and> \<not> f64_gt0 (Rate job))"

definition reservedName :: "string \<Rightarrow> bool" where
  "reservedName name = (name = ''setup'' \<or> name = ''teardown'' \<or> name = ''global'')"

text \<open>
  The rate and the batch size a section gives, read on the section itself. An INI section
  gives a negative rate when some property \<^verbatim>\<open>rate\<close> parses to a number below zero; its
  rate is zero when every property \<^verbatim>\<open>rate\<close> it has parses to zero (and so when it has
  none); it asks for a batch size when it has a property \<^verbatim>\<open>batch-size\<close> and each one
  parses to a number above zero; it has no batch size when it has no such property. The
  same for a job of the JSON form, on its fields.
\<close>

definition negativeRate :: "Env \<Rightarrow> RawSection \<Rightarrow> bool" where
  "negativeRate env rs =
     list_ex (\<lambda>(name, v). name = ''rate'' \<and>
                (case ParseFloat env v of Inl err \<Rightarrow> False | Inr r \<Rightarrow> f64_lt0 r)) rs"

definition zeroRate :: "Env \<Rightarrow> RawSection \<Rightarrow> bool" where
  "zeroRate env rs =
     list_all (\<lambda>(name, v). name = ''rate'' \<longrightarrow>
                 (case ParseFloat env v of Inl err \<Rightarrow> False | Inr r \<Rightarrow> f64_eq0 r)) rs"

definition asksBatchSize :: "Env \<Rightarrow> RawSection \<Rightarrow> bool" where
  "asksBatchSize env rs =
     (list_ex (\<lambda>(name, v). name = ''batch-size'') rs \<and>
      list_all (\<lambda>(name, v). name = ''batch-size'' \<longrightarrow>
                  (case ParseUint env v of Inl err \<Rightarrow> False | Inr n \<Rightarrow> 0 < n)) rs)"

definition noBatchSize :: "RawSection \<Rightarrow> bool" where
  "noBatchSize rs = list_all (\<lambda>(name, v). name \<noteq> ''batch-size'') rs"

definition setsNegativeRate :: "Env \<Rightarrow> JobOptions \<Rightarrow> bool" where
  "setsNegativeRate env jobSpec = (isFieldSetJob env jobSpec ''Rate'' \<and> f64_lt0 (opt_Rate jobSpec))"

definition setsZeroRate :: "Env \<Rightarrow> JobOptions \<Rightarrow> bool" where
  "setsZeroRate env jobSpec = (isFieldSetJob env jobSpec ''Rate'' \<longrightarrow> f64_eq0 (opt_Rate jobSpec))"

definition setsBatchSize :: "Env \<Rightarrow> JobOptions \<Rightarrow> bool" where
  "setsBatchSize env jobSpec = (isFieldSetJob env jobSpec ''BatchSize'' \<and> 0 < opt_BatchSize jobSpec)"

text \<open>
  The invariant on the rate and the batch size of a job, in the words of the
  specification: \<^verbatim>\<open>rate >= 0\<close>, and \<^verbatim>\<open>batchSize > 0\<close> implies \<^verbatim>\<open>rate > 0\<close>.
\<close>

definition rateInvariants :: "Job \<Rightarrow> bool" where
  "rateInvariants job = (f64_ge0 (Rate job) \<and> (0 < BatchSize job \<longrightarrow> f64_gt0 (Rate job)))"

text \<open>
  The queries are run one after the other on the database, each from the state the one
  before left, and \<^verbatim>\<open>db.RunQuery\<close> returns no error for any of them: the state after the
  last one. \<open>None\<close> when some query returns an error.
\<close>

fun succeeds :: "('db \<Rightarrow> string \<Rightarrow> error option \<times> 'db) \<Rightarrow> 'db \<Rightarrow> string list \<Rightarrow> 'db option" where
  "succeeds rq db [] = Some db"
| "succeeds rq db (query # rest) =
     (case rq db query of
        (None, db') \<Rightarrow> succeeds rq db' rest
      | (Some err, db') \<Rightarrow> None)"

section \<open>Properties\<close>

text \<open>The definitions of the model and of the instance, for evaluation.\<close>

lemmas model_defs =
  decodeJobSection_def validateJobSection_def jobOptions_def jobFields_def newJobParser_def
  parse_start_def parse_stop_def parse_query_def parse_query_file_def parse_query_args_file_def
  parse_query_args_delim_def parse_query_results_file_def parse_rate_def parse_batch_size_def
  parse_queue_depth_def parse_count_def parse_multi_query_mode_def parse_query_log_file_def
  field_Start_def field_Stop_def field_Queries_def field_QueryFiles_def field_QueryArgsFile_def
  field_QueryArgsDelim_def field_QueryResultsFile_def field_Rate_def field_BatchSize_def
  field_QueueDepth_def field_Concurrency_def field_Count_def field_MultiQueryMode_def
  field_QueryLogFile_def differentJobTypes_def wireQueryArgs_def csv_NewReader_def
  f64_lt0_def f64_eq0_def f64_gt0_def f64_ge0_def runeOfByte_def inBasedir_def
  readQueriesFromFile_def readQueriesFromReader_def newJob_def newConfig_def
  iniSections_def jsonSections_def parseIniConfig_def parseJSONConfig_def parseConfig_def
  decodeGlobalSection_def globalOptions_def parse_duration_def parse_error_def
  validateGlobalSection_def decodeSetupSection_def setupOptions_def setup_query_def
  setup_query_file_def validateReservedSection_def decodeConfigJobs_def validateConfigJobs_def
  Section_def Let_def

lemmas sample_defs =
  sampleEnv_def sampleFlavor_def sampleUnquote_def sampleFiles_def sampleIsFieldSetJob_def
  sampleIsFieldSetConfig_def noJobOptions_def

subsection \<open>Query files\<close>

lemma readQueriesLoop_all_ok:
  "list_all (acceptedOrEmpty df) segs \<Longrightarrow>
   readQueriesLoop df segs acc = Inr (acc @ filter (\<lambda>q. CheckQuery df q = None) segs)"
  by (induction segs arbitrary: acc) (auto simp: acceptedOrEmpty_def split: option.splits)

lemma readQueriesLoop_first_bad:
  "list_all (acceptedOrEmpty df) pre \<Longrightarrow> CheckQuery df q = Some err \<Longrightarrow> err \<noteq> EmptyQueryError \<Longrightarrow>
   readQueriesLoop df (pre @ q # post) acc = Inl (InvalidQuery err)"
  by (induction pre arbitrary: acc) (auto simp: acceptedOrEmpty_def split: option.splits)

text \<open>
  Claim C8. \<^verbatim>\<open>readQueriesFromReader\<close> splits the contents of the file on the flavour's
  separator. When \<^verbatim>\<open>CheckQuery\<close> returns \<^verbatim>\<open>nil\<close> or \<open>EmptyQueryError\<close> for every
  segment, the result is the list of the segments it returns \<^verbatim>\<open>nil\<close> for, in their
  order: the empty ones are dropped and are no error. When some segment gets another
  error, the result is the error \<^verbatim>\<open>invalid query\<close> of the first such segment, and no
  query is returned.
\<close>

theorem readQueriesFromReader_segments:
  assumes "ReadAll env r = Inr contents"
  shows "(list_all (acceptedOrEmpty df) (Split env contents (QuerySeparator df)) \<longrightarrow>
            readQueriesFromReader env df r =
              Inr (filter (\<lambda>q. CheckQuery df q = None) (Split env contents (QuerySeparator df))))
       \<and> (\<forall>pre q post err.
            Split env contents (QuerySeparator df) = pre @ q # post \<and>
            list_all (acceptedOrEmpty df) pre \<and> CheckQuery df q = Some err \<and> err \<noteq> EmptyQueryError \<longrightarrow>
            readQueriesFromReader env df r = Inl (InvalidQuery err))"
  using assms
  by (auto simp: readQueriesFromReader_def readQueriesLoop_all_ok readQueriesLoop_first_bad)

theorem readQueriesFromReader_segments_witness:
  "ReadAll sampleEnv (File ''/base/queries.sql'') = Inr ''select 1;;select 2''
   \<and> Split sampleEnv ''select 1;;select 2'' (QuerySeparator sampleFlavor) = [''select 1'', [], ''select 2'']
   \<and> list_all (acceptedOrEmpty sampleFlavor) [''select 1'', [], ''select 2'']
   \<and> readQueriesFromReader sampleEnv sampleFlavor (File ''/base/queries.sql'') = Inr [''select 1'', ''select 2'']
   \<and> ReadAll sampleEnv (File ''/base/bad.sql'') = Inr ''select 1;begin;select 2''
   \<and> Split sampleEnv ''select 1;begin;select 2'' (QuerySeparator sampleFlavor) = [''select 1''] @ ''begin'' # [''select 2'']
   \<and> CheckQuery sampleFlavor ''begin'' = Some (New ''cannot use BEGIN'')
   \<and> readQueriesFromReader sampleEnv sampleFlavor (File ''/base/bad.sql'') = Inl (InvalidQuery (New ''cannot use BEGIN''))"
proof -
  have r1: "ReadAll sampleEnv (File ''/base/queries.sql'') = Inr ''select 1;;select 2''"
    by (simp add: sampleEnv_def sampleFiles_def)
  have s1: "Split sampleEnv ''select 1;;select 2'' (QuerySeparator sampleFlavor) = [''select 1'', [], ''select 2'']"
    by (simp add: sampleEnv_def sampleFlavor_def)
  have a1: "list_all (acceptedOrEmpty sampleFlavor) [''select 1'', [], ''select 2'']"
    by (simp add: acceptedOrEmpty_def sampleFlavor_def)
  have r2: "ReadAll sampleEnv (File ''/base/bad.sql'') = Inr ''select 1;begin;select 2''"
    by (simp add: sampleEnv_def sampleFiles_def)
  have s2: "Split sampleEnv ''select 1;begin;select 2'' (QuerySeparator sampleFlavor) = [''select 1''] @ ''begin'' # [''select 2'']"
    by (simp add: sampleEnv_def sampleFlavor_def)
  have c2: "CheckQuery sampleFlavor ''begin'' = Some (New ''cannot use BEGIN'')"
    by (simp add: sampleFlavor_def)
  have a2: "list_all (acceptedOrEmpty sampleFlavor) [''select 1'']"
    by (simp add: acceptedOrEmpty_def sampleFlavor_def)
  have f1: "filter (\<lambda>q. CheckQuery sampleFlavor q = None) [''select 1'', [], ''select 2''] = [''select 1'', ''select 2'']"
    by (simp add: sampleFlavor_def)
  from readQueriesFromReader_segments [OF r1, of sampleFlavor] s1 a1 f1
  have g1: "readQueriesFromReader sampleEnv sampleFlavor (File ''/base/queries.sql'') = Inr [''select 1'', ''select 2'']"
    by simp
  from readQueriesFromReader_segments [OF r2, of sampleFlavor] s2 a2 c2
  have g2: "readQueriesFromReader sampleEnv sampleFlavor (File ''/base/bad.sql'') = Inl (InvalidQuery (New ''cannot use BEGIN''))"
    by blast
  from r1 s1 a1 g1 r2 s2 c2 g2 show ?thesis by blast
qed

subsection \<open>Setup and teardown\<close>

lemma runQueries_of_succeeds:
  "succeeds rq db qs = Some db' \<Longrightarrow> runQueries rq db qs = (qs, None, db')"
proof (induction qs arbitrary: db)
  case Nil
  then show ?case by simp
next
  case (Cons q qs)
  obtain res db1 where r: "rq db q = (res, db1)" by (cases "rq db q")
  show ?case
  proof (cases res)
    case None
    with r Cons.prems have "succeeds rq db1 qs = Some db'" by simp
    from Cons.IH [OF this] r None show ?thesis by simp
  next
    case (Some e)
    with r Cons.prems show ?thesis by simp
  qed
qed

lemma runQueries_of_failure:
  "succeeds rq db pre = Some db1 \<Longrightarrow> rq db1 q = (Some err, db2) \<Longrightarrow>
   runQueries rq db (pre @ q # post) = (pre @ [q], Some (q, err), db2)"
proof (induction pre arbitrary: db)
  case Nil
  then show ?case by simp
next
  case (Cons p pre)
  obtain res db' where r: "rq db p = (res, db')" by (cases "rq db p")
  show ?case
  proof (cases res)
    case None
    with r Cons.prems(1) have "succeeds rq db' pre = Some db1" by simp
    from Cons.IH [OF this Cons.prems(2)] r None show ?thesis by simp
  next
    case (Some e)
    with r Cons.prems(1) show ?thesis by simp
  qed
qed

text \<open>
  Claim C5. The setup queries are run in order, each on the database as the one before
  left it. When \<^verbatim>\<open>db.RunQuery\<close> returns an error for one of them, the queries before
  it having returned none, \<^verbatim>\<open>runTest\<close> ends the process in \<^verbatim>\<open>log.Fatalf\<close> at that
  query: what it did is the line \<^verbatim>\<open>Performing setup\<close>, the setup queries up to and
  including the failing one, and the fatal message. No job is started, no statistics are
  logged or written, and no teardown query is run.
\<close>

theorem setup_error_is_fatal:
  assumes s: "Setup config = pre @ query # post"
    and p: "succeeds (RunQuery r) db pre = Some db1"
    and e: "RunQuery r db1 query = (Some err, db2)"
  shows "runTest r db df config =
           (PerformingSetup # map SetupQuery (pre @ [query]) @ [Fatalf (ErrorInSetupQuery query err)], Exits)
       \<and> JobsStarted \<notin> set (fst (runTest r db df config))
       \<and> (\<forall>name stats. Stats name stats \<notin> set (fst (runTest r db df config)))
       \<and> (\<forall>name. StatsFile name \<notin> set (fst (runTest r db df config)))
       \<and> PerformingTeardown \<notin> set (fst (runTest r db df config))
       \<and> (\<forall>q. TeardownQuery q \<notin> set (fst (runTest r db df config)))"
proof -
  from runQueries_of_failure [OF p e, of post] s
  have rq: "runQueries (RunQuery r) db (Setup config) = (pre @ [query], Some (query, err), db2)"
    by simp
  from s have ne: "Setup config \<noteq> []" by simp
  from rq ne have run: "runTest r db df config =
      (PerformingSetup # map SetupQuery (pre @ [query]) @ [Fatalf (ErrorInSetupQuery query err)], Exits)"
    by (simp add: runTest_def)
  show ?thesis unfolding run by auto
qed

theorem setup_error_is_fatal_witness:
  "Setup sampleConfig = [''create table t''] @ ''drop table missing'' # [''create table u'']
   \<and> succeeds (RunQuery sampleRunner) [] [''create table t''] = Some [''create table t'']
   \<and> RunQuery sampleRunner [''create table t''] ''drop table missing''
       = (Some (New ''unknown table''), [''create table t'', ''drop table missing''])
   \<and> runTest sampleRunner [] sampleFlavor sampleConfig
     = ([PerformingSetup, SetupQuery ''create table t'', SetupQuery ''drop table missing'',
         Fatalf (ErrorInSetupQuery ''drop table missing'' (New ''unknown table''))], Exits)"
proof -
  have s: "Setup sampleConfig = [''create table t''] @ ''drop table missing'' # [''create table u'']"
    by (simp add: sampleConfig_def newConfig_def)
  have p: "succeeds (RunQuery sampleRunner) [] [''create table t''] = Some [''create table t'']"
    by (simp add: sampleRunner_def)
  have e: "RunQuery sampleRunner [''create table t''] ''drop table missing''
       = (Some (New ''unknown table''), [''create table t'', ''drop table missing''])"
    by (simp add: sampleRunner_def)
  from setup_error_is_fatal [OF s p e, of sampleFlavor]
  have g: "runTest sampleRunner [] sampleFlavor sampleConfig
     = ([PerformingSetup, SetupQuery ''create table t'', SetupQuery ''drop table missing'',
         Fatalf (ErrorInSetupQuery ''drop table missing'' (New ''unknown table''))], Exits)"
    by simp
  from s p e g show ?thesis by (intro conjI)
qed

lemma runTeardown_eq:
  assumes h4: "runQueries (RunQuery r) db2 (Teardown config) = (ex2, res, db3)"
  shows "runTeardown r db2 config =
      ((if Teardown config = [] then []
        else PerformingTeardown # map TeardownQuery ex2 @
             (case res of None \<Rightarrow> [] | Some (q, e) \<Rightarrow> [Fatalf (ErrorInTeardownQuery q e)])),
       (case res of None \<Rightarrow> Returns | Some (q, e) \<Rightarrow> Exits))"
proof (cases "Teardown config = []")
  case True
  with h4 have "res = None" by simp
  with True show ?thesis by (simp add: runTeardown_def)
next
  case False
  show ?thesis
  proof (cases res)
    case None
    with False h4 show ?thesis by (simp add: runTeardown_def)
  next
    case (Some qe)
    obtain q e where "qe = (q, e)" by (cases qe)
    with Some False h4 show ?thesis by (simp add: runTeardown_def)
  qed
qed

lemma writeStats_ok:
  assumes h3: "JsonOutputFile r = [] \<or>
               (Create r (JsonOutputFile r @ ''.json'') = None \<and> Encode r testStats = None)"
  shows "(if length (JsonOutputFile r) > 0 then writeStatsToFile r testStats else ([], False)) =
      ((if JsonOutputFile r = [] then [] else [StatsFile (JsonOutputFile r @ ''.json'')]), False)"
proof (cases "JsonOutputFile r = []")
  case True
  then show ?thesis by simp
next
  case False
  with h3 show ?thesis by (simp add: writeStatsToFile_def)
qed

lemma runJobsAndTeardown_eq:
  assumes h2: "processResults r config db1 = Some (testStats, db2)"
    and h3: "JsonOutputFile r = [] \<or>
               (Create r (JsonOutputFile r @ ''.json'') = None \<and> Encode r testStats = None)"
  shows "runJobsAndTeardown r db1 config =
      (JobsStarted # map (\<lambda>(name, stats). Stats name stats) testStats
       @ (if JsonOutputFile r = [] then [] else [StatsFile (JsonOutputFile r @ ''.json'')])
       @ fst (runTeardown r db2 config), snd (runTeardown r db2 config))"
proof -
  obtain evs out where t: "runTeardown r db2 config = (evs, out)"
    by (cases "runTeardown r db2 config")
  show ?thesis
    unfolding runJobsAndTeardown_def h2 option.case prod.case Let_def writeStats_ok [OF h3] t
    by simp
qed

lemma runTest_setup_ok:
  assumes h1: "runQueries (RunQuery r) db (Setup config) = (ex1, None, db1)"
  shows "runTest r db df config =
      ((if Setup config = [] then [] else PerformingSetup # map SetupQuery ex1)
       @ fst (runJobsAndTeardown r db1 config), snd (runJobsAndTeardown r db1 config))"
proof (cases "Setup config = []")
  case True
  with h1 have "db1 = db" by simp
  with True show ?thesis by (simp add: runTest_def)
next
  case False
  obtain evs out where t: "runJobsAndTeardown r db1 config = (evs, out)"
    by (cases "runJobsAndTeardown r db1 config")
  from False h1 t show ?thesis
    by (simp add: runTest_def)
qed

text \<open>
  Claim C3, amended. In a run whose setup queries all succeed, whose jobs all return and
  whose file of statistics, when one is asked for, is written, the statistics are
  logged (and written) first and the teardown queries are run after them, in order,
  each on the database as the one before left it. When \<^verbatim>\<open>db.RunQuery\<close> returns no
  error for any of them, all of them are run and \<^verbatim>\<open>runTest\<close> returns. When it returns
  an error for one of them, the queries before it having returned none, the error is
  reported by \<^verbatim>\<open>log.Fatalf\<close> and is fatal: the process exits at that query, and the
  teardown queries after it are not run.
\<close>

theorem teardown_after_statistics:
  assumes h1: "succeeds (RunQuery r) db (Setup config) = Some db1"
    and h2: "processResults r config db1 = Some (testStats, db2)"
    and h3: "JsonOutputFile r = [] \<or>
               (Create r (JsonOutputFile r @ ''.json'') = None \<and> Encode r testStats = None)"
  shows "(succeeds (RunQuery r) db2 (Teardown config) = Some db3 \<longrightarrow>
            runTest r db df config =
              ((if Setup config = [] then [] else PerformingSetup # map SetupQuery (Setup config))
               @ JobsStarted # map (\<lambda>(name, stats). Stats name stats) testStats
               @ (if JsonOutputFile r = [] then [] else [StatsFile (JsonOutputFile r @ ''.json'')])
               @ (if Teardown config = [] then []
                  else PerformingTeardown # map TeardownQuery (Teardown config)),
               Returns))
       \<and> (Teardown config = pre @ query # post \<and>
          succeeds (RunQuery r) db2 pre = Some db3 \<and> RunQuery r db3 query = (Some err, db4) \<longrightarrow>
            runTest r db df config =
              ((if Setup config = [] then [] else PerformingSetup # map SetupQuery (Setup config))
               @ JobsStarted # map (\<lambda>(name, stats). Stats name stats) testStats
               @ (if JsonOutputFile r = [] then [] else [StatsFile (JsonOutputFile r @ ''.json'')])
               @ PerformingTeardown # map TeardownQuery (pre @ [query])
               @ [Fatalf (ErrorInTeardownQuery query err)],
               Exits))"
proof -
  note su = runQueries_of_succeeds [OF h1]
  have a: "succeeds (RunQuery r) db2 (Teardown config) = Some db3 \<longrightarrow>
            runTest r db df config =
              ((if Setup config = [] then [] else PerformingSetup # map SetupQuery (Setup config))
               @ JobsStarted # map (\<lambda>(name, stats). Stats name stats) testStats
               @ (if JsonOutputFile r = [] then [] else [StatsFile (JsonOutputFile r @ ''.json'')])
               @ (if Teardown config = [] then []
                  else PerformingTeardown # map TeardownQuery (Teardown config)),
               Returns)"
  proof
    assume t: "succeeds (RunQuery r) db2 (Teardown config) = Some db3"
    note td = runQueries_of_succeeds [OF t]
    show "runTest r db df config =
              ((if Setup config = [] then [] else PerformingSetup # map SetupQuery (Setup config))
               @ JobsStarted # map (\<lambda>(name, stats). Stats name stats) testStats
               @ (if JsonOutputFile r = [] then [] else [StatsFile (JsonOutputFile r @ ''.json'')])
               @ (if Teardown config = [] then []
                  else PerformingTeardown # map TeardownQuery (Teardown config)),
               Returns)"
      unfolding runTest_setup_ok [OF su] runJobsAndTeardown_eq [OF h2 h3] runTeardown_eq [OF td]
      by simp
  qed
  have b: "Teardown config = pre @ query # post \<and>
          succeeds (RunQuery r) db2 pre = Some db3 \<and> RunQuery r db3 query = (Some err, db4) \<longrightarrow>
            runTest r db df config =
              ((if Setup config = [] then [] else PerformingSetup # map SetupQuery (Setup config))
               @ JobsStarted # map (\<lambda>(name, stats). Stats name stats) testStats
               @ (if JsonOutputFile r = [] then [] else [StatsFile (JsonOutputFile r @ ''.json'')])
               @ PerformingTeardown # map TeardownQuery (pre @ [query])
               @ [Fatalf (ErrorInTeardownQuery query err)],
               Exits)"
  proof
    assume h: "Teardown config = pre @ query # post \<and>
          succeeds (RunQuery r) db2 pre = Some db3 \<and> RunQuery r db3 query = (Some err, db4)"
    then have t: "Teardown config = pre @ query # post"
      and p: "succeeds (RunQuery r) db2 pre = Some db3"
      and e: "RunQuery r db3 query = (Some err, db4)" by simp_all
    from runQueries_of_failure [OF p e, of post] t
    have td: "runQueries (RunQuery r) db2 (Teardown config) = (pre @ [query], Some (query, err), db4)"
      by simp
    from t have ne: "Teardown config \<noteq> []" by simp
    show "runTest r db df config =
              ((if Setup config = [] then [] else PerformingSetup # map SetupQuery (Setup config))
               @ JobsStarted # map (\<lambda>(name, stats). Stats name stats) testStats
               @ (if JsonOutputFile r = [] then [] else [StatsFile (JsonOutputFile r @ ''.json'')])
               @ PerformingTeardown # map TeardownQuery (pre @ [query])
               @ [Fatalf (ErrorInTeardownQuery query err)],
               Exits)"
      unfolding runTest_setup_ok [OF su] runJobsAndTeardown_eq [OF h2 h3] runTeardown_eq [OF td]
      using ne by simp
  qed
  from a b show ?thesis by (intro conjI)
qed

theorem teardown_after_statistics_witness:
  "succeeds (RunQuery statsRunner) [] (Setup cleanConfig) = Some [''create table t'']
   \<and> processResults statsRunner cleanConfig [''create table t'']
       = Some ([(''reads'', 7), (''writes'', 3)], [''create table t''])
   \<and> Create statsRunner (JsonOutputFile statsRunner @ ''.json'') = None
   \<and> Encode statsRunner [(''reads'', 7), (''writes'', 3)] = None
   \<and> succeeds (RunQuery statsRunner) [''create table t''] (Teardown cleanConfig)
       = Some [''create table t'', ''truncate table t'', ''drop table t'']
   \<and> runTest statsRunner [] sampleFlavor cleanConfig
       = ([PerformingSetup, SetupQuery ''create table t'', JobsStarted, Stats ''reads'' 7,
           Stats ''writes'' 3, StatsFile ''stats.json'', PerformingTeardown,
           TeardownQuery ''truncate table t'', TeardownQuery ''drop table t''], Returns)
   \<and> succeeds (RunQuery statsRunner) [] (Setup teardownConfig) = Some [''create table t'']
   \<and> Teardown teardownConfig = [] @ ''drop table missing'' # [''drop table t'']
   \<and> RunQuery statsRunner [''create table t''] ''drop table missing''
       = (Some (New ''unknown table''), [''create table t'', ''drop table missing''])
   \<and> runTest statsRunner [] sampleFlavor teardownConfig
       = ([PerformingSetup, SetupQuery ''create table t'', JobsStarted, Stats ''reads'' 7,
           Stats ''writes'' 3, StatsFile ''stats.json'', PerformingTeardown,
           TeardownQuery ''drop table missing'',
           Fatalf (ErrorInTeardownQuery ''drop table missing'' (New ''unknown table''))], Exits)"
proof -
  have s1: "succeeds (RunQuery statsRunner) [] (Setup cleanConfig) = Some [''create table t'']"
    by (simp add: statsRunner_def sampleRunner_def cleanConfig_def newConfig_def)
  have j1: "processResults statsRunner cleanConfig [''create table t'']
       = Some ([(''reads'', 7), (''writes'', 3)], [''create table t''])"
    by (simp add: statsRunner_def)
  have c: "Create statsRunner (JsonOutputFile statsRunner @ ''.json'') = None"
    by (simp add: statsRunner_def sampleRunner_def)
  have n: "Encode statsRunner [(''reads'', 7), (''writes'', 3)] = None"
    by (simp add: statsRunner_def sampleRunner_def)
  have f: "JsonOutputFile statsRunner = ''stats''"
    by (simp add: statsRunner_def)
  have t1: "succeeds (RunQuery statsRunner) [''create table t''] (Teardown cleanConfig)
       = Some [''create table t'', ''truncate table t'', ''drop table t'']"
    by (simp add: statsRunner_def sampleRunner_def cleanConfig_def newConfig_def)
  have v1: "Setup cleanConfig = [''create table t'']"
    "Teardown cleanConfig = [''truncate table t'', ''drop table t'']"
    by (simp_all add: cleanConfig_def newConfig_def)
  from teardown_after_statistics [OF s1 j1 disjI2 [OF conjI [OF c n]], of _ sampleFlavor] t1
  have g1: "runTest statsRunner [] sampleFlavor cleanConfig
       = ([PerformingSetup, SetupQuery ''create table t'', JobsStarted, Stats ''reads'' 7,
           Stats ''writes'' 3, StatsFile ''stats.json'', PerformingTeardown,
           TeardownQuery ''truncate table t'', TeardownQuery ''drop table t''], Returns)"
    by (simp add: v1 f)
  have s2: "succeeds (RunQuery statsRunner) [] (Setup teardownConfig) = Some [''create table t'']"
    by (simp add: statsRunner_def sampleRunner_def teardownConfig_def newConfig_def)
  have j2: "processResults statsRunner teardownConfig [''create table t'']
       = Some ([(''reads'', 7), (''writes'', 3)], [''create table t''])"
    by (simp add: statsRunner_def)
  have t2: "Teardown teardownConfig = [] @ ''drop table missing'' # [''drop table t'']"
    by (simp add: teardownConfig_def newConfig_def)
  have p2: "succeeds (RunQuery statsRunner) [''create table t''] [] = Some [''create table t'']"
    by simp
  have e2: "RunQuery statsRunner [''create table t''] ''drop table missing''
       = (Some (New ''unknown table''), [''create table t'', ''drop table missing''])"
    by (simp add: statsRunner_def sampleRunner_def)
  have v2: "Setup teardownConfig = [''create table t'']"
    by (simp add: teardownConfig_def newConfig_def)
  from teardown_after_statistics [OF s2 j2 disjI2 [OF conjI [OF c n]],
      where df = sampleFlavor and pre = "[]" and query = "''drop table missing''"
        and post = "[''drop table t'']" and ?db3.0 = "[''create table t'']"
        and err = "New ''unknown table''" and ?db4.0 = "[''create table t'', ''drop table missing'']"]
    t2 p2 e2
  have g2: "runTest statsRunner [] sampleFlavor teardownConfig
       = ([PerformingSetup, SetupQuery ''create table t'', JobsStarted, Stats ''reads'' 7,
           Stats ''writes'' 3, StatsFile ''stats.json'', PerformingTeardown,
           TeardownQuery ''drop table missing'',
           Fatalf (ErrorInTeardownQuery ''drop table missing'' (New ''unknown table''))], Exits)"
    by (simp add: v2 f)
  from s1 j1 c n t1 g1 s2 t2 e2 g2 show ?thesis by (intro conjI)
qed

text \<open>
  Claim C3, as stated, fails. The configuration has one setup query and two teardown
  queries, of which the first fails. The jobs return, and then the process exits in
  \<^verbatim>\<open>log.Fatalf\<close> at the failing teardown query: the error is fatal, the call does not
  return, and the second teardown query is not run.
\<close>

theorem teardown_error_exits_counterexample:
  "runTest sampleRunner [] sampleFlavor teardownConfig
     = ([PerformingSetup, SetupQuery ''create table t'', JobsStarted, PerformingTeardown,
         TeardownQuery ''drop table missing'',
         Fatalf (ErrorInTeardownQuery ''drop table missing'' (New ''unknown table''))], Exits)"
  by (simp add: runTest_def runJobsAndTeardown_def runTeardown_def sampleRunner_def
      teardownConfig_def newConfig_def)

subsection \<open>Start, stop and duration\<close>

lemma checkJobTimes_None:
  "0 < d \<Longrightarrow> (checkJobTimes d jobs = None) = withinDuration d jobs"
  by (induction jobs) (auto simp: withinDuration_def split: if_splits)

lemma checkJobTimes_unbounded:
  "d \<le> 0 \<Longrightarrow> checkJobTimes d jobs = None"
  by (induction jobs) auto

lemma checkJobTimes_Some:
  "checkJobTimes d jobs = Some err \<Longrightarrow>
   0 < d \<and> (\<exists>name job. (name, job) \<in> set jobs \<and>
      ((err = StartsAfterTestFinishes name \<and> Start job > d) \<or>
       (err = StopsAfterTestFinishes name \<and> Stop job > d)))"
proof (induction jobs)
  case Nil
  then show ?case by simp
next
  case (Cons a jobs)
  obtain n j where a: "a = (n, j)" by (cases a)
  show ?case
  proof (cases "0 < d \<and> d < Start j")
    case True
    with Cons.prems a show ?thesis by auto
  next
    case nostart: False
    show ?thesis
    proof (cases "0 < Stop j \<and> 0 < d \<and> d < Stop j")
      case True
      with nostart Cons.prems a show ?thesis by auto
    next
      case False
      with nostart Cons.prems a have "checkJobTimes d jobs = Some err" by auto
      from Cons.IH [OF this] show ?thesis by auto
    qed
  qed
qed

lemma withinDuration_set:
  "set jobs = set jobs' \<Longrightarrow> withinDuration d jobs = withinDuration d jobs'"
  by (simp add: withinDuration_def list_all_iff)

lemma someJobAfter_not_within:
  "someJobAfter d jobs = (\<not> withinDuration d jobs)"
  by (induction jobs) (auto simp: someJobAfter_def withinDuration_def)


text \<open>
  Claim C6. For a configuration whose sections parse and whose duration is positive,
  \<^verbatim>\<open>parseIniConfig\<close> and \<^verbatim>\<open>parseJSONConfig\<close> return an error if and only if some job
  starts or stops after the duration, and the error is \<^verbatim>\<open>starts after test finishes\<close> or
  \<^verbatim>\<open>stops after test finishes\<close> for a job that does. So in every configuration
  \<^verbatim>\<open>parseConfig\<close> accepts with a positive duration, every job starts and stops within
  it. The order in which \<^verbatim>\<open>range\<close> visits the jobs is any order.
\<close>

theorem jobs_within_duration:
  assumes perm: "set (rangeJobs env (Jobs config)) = set (Jobs config)"
    and pos: "0 < Duration config"
  shows "(iniSections env df iniConfig basedir = Inr config \<longrightarrow>
            ((\<exists>err. parseIniConfig env df iniConfig basedir = Inl err) =
               someJobAfter (Duration config) (Jobs config))
          \<and> (\<forall>err. parseIniConfig env df iniConfig basedir = Inl err \<longrightarrow>
                (\<exists>name job. (name, job) \<in> set (Jobs config) \<and>
                   ((err = StartsAfterTestFinishes name \<and> Start job > Duration config) \<or>
                    (err = StopsAfterTestFinishes name \<and> Stop job > Duration config)))))
       \<and> (jsonSections env df jsonConfig basedir = Inr config \<longrightarrow>
            ((\<exists>err. parseJSONConfig env df jsonConfig basedir = Inl err) =
               someJobAfter (Duration config) (Jobs config))
          \<and> (\<forall>err. parseJSONConfig env df jsonConfig basedir = Inl err \<longrightarrow>
                (\<exists>name job. (name, job) \<in> set (Jobs config) \<and>
                   ((err = StartsAfterTestFinishes name \<and> Start job > Duration config) \<or>
                    (err = StopsAfterTestFinishes name \<and> Stop job > Duration config)))))
       \<and> (parseConfig env df configFile basedir = Inr config \<longrightarrow>
            withinDuration (Duration config) (Jobs config))"
proof -
  let ?check = "checkJobTimes (Duration config) (rangeJobs env (Jobs config))"
  have none: "(?check = None) = withinDuration (Duration config) (Jobs config)"
    using checkJobTimes_None [OF pos] withinDuration_set [OF perm] by simp
  have some: "\<And>err. ?check = Some err \<Longrightarrow>
      \<exists>name job. (name, job) \<in> set (Jobs config) \<and>
         ((err = StartsAfterTestFinishes name \<and> Start job > Duration config) \<or>
          (err = StopsAfterTestFinishes name \<and> Stop job > Duration config))"
    using checkJobTimes_Some perm by blast
  have ex: "(\<exists>err. ?check = Some err) = someJobAfter (Duration config) (Jobs config)"
    using none by (cases ?check) (simp_all add: someJobAfter_not_within)
  have ini: "iniSections env df iniConfig basedir = Inr config \<Longrightarrow>
      parseIniConfig env df iniConfig basedir = (case ?check of Some err \<Rightarrow> Inl err | None \<Rightarrow> Inr config)"
    by (simp add: parseIniConfig_def)
  have json: "jsonSections env df jsonConfig basedir = Inr config \<Longrightarrow>
      parseJSONConfig env df jsonConfig basedir = (case ?check of Some err \<Rightarrow> Inl err | None \<Rightarrow> Inr config)"
    by (simp add: parseJSONConfig_def)
  have a: "iniSections env df iniConfig basedir = Inr config \<longrightarrow>
            ((\<exists>err. parseIniConfig env df iniConfig basedir = Inl err) =
               someJobAfter (Duration config) (Jobs config))
          \<and> (\<forall>err. parseIniConfig env df iniConfig basedir = Inl err \<longrightarrow>
                (\<exists>name job. (name, job) \<in> set (Jobs config) \<and>
                   ((err = StartsAfterTestFinishes name \<and> Start job > Duration config) \<or>
                    (err = StopsAfterTestFinishes name \<and> Stop job > Duration config))))"
  proof
    assume s: "iniSections env df iniConfig basedir = Inr config"
    show "((\<exists>err. parseIniConfig env df iniConfig basedir = Inl err) =
               someJobAfter (Duration config) (Jobs config))
          \<and> (\<forall>err. parseIniConfig env df iniConfig basedir = Inl err \<longrightarrow>
                (\<exists>name job. (name, job) \<in> set (Jobs config) \<and>
                   ((err = StartsAfterTestFinishes name \<and> Start job > Duration config) \<or>
                    (err = StopsAfterTestFinishes name \<and> Stop job > Duration config))))"
      unfolding ini [OF s] ex [symmetric] using some by (cases ?check) auto
  qed
  have b: "jsonSections env df jsonConfig basedir = Inr config \<longrightarrow>
            ((\<exists>err. parseJSONConfig env df jsonConfig basedir = Inl err) =
               someJobAfter (Duration config) (Jobs config))
          \<and> (\<forall>err. parseJSONConfig env df jsonConfig basedir = Inl err \<longrightarrow>
                (\<exists>name job. (name, job) \<in> set (Jobs config) \<and>
                   ((err = StartsAfterTestFinishes name \<and> Start job > Duration config) \<or>
                    (err = StopsAfterTestFinishes name \<and> Stop job > Duration config))))"
  proof
    assume s: "jsonSections env df jsonConfig basedir = Inr config"
    show "((\<exists>err. parseJSONConfig env df jsonConfig basedir = Inl err) =
               someJobAfter (Duration config) (Jobs config))
          \<and> (\<forall>err. parseJSONConfig env df jsonConfig basedir = Inl err \<longrightarrow>
                (\<exists>name job. (name, job) \<in> set (Jobs config) \<and>
                   ((err = StartsAfterTestFinishes name \<and> Start job > Duration config) \<or>
                    (err = StopsAfterTestFinishes name \<and> Stop job > Duration config))))"
      unfolding json [OF s] ex [symmetric] using some by (cases ?check) auto
  qed
  have c: "parseConfig env df configFile basedir = Inr config \<longrightarrow>
            withinDuration (Duration config) (Jobs config)"
  proof
    assume p: "parseConfig env df configFile basedir = Inr config"
    have "?check = None"
      using p
      by (auto simp: parseConfig_def parseIniConfig_def parseJSONConfig_def
          split: if_splits sum.splits option.splits)
    with none show "withinDuration (Duration config) (Jobs config)" by simp
  qed
  from a b c show ?thesis by (intro conjI)
qed

lemma eval_lateIni:
  "iniSections sampleEnv sampleFlavor lateIni ''/base'' = Inr lateConfig"
  by (simp add: model_defs sample_defs lateIni_def lateConfig_def)

lemma eval_sampleIni:
  "iniSections sampleEnv sampleFlavor sampleIni ''/base'' = Inr acceptedConfig"
  by (simp add: model_defs sample_defs sampleIni_def acceptedConfig_def)

lemma eval_lateJSON:
  "jsonSections sampleEnv sampleFlavor lateJSON ''/base'' = Inr lateConfig"
  by (simp add: model_defs sample_defs lateJSON_def lateConfig_def)

lemma eval_parseConfig_sampleIni:
  "parseConfig (sampleEnvWithIni sampleIni) sampleFlavor ''run.ini'' ''/base'' = Inr acceptedConfig"
  by (simp add: model_defs sample_defs sampleEnvWithIni_def sampleIni_def acceptedConfig_def)

theorem jobs_within_duration_witness:
  "set (rangeJobs sampleEnv (Jobs lateConfig)) = set (Jobs lateConfig)
   \<and> 0 < Duration lateConfig
   \<and> iniSections sampleEnv sampleFlavor lateIni ''/base'' = Inr lateConfig
   \<and> jsonSections sampleEnv sampleFlavor lateJSON ''/base'' = Inr lateConfig
   \<and> someJobAfter (Duration lateConfig) (Jobs lateConfig)
   \<and> parseIniConfig sampleEnv sampleFlavor lateIni ''/base'' = Inl (StopsAfterTestFinishes ''late'')
   \<and> parseJSONConfig sampleEnv sampleFlavor lateJSON ''/base'' = Inl (StopsAfterTestFinishes ''late'')
   \<and> set (rangeJobs (sampleEnvWithIni sampleIni) (Jobs acceptedConfig)) = set (Jobs acceptedConfig)
   \<and> 0 < Duration acceptedConfig
   \<and> parseConfig (sampleEnvWithIni sampleIni) sampleFlavor ''run.ini'' ''/base'' = Inr acceptedConfig
   \<and> withinDuration (Duration acceptedConfig) (Jobs acceptedConfig)"
proof -
  have p1: "set (rangeJobs sampleEnv (Jobs lateConfig)) = set (Jobs lateConfig)"
    by (simp add: sampleEnv_def)
  have d1: "0 < Duration lateConfig"
    by (simp add: lateConfig_def newConfig_def)
  have s1: "someJobAfter (Duration lateConfig) (Jobs lateConfig)"
    by (simp add: someJobAfter_def lateConfig_def newConfig_def newJob_def)
  have j1: "Jobs lateConfig = [(''late'', newJob\<lparr>Name := ''late'', Start := 2000000000, Stop := 10000000000,
                                Queries := [''select 1''], QueueDepth := 1\<rparr>)]"
    and dv: "Duration lateConfig = 5000000000"
    by (simp_all add: lateConfig_def newConfig_def)
  note t1 = jobs_within_duration [OF p1 d1, of sampleFlavor lateIni "''/base''" lateJSON]
  from t1 eval_lateIni s1 obtain err where
    e: "parseIniConfig sampleEnv sampleFlavor lateIni ''/base'' = Inl err" by blast
  from t1 eval_lateIni e have
    "\<exists>name job. (name, job) \<in> set (Jobs lateConfig) \<and>
       ((err = StartsAfterTestFinishes name \<and> Start job > Duration lateConfig) \<or>
        (err = StopsAfterTestFinishes name \<and> Stop job > Duration lateConfig))" by blast
  then have "err = StopsAfterTestFinishes ''late''"
    by (auto simp: j1 dv newJob_def)
  with e have g1: "parseIniConfig sampleEnv sampleFlavor lateIni ''/base'' = Inl (StopsAfterTestFinishes ''late'')"
    by simp
  from t1 eval_lateJSON s1 obtain err' where
    e': "parseJSONConfig sampleEnv sampleFlavor lateJSON ''/base'' = Inl err'" by blast
  from t1 eval_lateJSON e' have
    "\<exists>name job. (name, job) \<in> set (Jobs lateConfig) \<and>
       ((err' = StartsAfterTestFinishes name \<and> Start job > Duration lateConfig) \<or>
        (err' = StopsAfterTestFinishes name \<and> Stop job > Duration lateConfig))" by blast
  then have "err' = StopsAfterTestFinishes ''late''"
    by (auto simp: j1 dv newJob_def)
  with e' have g2: "parseJSONConfig sampleEnv sampleFlavor lateJSON ''/base'' = Inl (StopsAfterTestFinishes ''late'')"
    by simp
  have p2: "set (rangeJobs (sampleEnvWithIni sampleIni) (Jobs acceptedConfig)) = set (Jobs acceptedConfig)"
    by (simp add: sampleEnvWithIni_def sampleEnv_def)
  have d2: "0 < Duration acceptedConfig"
    by (simp add: acceptedConfig_def newConfig_def)
  from jobs_within_duration [OF p2 d2, of sampleFlavor lateIni "''/base''" lateJSON "''run.ini''"]
    eval_parseConfig_sampleIni
  have g3: "withinDuration (Duration acceptedConfig) (Jobs acceptedConfig)" by blast
  from p1 d1 eval_lateIni eval_lateJSON s1 g1 g2 p2 d2 eval_parseConfig_sampleIni g3
  show ?thesis by (intro conjI)
qed

text \<open>
  Claim C4, as stated, fails: \<^verbatim>\<open>parseConfig\<close> accepts a configuration in which one job
  has a negative start and another stops before it starts.
\<close>

theorem negative_start_accepted_counterexample:
  "parseConfig (sampleEnvWithIni sampleIni) sampleFlavor ''run.ini'' ''/base'' = Inr acceptedConfig
   \<and> map (\<lambda>(name, job). (name, Start job, Stop job)) (Jobs acceptedConfig)
       = [(''early'', - 5000000000, 0), (''backwards'', 5000000000, 2000000000)]"
  by (simp add: model_defs sample_defs sampleEnvWithIni_def sampleIni_def acceptedConfig_def)

text \<open>
  Claim C4, amended. \<^verbatim>\<open>parseConfig\<close> checks the start and the stop of a job against
  the duration of the test only: a configuration whose sections parse is accepted if
  and only if, when its duration is positive, every job starts and stops within it.
  Neither the sign of a start nor the order of start and stop is looked at; with
  duration 0 every such configuration is accepted.
\<close>

theorem start_stop_checked_against_duration_only:
  assumes perm: "set (rangeJobs env (Jobs config)) = set (Jobs config)"
  shows "(iniSections env df iniConfig basedir = Inr config \<longrightarrow>
            (parseIniConfig env df iniConfig basedir = Inr config) =
              (0 < Duration config \<longrightarrow> withinDuration (Duration config) (Jobs config)))
       \<and> (jsonSections env df jsonConfig basedir = Inr config \<longrightarrow>
            (parseJSONConfig env df jsonConfig basedir = Inr config) =
              (0 < Duration config \<longrightarrow> withinDuration (Duration config) (Jobs config)))"
proof -
  let ?check = "checkJobTimes (Duration config) (rangeJobs env (Jobs config))"
  have none: "(?check = None) = (0 < Duration config \<longrightarrow> withinDuration (Duration config) (Jobs config))"
  proof (cases "0 < Duration config")
    case True
    then show ?thesis
      using checkJobTimes_None [OF True] withinDuration_set [OF perm] by simp
  next
    case False
    then show ?thesis by (simp add: checkJobTimes_unbounded)
  qed
  have a: "iniSections env df iniConfig basedir = Inr config \<longrightarrow>
            (parseIniConfig env df iniConfig basedir = Inr config) =
              (0 < Duration config \<longrightarrow> withinDuration (Duration config) (Jobs config))"
    unfolding none [symmetric] by (cases ?check) (auto simp: parseIniConfig_def)
  have b: "jsonSections env df jsonConfig basedir = Inr config \<longrightarrow>
            (parseJSONConfig env df jsonConfig basedir = Inr config) =
              (0 < Duration config \<longrightarrow> withinDuration (Duration config) (Jobs config))"
    unfolding none [symmetric] by (cases ?check) (auto simp: parseJSONConfig_def)
  from a b show ?thesis by (intro conjI)
qed

theorem start_stop_checked_against_duration_only_witness:
  "set (rangeJobs sampleEnv (Jobs acceptedConfig)) = set (Jobs acceptedConfig)
   \<and> iniSections sampleEnv sampleFlavor sampleIni ''/base'' = Inr acceptedConfig
   \<and> 0 < Duration acceptedConfig
   \<and> withinDuration (Duration acceptedConfig) (Jobs acceptedConfig)
   \<and> parseIniConfig sampleEnv sampleFlavor sampleIni ''/base'' = Inr acceptedConfig
   \<and> set (rangeJobs sampleEnv (Jobs lateConfig)) = set (Jobs lateConfig)
   \<and> jsonSections sampleEnv sampleFlavor lateJSON ''/base'' = Inr lateConfig
   \<and> 0 < Duration lateConfig
   \<and> \<not> withinDuration (Duration lateConfig) (Jobs lateConfig)
   \<and> parseJSONConfig sampleEnv sampleFlavor lateJSON ''/base'' \<noteq> Inr lateConfig"
proof -
  have p1: "set (rangeJobs sampleEnv (Jobs acceptedConfig)) = set (Jobs acceptedConfig)"
    by (simp add: sampleEnv_def)
  have d1: "0 < Duration acceptedConfig"
    by (simp add: acceptedConfig_def newConfig_def)
  have w1: "withinDuration (Duration acceptedConfig) (Jobs acceptedConfig)"
    by (simp add: withinDuration_def acceptedConfig_def newConfig_def newJob_def)
  from start_stop_checked_against_duration_only [OF p1, of sampleFlavor sampleIni "''/base''" lateJSON]
    eval_sampleIni w1
  have g1: "parseIniConfig sampleEnv sampleFlavor sampleIni ''/base'' = Inr acceptedConfig" by blast
  have p2: "set (rangeJobs sampleEnv (Jobs lateConfig)) = set (Jobs lateConfig)"
    by (simp add: sampleEnv_def)
  have d2: "0 < Duration lateConfig"
    by (simp add: lateConfig_def newConfig_def)
  have w2: "\<not> withinDuration (Duration lateConfig) (Jobs lateConfig)"
    by (simp add: withinDuration_def lateConfig_def newConfig_def newJob_def)
  from start_stop_checked_against_duration_only [OF p2, of sampleFlavor sampleIni "''/base''" lateJSON]
    eval_lateJSON d2 w2
  have g2: "parseJSONConfig sampleEnv sampleFlavor lateJSON ''/base'' \<noteq> Inr lateConfig" by blast
  from p1 eval_sampleIni d1 w1 g1 p2 eval_lateJSON d2 w2 g2 show ?thesis by (intro conjI)
qed

subsection \<open>The type of a job\<close>

lemma wireQueryArgs_fields [simp]:
  "QueueDepth (wireQueryArgs jp job) = QueueDepth job"
  "Rate (wireQueryArgs jp job) = Rate job"
  "QueryLog (wireQueryArgs jp job) = QueryLog job"
  "BatchSize (wireQueryArgs jp job) = BatchSize job"
  "Start (wireQueryArgs jp job) = Start job"
  "Stop (wireQueryArgs jp job) = Stop job"
  "Queries (wireQueryArgs jp job) = Queries job"
  "Count (wireQueryArgs jp job) = Count job"
  by (simp_all add: wireQueryArgs_def split: option.splits)

lemma differentJobTypes_one: "(differentJobTypes job = 1) = exactlyOneJobType job"
  by (auto simp: differentJobTypes_def exactlyOneJobType_def split: if_splits)

lemma differentJobTypes_zero:
  "(differentJobTypes job = 0) = (QueueDepth job = 0 \<and> QueryLog job = None \<and> \<not> f64_gt0 (Rate job))"
  by (auto simp: differentJobTypes_def split: if_splits)

lemma decodeJobSection_accepts:
  assumes "decodeJobSection env df section basedir job0 = Inr job"
  shows "exactlyOneJobType job"
proof (cases "Decode (jobOptions env) section [] (newJobParser job0 df basedir)")
  case (Inl e)
  with assms show ?thesis by (simp add: decodeJobSection_def)
next
  case (Inr jp)
  have "differentJobTypes (jp_j jp) = 0 \<or> differentJobTypes (jp_j jp) = 1 \<or> 1 < differentJobTypes (jp_j jp)"
    by arith
  then show ?thesis
  proof (elim disjE)
    assume z: "differentJobTypes (jp_j jp) = 0"
    with assms Inr have "job = wireQueryArgs jp ((jp_j jp)\<lparr>QueueDepth := 1\<rparr>)"
      by (simp add: decodeJobSection_def Let_def differentJobTypes_zero split: if_splits)
    with z show ?thesis
      by (simp add: differentJobTypes_zero exactlyOneJobType_def)
  next
    assume o: "differentJobTypes (jp_j jp) = 1"
    with assms Inr have "job = wireQueryArgs jp (jp_j jp) \<or> job = wireQueryArgs jp ((jp_j jp)\<lparr>BatchSize := 1\<rparr>)"
      by (simp add: decodeJobSection_def Let_def split: if_splits)
    moreover from o have "exactlyOneJobType (jp_j jp)"
      using differentJobTypes_one by blast
    ultimately show ?thesis
      by (auto simp: exactlyOneJobType_def)
  next
    assume "1 < differentJobTypes (jp_j jp)"
    with assms Inr show ?thesis
      by (simp add: decodeJobSection_def Let_def split: if_splits)
  qed
qed


lemma validateJobSection_accepts:
  assumes "validateJobSection env df jobSpec basedir job0 = Inr job"
  shows "exactlyOneJobType job"
proof (cases "runBlocks (jobFields env df jobSpec basedir) (newJobParser job0 df basedir)")
  case (Inl e)
  with assms show ?thesis by (simp add: validateJobSection_def)
next
  case (Inr jp)
  have "differentJobTypes (jp_j jp) = 0 \<or> differentJobTypes (jp_j jp) = 1 \<or> 1 < differentJobTypes (jp_j jp)"
    by arith
  then show ?thesis
  proof (elim disjE)
    assume z: "differentJobTypes (jp_j jp) = 0"
    with assms Inr have "job = wireQueryArgs jp ((jp_j jp)\<lparr>QueueDepth := 1\<rparr>)"
      by (simp add: validateJobSection_def Let_def differentJobTypes_zero split: if_splits)
    with z show ?thesis
      by (simp add: differentJobTypes_zero exactlyOneJobType_def)
  next
    assume o: "differentJobTypes (jp_j jp) = 1"
    with assms Inr have "job = wireQueryArgs jp (jp_j jp) \<or> job = wireQueryArgs jp ((jp_j jp)\<lparr>BatchSize := 1\<rparr>)"
      by (simp add: validateJobSection_def Let_def split: if_splits)
    moreover from o have "exactlyOneJobType (jp_j jp)"
      using differentJobTypes_one by blast
    ultimately show ?thesis
      by (auto simp: exactlyOneJobType_def)
  next
    assume "1 < differentJobTypes (jp_j jp)"
    with assms Inr show ?thesis
      by (simp add: validateJobSection_def Let_def split: if_splits)
  qed
qed

lemma decodeJobSection_many_types:
  assumes "Decode (jobOptions env) section [] (newJobParser job0 df basedir) = Inr jp"
    and "1 < differentJobTypes (jp_j jp)"
  shows "(\<exists>err. decodeJobSection env df section basedir job0 = Inl err)
       \<and> (otherInvariants jp \<longrightarrow> decodeJobSection env df section basedir job0 = Inl onlyOneOf)"
  using assms
  by (simp add: decodeJobSection_def Let_def otherInvariants_def onlyOneOf_def)

lemma validateJobSection_many_types:
  assumes "runBlocks (jobFields env df jobSpec basedir) (newJobParser job0 df basedir) = Inr jp"
    and "1 < differentJobTypes (jp_j jp)"
  shows "(\<exists>err. validateJobSection env df jobSpec basedir job0 = Inl err)
       \<and> (otherInvariants jp \<longrightarrow> validateJobSection env df jobSpec basedir job0 = Inl onlyOneOf)"
  using assms
  by (simp add: validateJobSection_def Let_def otherInvariants_def onlyOneOf_def)

lemma decodeJobSection_no_type:
  assumes "Decode (jobOptions env) section [] (newJobParser job0 df basedir) = Inr jp"
    and "differentJobTypes (jp_j jp) = 0"
  shows "decodeJobSection env df section basedir job0 \<noteq> Inl onlyOneOf
       \<and> (otherInvariants jp \<longrightarrow>
            decodeJobSection env df section basedir job0 =
              Inr (wireQueryArgs jp ((jp_j jp)\<lparr>QueueDepth := 1\<rparr>)))"
proof -
  from assms(2) have z: "QueueDepth (jp_j jp) = 0" "QueryLog (jp_j jp) = None" "\<not> f64_gt0 (Rate (jp_j jp))"
    by (simp_all add: differentJobTypes_zero)
  from assms z show ?thesis
    by (simp add: decodeJobSection_def Let_def otherInvariants_def onlyOneOf_def)
qed

lemma validateJobSection_no_type:
  assumes "runBlocks (jobFields env df jobSpec basedir) (newJobParser job0 df basedir) = Inr jp"
    and "differentJobTypes (jp_j jp) = 0"
  shows "validateJobSection env df jobSpec basedir job0 \<noteq> Inl onlyOneOf
       \<and> (otherInvariants jp \<longrightarrow>
            validateJobSection env df jobSpec basedir job0 =
              Inr (wireQueryArgs jp ((jp_j jp)\<lparr>QueueDepth := 1\<rparr>)))"
proof -
  from assms(2) have z: "QueueDepth (jp_j jp) = 0" "QueryLog (jp_j jp) = None" "\<not> f64_gt0 (Rate (jp_j jp))"
    by (simp_all add: differentJobTypes_zero)
  from assms z show ?thesis
    by (simp add: validateJobSection_def Let_def otherInvariants_def onlyOneOf_def)
qed


subsection \<open>Blocks and properties in sequence\<close>

lemma runBlocks_append:
  "runBlocks (fs @ gs) s = (case runBlocks fs s of Inl err \<Rightarrow> Inl err | Inr s' \<Rightarrow> runBlocks gs s')"
proof (induction fs arbitrary: s)
  case Nil
  show ?case by simp
next
  case (Cons f fs)
  show ?case by (cases "f s") (simp_all add: Cons.IH)
qed

lemma runBlocks_invariant:
  assumes step: "\<And>f s s'. f \<in> set fs \<Longrightarrow> P s \<Longrightarrow> f s = Inr s' \<Longrightarrow> P s'"
    and init: "P s"
    and run: "runBlocks fs s = Inr s'"
  shows "P s'"
  using assms
proof (induction fs arbitrary: s)
  case Nil
  then show ?case by simp
next
  case (Cons f fs)
  show ?case
  proof (cases "f s")
    case (Inl e)
    with Cons.prems(3) show ?thesis by simp
  next
    case (Inr s1)
    with Cons.prems(3) have r: "runBlocks fs s1 = Inr s'" by simp
    have "f \<in> set (f # fs)" by simp
    from Cons.prems(1) [OF this Cons.prems(2) Inr] have p1: "P s1" .
    have st: "\<And>g t t'. g \<in> set fs \<Longrightarrow> P t \<Longrightarrow> g t = Inr t' \<Longrightarrow> P t'"
    proof -
      fix g t t'
      assume "g \<in> set fs" and pt: "P t" and gt: "g t = Inr t'"
      then have "g \<in> set (f # fs)" by simp
      from Cons.prems(1) [OF this pt gt] show "P t'" .
    qed
    from Cons.IH [OF st p1 r] show ?thesis .
  qed
qed

lemma runBlocks_fails:
  assumes "f \<in> set fs" and fails: "\<And>s. \<exists>err. f s = Inl err"
  shows "\<exists>err. runBlocks fs s = Inl err"
  using assms(1)
proof (induction fs arbitrary: s)
  case Nil
  then show ?case by simp
next
  case (Cons g fs)
  show ?case
  proof (cases "g s")
    case (Inl e)
    then show ?thesis by simp
  next
    case (Inr s1)
    show ?thesis
    proof (cases "f = g")
      case True
      from fails [of s] obtain err where "f s = Inl err" ..
      with True Inr show ?thesis by simp
    next
      case False
      with Cons.prems have "f \<in> set fs" by simp
      from Cons.IH [OF this, of s1] Inr show ?thesis by simp
    qed
  qed
qed

lemma Decode_append:
  "Decode dos (xs @ ys) seen dst =
     (case Decode dos xs seen dst of
        Inl err \<Rightarrow> Inl err
      | Inr d \<Rightarrow> Decode dos ys (rev (map fst xs) @ seen) d)"
proof (induction xs arbitrary: seen dst)
  case Nil
  show ?case by simp
next
  case (Cons x xs)
  obtain name v where x: "x = (name, v)" by (cases x)
  show ?case
    unfolding x by (auto simp: Cons.IH split: option.splits prod.splits sum.splits)
qed

lemma Decode_fails:
  assumes "(name, v) \<in> set rs" and "dos name = Some (kind, parse)"
    and fails: "\<And>dst. \<exists>err. parse v dst = Inl err"
  shows "\<exists>err. Decode dos rs seen dst = Inl err"
  using assms(1)
proof (induction rs arbitrary: seen dst)
  case Nil
  then show ?case by simp
next
  case (Cons x xs)
  obtain n w where x: "x = (n, w)" by (cases x)
  show ?case
  proof (cases "Decode dos [x] seen dst")
    case (Inl e)
    then have "Decode dos ([x] @ xs) seen dst = Inl e" by (simp only: Decode_append sum.case)
    then show ?thesis by simp
  next
    case (Inr d)
    show ?thesis
    proof (cases "x = (name, v)")
      case True
      from fails [of dst] obtain err where "parse v dst = Inl err" ..
      with True assms(2) Inr show ?thesis by (simp split: if_splits)
    next
      case False
      with Cons.prems have "(name, v) \<in> set xs" by simp
      from Cons.IH [OF this] obtain err where "Decode dos xs (rev (map fst [x]) @ seen) d = Inl err"
        by blast
      with Inr have "Decode dos ([x] @ xs) seen dst = Inl err" by (simp only: Decode_append sum.case)
      then show ?thesis by simp
    qed
  qed
qed

subsection \<open>Queue depth and concurrency\<close>

lemma blocks_after_concurrency:
  assumes "f \<in> {field_Count env jobSpec, field_MultiQueryMode env jobSpec, field_QueryLogFile env jobSpec basedir}"
    and "f s = Inr s'"
  shows "QueueDepth (jp_j s') = QueueDepth (jp_j s)"
proof -
  from assms(1) consider "f = field_Count env jobSpec" | "f = field_MultiQueryMode env jobSpec"
    | "f = field_QueryLogFile env jobSpec basedir" by blast
  then show ?thesis
  proof cases
    case 1
    with assms(2) show ?thesis by (auto simp: field_Count_def split: if_splits)
  next
    case 2
    with assms(2) show ?thesis by (auto simp: field_MultiQueryMode_def split: if_splits)
  next
    case 3
    with assms(2) show ?thesis by (auto simp: field_QueryLogFile_def split: if_splits sum.splits)
  qed
qed

lemma jobFields_split:
  "jobFields env df jobSpec basedir =
     [field_Start env jobSpec, field_Stop env jobSpec, field_Queries env df jobSpec,
      field_QueryFiles env df jobSpec basedir, field_QueryArgsFile env jobSpec basedir,
      field_QueryArgsDelim env jobSpec, field_QueryResultsFile env jobSpec basedir,
      field_Rate env jobSpec, field_BatchSize env jobSpec]
     @ [field_QueueDepth env jobSpec, field_Concurrency env jobSpec]
     @ [field_Count env jobSpec, field_MultiQueryMode env jobSpec,
        field_QueryLogFile env jobSpec basedir]"
  by (simp add: jobFields_def)

lemma queue_depth_then_concurrency:
  assumes "isFieldSetJob env jobSpec ''Concurrency''"
  shows "runBlocks [field_QueueDepth env jobSpec, field_Concurrency env jobSpec] jp =
           Inr (jp\<lparr>jp_j := (jp_j jp)\<lparr>QueueDepth := opt_Concurrency jobSpec\<rparr>\<rparr>)"
  using assms by (simp add: field_QueueDepth_def field_Concurrency_def)

lemma jobFields_concurrency:
  assumes c: "isFieldSetJob env jobSpec ''Concurrency''"
    and r: "runBlocks (jobFields env df jobSpec basedir) jp0 = Inr jp"
  shows "QueueDepth (jp_j jp) = opt_Concurrency jobSpec"
proof -
  let ?pre = "[field_Start env jobSpec, field_Stop env jobSpec, field_Queries env df jobSpec,
      field_QueryFiles env df jobSpec basedir, field_QueryArgsFile env jobSpec basedir,
      field_QueryArgsDelim env jobSpec, field_QueryResultsFile env jobSpec basedir,
      field_Rate env jobSpec, field_BatchSize env jobSpec]"
  let ?post = "[field_Count env jobSpec, field_MultiQueryMode env jobSpec,
        field_QueryLogFile env jobSpec basedir]"
  from r obtain jp1 where p1: "runBlocks ?pre jp0 = Inr jp1"
    and p2: "runBlocks ([field_QueueDepth env jobSpec, field_Concurrency env jobSpec] @ ?post) jp1 = Inr jp"
    unfolding jobFields_split runBlocks_append [of ?pre] by (cases "runBlocks ?pre jp0") simp_all
  let ?jp2 = "jp1\<lparr>jp_j := (jp_j jp1)\<lparr>QueueDepth := opt_Concurrency jobSpec\<rparr>\<rparr>"
  from p2 have p3: "runBlocks ?post ?jp2 = Inr jp"
    unfolding runBlocks_append [of "[field_QueueDepth env jobSpec, field_Concurrency env jobSpec]"]
      queue_depth_then_concurrency [OF c] by simp
  have inv: "\<And>f s s'. f \<in> set ?post \<Longrightarrow> QueueDepth (jp_j s) = opt_Concurrency jobSpec \<Longrightarrow>
      f s = Inr s' \<Longrightarrow> QueueDepth (jp_j s') = opt_Concurrency jobSpec"
  proof -
    fix f s s'
    assume "f \<in> set ?post" and q: "QueueDepth (jp_j s) = opt_Concurrency jobSpec" and fs: "f s = Inr s'"
    then have "f \<in> {field_Count env jobSpec, field_MultiQueryMode env jobSpec,
        field_QueryLogFile env jobSpec basedir}" by simp
    from blocks_after_concurrency [OF this fs] q
    show "QueueDepth (jp_j s') = opt_Concurrency jobSpec" by simp
  qed
  have "QueueDepth (jp_j ?jp2) = opt_Concurrency jobSpec" by simp
  from runBlocks_invariant [where P = "\<lambda>s. QueueDepth (jp_j s) = opt_Concurrency jobSpec", OF inv this p3]
  show ?thesis .
qed

subsection \<open>The delimiter of the query arguments\<close>

lemma jobOptions_delim:
  "jobOptions env ''query-args-delim'' = Some (UniqueOption, parse_query_args_delim env)"
  by (simp add: jobOptions_def)

lemma validate_delim_first_error:
  assumes isset: "isFieldSetJob env jobSpec ''QueryArgsDelim''"
    and len: "length (opt_QueryArgsDelim jobSpec) \<noteq> 1"
    and pre: "runBlocks [field_Start env jobSpec, field_Stop env jobSpec, field_Queries env df jobSpec,
                field_QueryFiles env df jobSpec basedir, field_QueryArgsFile env jobSpec basedir]
               (newJobParser job0 df basedir) = Inr jp1"
  shows "validateJobSection env df jobSpec basedir job0 = Inl mustProvideOneCharacter"
proof -
  let ?pre = "[field_Start env jobSpec, field_Stop env jobSpec, field_Queries env df jobSpec,
                field_QueryFiles env df jobSpec basedir, field_QueryArgsFile env jobSpec basedir]"
  let ?rest = "[field_QueryArgsDelim env jobSpec, field_QueryResultsFile env jobSpec basedir,
      field_Rate env jobSpec, field_BatchSize env jobSpec, field_QueueDepth env jobSpec,
      field_Concurrency env jobSpec, field_Count env jobSpec, field_MultiQueryMode env jobSpec,
      field_QueryLogFile env jobSpec basedir]"
  have sp: "jobFields env df jobSpec basedir = ?pre @ ?rest" by (simp add: jobFields_def)
  have d: "field_QueryArgsDelim env jobSpec jp1 = Inl mustProvideOneCharacter"
    using isset len by (simp add: field_QueryArgsDelim_def mustProvideOneCharacter_def)
  have "runBlocks (jobFields env df jobSpec basedir) (newJobParser job0 df basedir) = Inl mustProvideOneCharacter"
    unfolding sp runBlocks_append [of ?pre] pre using d by simp
  then show ?thesis by (simp add: validateJobSection_def)
qed

lemma validate_delim_rejected:
  assumes isset: "isFieldSetJob env jobSpec ''QueryArgsDelim''"
    and len: "length (opt_QueryArgsDelim jobSpec) \<noteq> 1"
  shows "\<exists>err. validateJobSection env df jobSpec basedir job0 = Inl err"
proof -
  have m: "field_QueryArgsDelim env jobSpec \<in> set (jobFields env df jobSpec basedir)"
    by (simp add: jobFields_def)
  have f: "\<And>s. \<exists>err. field_QueryArgsDelim env jobSpec s = Inl err"
    using isset len by (simp add: field_QueryArgsDelim_def)
  from runBlocks_fails [OF m f] obtain err where
    "runBlocks (jobFields env df jobSpec basedir) (newJobParser job0 df basedir) = Inl err" by blast
  then show ?thesis by (simp add: validateJobSection_def)
qed

lemma decode_delim_rejected:
  assumes mem: "(''query-args-delim'', v) \<in> set section"
    and len: "\<And>s. Unquote env v = Inr s \<Longrightarrow> length s \<noteq> 1"
  shows "\<exists>err. decodeJobSection env df section basedir job0 = Inl err"
proof -
  have f: "\<And>dst. \<exists>err. parse_query_args_delim env v dst = Inl err"
  proof -
    fix dst
    show "\<exists>err. parse_query_args_delim env v dst = Inl err"
    proof (cases "Unquote env v")
      case (Inl e)
      then show ?thesis by (simp add: parse_query_args_delim_def)
    next
      case (Inr s)
      with len [OF Inr] show ?thesis by (simp add: parse_query_args_delim_def)
    qed
  qed
  from Decode_fails [where dos = "jobOptions env" and name = "''query-args-delim''"
      and parse = "parse_query_args_delim env", OF mem jobOptions_delim f] obtain err where
    "Decode (jobOptions env) section [] (newJobParser job0 df basedir) = Inl err" by blast
  then show ?thesis by (simp add: decodeJobSection_def)
qed

lemma decode_delim_first_error:
  assumes pre: "Decode (jobOptions env) pre [] (newJobParser job0 df basedir) = Inr jp1"
    and fresh: "''query-args-delim'' \<notin> set (map fst pre)"
  shows "decodeJobSection env df (pre @ (''query-args-delim'', v) # post) basedir job0 =
           (case Unquote env v of
              Inl err \<Rightarrow> Inl err
            | Inr s \<Rightarrow> if length s \<noteq> 1 then Inl mustProvideOneCharacter
                       else decodeJobSection env df (pre @ (''query-args-delim'', v) # post) basedir job0)"
proof (cases "Unquote env v")
  case (Inl e)
  with fresh have "Decode (jobOptions env) (pre @ (''query-args-delim'', v) # post) []
      (newJobParser job0 df basedir) = Inl e"
    unfolding Decode_append pre by (simp add: jobOptions_delim parse_query_args_delim_def)
  with Inl show ?thesis by (simp add: decodeJobSection_def)
next
  case (Inr s)
  show ?thesis
  proof (cases "length s \<noteq> 1")
    case True
    with Inr fresh have "Decode (jobOptions env) (pre @ (''query-args-delim'', v) # post) []
        (newJobParser job0 df basedir) = Inl mustProvideOneCharacter"
      unfolding Decode_append pre
      by (simp add: jobOptions_delim parse_query_args_delim_def mustProvideOneCharacter_def)
    with Inr True show ?thesis by (simp add: decodeJobSection_def)
  next
    case False
    with Inr show ?thesis by simp
  qed
qed

lemma wireQueryArgs_QueueDepth: "QueueDepth (wireQueryArgs jp job) = QueueDepth job"
  by (simp add: wireQueryArgs_def split: option.splits)

text \<open>
  Claim C9. In the JSON form a job with both \<^verbatim>\<open>queueDepth\<close> and \<^verbatim>\<open>concurrency\<close> is not
  rejected for having both: the two blocks never return an error, and when
  \<^verbatim>\<open>concurrency\<close> is set the second overwrites what the first assigned, whatever it was.
  No later block assigns \<^verbatim>\<open>QueueDepth\<close>, so after the blocks it is the concurrency, and a
  job that is accepted with a concurrency other than 0 has it as its \<^verbatim>\<open>QueueDepth\<close>.
\<close>

theorem concurrency_overrides_queueDepth:
  assumes c: "isFieldSetJob env jobSpec ''Concurrency''"
  shows "runBlocks [field_QueueDepth env jobSpec, field_Concurrency env jobSpec] jp =
           Inr (jp\<lparr>jp_j := (jp_j jp)\<lparr>QueueDepth := opt_Concurrency jobSpec\<rparr>\<rparr>)
       \<and> (runBlocks (jobFields env df jobSpec basedir) (newJobParser job0 df basedir) = Inr jp' \<longrightarrow>
            QueueDepth (jp_j jp') = opt_Concurrency jobSpec)
       \<and> (opt_Concurrency jobSpec \<noteq> 0 \<and> validateJobSection env df jobSpec basedir job0 = Inr job \<longrightarrow>
            QueueDepth job = opt_Concurrency jobSpec)"
proof -
  have a: "runBlocks [field_QueueDepth env jobSpec, field_Concurrency env jobSpec] jp =
           Inr (jp\<lparr>jp_j := (jp_j jp)\<lparr>QueueDepth := opt_Concurrency jobSpec\<rparr>\<rparr>)"
    by (rule queue_depth_then_concurrency [OF c])
  have b: "runBlocks (jobFields env df jobSpec basedir) (newJobParser job0 df basedir) = Inr jp' \<longrightarrow>
            QueueDepth (jp_j jp') = opt_Concurrency jobSpec"
    using jobFields_concurrency [OF c] by blast
  have d: "opt_Concurrency jobSpec \<noteq> 0 \<and> validateJobSection env df jobSpec basedir job0 = Inr job \<longrightarrow>
            QueueDepth job = opt_Concurrency jobSpec"
  proof
    assume h: "opt_Concurrency jobSpec \<noteq> 0 \<and> validateJobSection env df jobSpec basedir job0 = Inr job"
    then have nz: "opt_Concurrency jobSpec \<noteq> 0"
      and v: "validateJobSection env df jobSpec basedir job0 = Inr job" by simp_all
    show "QueueDepth job = opt_Concurrency jobSpec"
    proof (cases "runBlocks (jobFields env df jobSpec basedir) (newJobParser job0 df basedir)")
      case (Inl e)
      with v show ?thesis by (simp add: validateJobSection_def)
    next
      case (Inr jp1)
      from jobFields_concurrency [OF c Inr] have q: "QueueDepth (jp_j jp1) = opt_Concurrency jobSpec" .
      with nz have n: "differentJobTypes (jp_j jp1) \<noteq> 0"
        by (simp add: differentJobTypes_def)
      from v Inr n have "job = wireQueryArgs jp1 (jp_j jp1) \<or>
          job = wireQueryArgs jp1 ((jp_j jp1)\<lparr>BatchSize := 1\<rparr>)"
        by (simp add: validateJobSection_def Let_def split: if_splits)
      with q show ?thesis by (auto simp: wireQueryArgs_QueueDepth)
    qed
  qed
  from a b d show ?thesis by (intro conjI)
qed

theorem concurrency_overrides_queueDepth_witness:
  "isFieldSetJob sampleEnv
     (noJobOptions\<lparr>opt_Queries := [''select 1''], opt_QueueDepth := 2, opt_Concurrency := 4\<rparr>) ''Concurrency''
   \<and> isFieldSetJob sampleEnv
     (noJobOptions\<lparr>opt_Queries := [''select 1''], opt_QueueDepth := 2, opt_Concurrency := 4\<rparr>) ''QueueDepth''
   \<and> opt_Concurrency (noJobOptions\<lparr>opt_Queries := [''select 1''], opt_QueueDepth := 2, opt_Concurrency := 4\<rparr>) = 4
   \<and> validateJobSection sampleEnv sampleFlavor
       (noJobOptions\<lparr>opt_Queries := [''select 1''], opt_QueueDepth := 2, opt_Concurrency := 4\<rparr>) ''/base'' newJob
     = Inr (newJob\<lparr>Queries := [''select 1''], QueueDepth := 4\<rparr>)
   \<and> QueueDepth (newJob\<lparr>Queries := [''select 1''], QueueDepth := 4\<rparr>) = 4"
proof -
  let ?spec = "noJobOptions\<lparr>opt_Queries := [''select 1''], opt_QueueDepth := 2, opt_Concurrency := 4\<rparr>"
  let ?job = "newJob\<lparr>Queries := [''select 1''], QueueDepth := 4\<rparr>"
  have c: "isFieldSetJob sampleEnv ?spec ''Concurrency''"
    by (simp add: sample_defs)
  have q: "isFieldSetJob sampleEnv ?spec ''QueueDepth''"
    by (simp add: sample_defs)
  have v4: "opt_Concurrency ?spec = 4" by simp
  have ev: "validateJobSection sampleEnv sampleFlavor ?spec ''/base'' newJob = Inr ?job"
    by (simp add: model_defs sample_defs)
  from concurrency_overrides_queueDepth [OF c, where df = sampleFlavor and basedir = "''/base''"
      and ?job0.0 = newJob and job = ?job] ev v4
  have g: "QueueDepth ?job = 4" by simp
  from c q v4 ev g show ?thesis by (intro conjI)
qed

text \<open>
  Claim C10. A string is its list of bytes, and \<^verbatim>\<open>len\<close> is the length of the list. In
  the JSON form a delimiter that is set and is not exactly one byte long makes its block
  return \<^verbatim>\<open>Must provide exactly one character for delimiter\<close>: the job is rejected, with
  this error when the five blocks before succeed. In the INI form the value must first
  unquote: the error of \<^verbatim>\<open>strconv.Unquote\<close> is returned as it is, and an unquoted text
  that is not one byte long gets the same message; a section with such a property is
  rejected, with this error when the properties before it decode. The euro sign is three
  bytes long in UTF-8 (the witness), so both forms reject it.
\<close>

theorem delimiter_is_one_byte:
  "(isFieldSetJob env jobSpec ''QueryArgsDelim'' \<and> length (opt_QueryArgsDelim jobSpec) \<noteq> 1 \<longrightarrow>
       field_QueryArgsDelim env jobSpec jp = Inl mustProvideOneCharacter
     \<and> (\<exists>err. validateJobSection env df jobSpec basedir job0 = Inl err)
     \<and> (runBlocks [field_Start env jobSpec, field_Stop env jobSpec, field_Queries env df jobSpec,
                   field_QueryFiles env df jobSpec basedir, field_QueryArgsFile env jobSpec basedir]
                  (newJobParser job0 df basedir) = Inr jp1 \<longrightarrow>
           validateJobSection env df jobSpec basedir job0 = Inl mustProvideOneCharacter))
   \<and> (Unquote env v = Inl err \<longrightarrow> parse_query_args_delim env v jp = Inl err)
   \<and> (Unquote env v = Inr s \<and> length s \<noteq> 1 \<longrightarrow>
        parse_query_args_delim env v jp = Inl mustProvideOneCharacter)
   \<and> ((''query-args-delim'', v) \<in> set rs \<and> (\<forall>s. Unquote env v = Inr s \<longrightarrow> length s \<noteq> 1) \<longrightarrow>
        (\<exists>err. decodeJobSection env df rs basedir job0 = Inl err))
   \<and> (Decode (jobOptions env) pre [] (newJobParser job0 df basedir) = Inr jp2 \<and>
       ''query-args-delim'' \<notin> set (map fst pre) \<longrightarrow>
        (Unquote env v = Inl err \<longrightarrow>
           decodeJobSection env df (pre @ (''query-args-delim'', v) # post) basedir job0 = Inl err)
      \<and> (Unquote env v = Inr s \<and> length s \<noteq> 1 \<longrightarrow>
           decodeJobSection env df (pre @ (''query-args-delim'', v) # post) basedir job0 =
             Inl mustProvideOneCharacter))"
proof -
  have a: "isFieldSetJob env jobSpec ''QueryArgsDelim'' \<and> length (opt_QueryArgsDelim jobSpec) \<noteq> 1 \<longrightarrow>
       field_QueryArgsDelim env jobSpec jp = Inl mustProvideOneCharacter
     \<and> (\<exists>err. validateJobSection env df jobSpec basedir job0 = Inl err)
     \<and> (runBlocks [field_Start env jobSpec, field_Stop env jobSpec, field_Queries env df jobSpec,
                   field_QueryFiles env df jobSpec basedir, field_QueryArgsFile env jobSpec basedir]
                  (newJobParser job0 df basedir) = Inr jp1 \<longrightarrow>
           validateJobSection env df jobSpec basedir job0 = Inl mustProvideOneCharacter)"
  proof
    assume h: "isFieldSetJob env jobSpec ''QueryArgsDelim'' \<and> length (opt_QueryArgsDelim jobSpec) \<noteq> 1"
    then have s: "isFieldSetJob env jobSpec ''QueryArgsDelim''"
      and l: "length (opt_QueryArgsDelim jobSpec) \<noteq> 1" by simp_all
    have 1: "field_QueryArgsDelim env jobSpec jp = Inl mustProvideOneCharacter"
      using s l by (simp add: field_QueryArgsDelim_def mustProvideOneCharacter_def)
    have 2: "\<exists>err. validateJobSection env df jobSpec basedir job0 = Inl err"
      by (rule validate_delim_rejected [OF s l])
    have 3: "runBlocks [field_Start env jobSpec, field_Stop env jobSpec, field_Queries env df jobSpec,
                   field_QueryFiles env df jobSpec basedir, field_QueryArgsFile env jobSpec basedir]
                  (newJobParser job0 df basedir) = Inr jp1 \<longrightarrow>
           validateJobSection env df jobSpec basedir job0 = Inl mustProvideOneCharacter"
      using validate_delim_first_error [OF s l] by blast
    from 1 2 3 show "field_QueryArgsDelim env jobSpec jp = Inl mustProvideOneCharacter
     \<and> (\<exists>err. validateJobSection env df jobSpec basedir job0 = Inl err)
     \<and> (runBlocks [field_Start env jobSpec, field_Stop env jobSpec, field_Queries env df jobSpec,
                   field_QueryFiles env df jobSpec basedir, field_QueryArgsFile env jobSpec basedir]
                  (newJobParser job0 df basedir) = Inr jp1 \<longrightarrow>
           validateJobSection env df jobSpec basedir job0 = Inl mustProvideOneCharacter)"
      by (intro conjI)
  qed
  have b: "Unquote env v = Inl err \<longrightarrow> parse_query_args_delim env v jp = Inl err"
    by (simp add: parse_query_args_delim_def)
  have c: "Unquote env v = Inr s \<and> length s \<noteq> 1 \<longrightarrow>
        parse_query_args_delim env v jp = Inl mustProvideOneCharacter"
    by (simp add: parse_query_args_delim_def mustProvideOneCharacter_def)
  have d: "(''query-args-delim'', v) \<in> set rs \<and> (\<forall>s. Unquote env v = Inr s \<longrightarrow> length s \<noteq> 1) \<longrightarrow>
        (\<exists>err. decodeJobSection env df rs basedir job0 = Inl err)"
  proof
    assume h: "(''query-args-delim'', v) \<in> set rs \<and> (\<forall>s. Unquote env v = Inr s \<longrightarrow> length s \<noteq> 1)"
    then have m: "(''query-args-delim'', v) \<in> set rs"
      and l: "\<And>s. Unquote env v = Inr s \<Longrightarrow> length s \<noteq> 1" by simp_all
    show "\<exists>err. decodeJobSection env df rs basedir job0 = Inl err"
      by (rule decode_delim_rejected [OF m l])
  qed
  have e: "Decode (jobOptions env) pre [] (newJobParser job0 df basedir) = Inr jp2 \<and>
       ''query-args-delim'' \<notin> set (map fst pre) \<longrightarrow>
        (Unquote env v = Inl err \<longrightarrow>
           decodeJobSection env df (pre @ (''query-args-delim'', v) # post) basedir job0 = Inl err)
      \<and> (Unquote env v = Inr s \<and> length s \<noteq> 1 \<longrightarrow>
           decodeJobSection env df (pre @ (''query-args-delim'', v) # post) basedir job0 =
             Inl mustProvideOneCharacter)"
  proof
    assume h: "Decode (jobOptions env) pre [] (newJobParser job0 df basedir) = Inr jp2 \<and>
       ''query-args-delim'' \<notin> set (map fst pre)"
    then have p: "Decode (jobOptions env) pre [] (newJobParser job0 df basedir) = Inr jp2"
      and f: "''query-args-delim'' \<notin> set (map fst pre)" by simp_all
    note eq = decode_delim_first_error [OF p f, of v post]
    have 1: "Unquote env v = Inl err \<longrightarrow>
           decodeJobSection env df (pre @ (''query-args-delim'', v) # post) basedir job0 = Inl err"
    proof
      assume u: "Unquote env v = Inl err"
      from eq show "decodeJobSection env df (pre @ (''query-args-delim'', v) # post) basedir job0 = Inl err"
        unfolding u by simp
    qed
    have 2: "Unquote env v = Inr s \<and> length s \<noteq> 1 \<longrightarrow>
           decodeJobSection env df (pre @ (''query-args-delim'', v) # post) basedir job0 =
             Inl mustProvideOneCharacter"
    proof
      assume "Unquote env v = Inr s \<and> length s \<noteq> 1"
      then have u: "Unquote env v = Inr s" and l: "length s \<noteq> 1" by simp_all
      from eq l show "decodeJobSection env df (pre @ (''query-args-delim'', v) # post) basedir job0 =
             Inl mustProvideOneCharacter"
        unfolding u by simp
    qed
    from 1 2 show "(Unquote env v = Inl err \<longrightarrow>
           decodeJobSection env df (pre @ (''query-args-delim'', v) # post) basedir job0 = Inl err)
      \<and> (Unquote env v = Inr s \<and> length s \<noteq> 1 \<longrightarrow>
           decodeJobSection env df (pre @ (''query-args-delim'', v) # post) basedir job0 =
             Inl mustProvideOneCharacter)" by (intro conjI)
  qed
  from a b c d e show ?thesis by (intro conjI)
qed


lemma length_euro: "length euro = 3"
  by (simp add: euro_def)

theorem delimiter_is_one_byte_witness:
  "length euro = 3
   \<and> isFieldSetJob sampleEnv
       (noJobOptions\<lparr>opt_Queries := [''select 1''], opt_QueryArgsFile := ''args.csv'',
                     opt_QueryArgsDelim := euro\<rparr>) ''QueryArgsDelim''
   \<and> validateJobSection sampleEnv sampleFlavor
       (noJobOptions\<lparr>opt_Queries := [''select 1''], opt_QueryArgsFile := ''args.csv'',
                     opt_QueryArgsDelim := euro\<rparr>) ''/base'' newJob = Inl mustProvideOneCharacter
   \<and> Unquote sampleEnv (CHR 0x22 # euro @ [CHR 0x22]) = Inr euro
   \<and> decodeJobSection sampleEnv sampleFlavor
       ([(''query'', ''select 1''), (''query-args-file'', ''args.csv'')]
        @ (''query-args-delim'', CHR 0x22 # euro @ [CHR 0x22]) # []) ''/base'' newJob
       = Inl mustProvideOneCharacter
   \<and> Unquote sampleEnv '';'' = Inl (New ''invalid syntax'')
   \<and> decodeJobSection sampleEnv sampleFlavor
       ([(''query'', ''select 1''), (''query-args-file'', ''args.csv'')]
        @ (''query-args-delim'', '';'') # []) ''/base'' newJob
       = Inl (New ''invalid syntax'')"
proof -
  let ?spec = "noJobOptions\<lparr>opt_Queries := [''select 1''], opt_QueryArgsFile := ''args.csv'',
                     opt_QueryArgsDelim := euro\<rparr>"
  let ?pre = "[(''query'', ''select 1''), (''query-args-file'', ''args.csv'')]"
  let ?jp1 = "(newJobParser newJob sampleFlavor ''/base'')
      \<lparr>jp_j := newJob\<lparr>Queries := [''select 1'']\<rparr>, queryArgsFile := Some (File ''/base/args.csv'')\<rparr>"
  have s: "isFieldSetJob sampleEnv ?spec ''QueryArgsDelim''"
    by (simp add: sample_defs euro_def)
  have l: "length (opt_QueryArgsDelim ?spec) \<noteq> 1"
    by (simp add: euro_def)
  have b: "runBlocks [field_Start sampleEnv ?spec, field_Stop sampleEnv ?spec,
        field_Queries sampleEnv sampleFlavor ?spec, field_QueryFiles sampleEnv sampleFlavor ?spec ''/base'',
        field_QueryArgsFile sampleEnv ?spec ''/base''] (newJobParser newJob sampleFlavor ''/base'') = Inr ?jp1"
    by (simp add: model_defs sample_defs)
  have u1: "Unquote sampleEnv (CHR 0x22 # euro @ [CHR 0x22]) = Inr euro"
    by (simp add: sample_defs euro_def)
  have u2: "Unquote sampleEnv '';'' = Inl (New ''invalid syntax'')"
    by (simp add: sample_defs)
  have p: "Decode (jobOptions sampleEnv) ?pre [] (newJobParser newJob sampleFlavor ''/base'') = Inr ?jp1"
    by (simp add: model_defs sample_defs)
  have f: "''query-args-delim'' \<notin> set (map fst ?pre)" by simp
  note t1 = delimiter_is_one_byte [where env = sampleEnv and df = sampleFlavor and jobSpec = ?spec
      and basedir = "''/base''" and ?job0.0 = newJob and ?jp1.0 = ?jp1 and jp = ?jp1
      and v = "CHR 0x22 # euro @ [CHR 0x22]" and s = euro and pre = ?pre and ?jp2.0 = ?jp1
      and post = "[]" and rs = "[]" and err = "New ''invalid syntax''"]
  from t1 s l b have g1: "validateJobSection sampleEnv sampleFlavor ?spec ''/base'' newJob
      = Inl mustProvideOneCharacter" by blast
  from t1 p f u1 length_euro have g2: "decodeJobSection sampleEnv sampleFlavor
       (?pre @ (''query-args-delim'', CHR 0x22 # euro @ [CHR 0x22]) # []) ''/base'' newJob
       = Inl mustProvideOneCharacter" by simp
  note t2 = delimiter_is_one_byte [where env = sampleEnv and df = sampleFlavor and jobSpec = ?spec
      and basedir = "''/base''" and ?job0.0 = newJob and ?jp1.0 = ?jp1 and jp = ?jp1
      and v = "'';''" and s = euro and pre = ?pre and ?jp2.0 = ?jp1
      and post = "[]" and rs = "[]" and err = "New ''invalid syntax''"]
  from t2 p f u2 have g3: "decodeJobSection sampleEnv sampleFlavor
       (?pre @ (''query-args-delim'', '';'') # []) ''/base'' newJob
       = Inl (New ''invalid syntax'')" by simp
  from length_euro s g1 u1 g2 u2 g3 show ?thesis by (intro conjI)
qed

subsection \<open>What a section asks for\<close>

lemmas c1_defs = twoTypesSection_def twoTypesSpec_def twoTypesIni_def twoTypesJSON_def
  zeroRateSection_def zeroRateIni_def defaultSection_def defaultSpec_def
  sampleEnvWithJSON_def sampleEnvWithIni_def

lemma Decode_Cons_Inr:
  assumes "Decode dos ((n, v) # rs) seen s = Inr s'"
  shows "\<exists>kind parse s1. dos n = Some (kind, parse) \<and> parse v s = Inr s1 \<and>
           Decode dos rs (n # seen) s1 = Inr s'"
proof (cases "dos n")
  case None
  with assms show ?thesis by simp
next
  case (Some o1)
  obtain kind parse where o1: "o1 = (kind, parse)" by (cases o1)
  show ?thesis
  proof (cases "parse v s")
    case (Inl e)
    with assms Some o1 show ?thesis by (simp split: if_splits)
  next
    case (Inr s1)
    with assms Some o1 show ?thesis by (simp split: if_splits)
  qed
qed

lemma Decode_invariant:
  assumes pres: "\<And>n v kind parse s s'. (n, v) \<in> set rs \<Longrightarrow> dos n = Some (kind, parse) \<Longrightarrow>
                   P s \<Longrightarrow> parse v s = Inr s' \<Longrightarrow> P s'"
    and init: "P s"
    and run: "Decode dos rs seen s = Inr s'"
  shows "P s'"
  using assms
proof (induction rs arbitrary: seen s)
  case Nil
  then show ?case by simp
next
  case (Cons x rs)
  obtain n v where x: "x = (n, v)" by (cases x)
  from Cons.prems(3) have "Decode dos ((n, v) # rs) seen s = Inr s'" unfolding x .
  from Decode_Cons_Inr [OF this] obtain kind parse s1 where
    o: "dos n = Some (kind, parse)" and p: "parse v s = Inr s1"
    and r: "Decode dos rs (n # seen) s1 = Inr s'"
    by blast
  have "(n, v) \<in> set (x # rs)" using x by simp
  from Cons.prems(1) [OF this o Cons.prems(2) p] have p1: "P s1" .
  have pr: "\<And>n v kind parse s s'. (n, v) \<in> set rs \<Longrightarrow> dos n = Some (kind, parse) \<Longrightarrow>
                   P s \<Longrightarrow> parse v s = Inr s' \<Longrightarrow> P s'"
  proof -
    fix m w k q t t'
    assume "(m, w) \<in> set rs" and a: "dos m = Some (k, q)" and b: "P t" and c: "q w t = Inr t'"
    then have "(m, w) \<in> set (x # rs)" by simp
    from Cons.prems(1) [OF this a b c] show "P t'" .
  qed
  from Cons.IH [OF pr p1 r] show ?case .
qed

lemma Decode_establishes:
  assumes mem: "(nm, val) \<in> set rs"
    and est: "\<And>kind parse s s'. dos nm = Some (kind, parse) \<Longrightarrow> parse val s = Inr s' \<Longrightarrow> P s'"
    and pres: "\<And>n v kind parse s s'. (n, v) \<in> set rs \<Longrightarrow> dos n = Some (kind, parse) \<Longrightarrow>
                   P s \<Longrightarrow> parse v s = Inr s' \<Longrightarrow> P s'"
    and run: "Decode dos rs seen s = Inr s'"
  shows "P s'"
  using mem pres run
proof (induction rs arbitrary: seen s)
  case Nil
  then show ?case by simp
next
  case (Cons x rs)
  obtain n v where x: "x = (n, v)" by (cases x)
  from Cons.prems(3) have "Decode dos ((n, v) # rs) seen s = Inr s'" unfolding x .
  from Decode_Cons_Inr [OF this] obtain kind parse s1 where
    o: "dos n = Some (kind, parse)" and p: "parse v s = Inr s1"
    and r: "Decode dos rs (n # seen) s1 = Inr s'"
    by blast
  have pr: "\<And>n v kind parse s s'. (n, v) \<in> set rs \<Longrightarrow> dos n = Some (kind, parse) \<Longrightarrow>
                   P s \<Longrightarrow> parse v s = Inr s' \<Longrightarrow> P s'"
  proof -
    fix m w k q t t'
    assume "(m, w) \<in> set rs" and a: "dos m = Some (k, q)" and b: "P t" and c: "q w t = Inr t'"
    then have "(m, w) \<in> set (x # rs)" by simp
    from Cons.prems(2) [OF this a b c] show "P t'" .
  qed
  show ?case
  proof (cases "x = (nm, val)")
    case True
    with x o p have "P s1" using est by simp
    from Decode_invariant [where P = P, OF pr this r] show ?thesis .
  next
    case False
    with Cons.prems(1) have "(nm, val) \<in> set rs" by simp
    from Cons.IH [OF this pr r] show ?thesis .
  qed
qed

lemma runBlocks_establishes:
  assumes mem: "g \<in> set fs"
    and est: "\<And>s s'. g s = Inr s' \<Longrightarrow> P s'"
    and pres: "\<And>f s s'. f \<in> set fs \<Longrightarrow> P s \<Longrightarrow> f s = Inr s' \<Longrightarrow> P s'"
    and run: "runBlocks fs s = Inr s'"
  shows "P s'"
  using mem pres run
proof (induction fs arbitrary: s)
  case Nil
  then show ?case by simp
next
  case (Cons f fs)
  show ?case
  proof (cases "f s")
    case (Inl e)
    with Cons.prems(3) show ?thesis by simp
  next
    case (Inr s1)
    with Cons.prems(3) have r: "runBlocks fs s1 = Inr s'" by simp
    have pr: "\<And>h t t'. h \<in> set fs \<Longrightarrow> P t \<Longrightarrow> h t = Inr t' \<Longrightarrow> P t'"
    proof -
      fix h t t'
      assume "h \<in> set fs" and pt: "P t" and ht: "h t = Inr t'"
      then have "h \<in> set (f # fs)" by simp
      from Cons.prems(2) [OF this pt ht] show "P t'" .
    qed
    show ?thesis
    proof (cases "f = g")
      case True
      with Inr have "P s1" using est by simp
      from runBlocks_invariant [where P = P, OF pr this r] show ?thesis .
    next
      case False
      with Cons.prems(1) have "g \<in> set fs" by simp
      from Cons.IH [OF this pr r] show ?thesis .
    qed
  qed
qed

lemma jobOptions_effect:
  assumes "jobOptions env n = Some (kind, parse)" and "parse v s = Inr s'"
  shows "Rate (jp_j s') =
           (if n = ''rate'' then (case ParseFloat env v of Inr r \<Rightarrow> r | Inl e \<Rightarrow> Rate (jp_j s))
            else Rate (jp_j s))"
    and "QueueDepth (jp_j s') =
           (if n = ''queue-depth'' \<or> n = ''concurrency''
            then (case ParseUint env v of Inr k \<Rightarrow> k | Inl e \<Rightarrow> QueueDepth (jp_j s))
            else QueueDepth (jp_j s))"
    and "n = ''query-log-file'' \<longrightarrow> QueryLog (jp_j s') \<noteq> None"
    and "n \<noteq> ''query-log-file'' \<longrightarrow> QueryLog (jp_j s') = QueryLog (jp_j s)"
  using assms
  by (auto simp: jobOptions_def parse_start_def parse_stop_def parse_query_def parse_query_file_def
      parse_query_args_file_def parse_query_args_delim_def parse_query_results_file_def
      parse_rate_def parse_batch_size_def parse_queue_depth_def parse_count_def
      parse_multi_query_mode_def parse_query_log_file_def
      split: if_splits sum.splits option.splits)

lemma jobFields_effect:
  assumes "f \<in> set (jobFields env df jobSpec basedir)" and "f s = Inr s'"
  shows "(Rate (jp_j s') = Rate (jp_j s) \<or>
            (isFieldSetJob env jobSpec ''Rate'' \<and> Rate (jp_j s') = opt_Rate jobSpec))
       \<and> (QueueDepth (jp_j s') = QueueDepth (jp_j s) \<or>
            (isFieldSetJob env jobSpec ''QueueDepth'' \<and> QueueDepth (jp_j s') = opt_QueueDepth jobSpec) \<or>
            (isFieldSetJob env jobSpec ''Concurrency'' \<and> QueueDepth (jp_j s') = opt_Concurrency jobSpec))
       \<and> (QueryLog (jp_j s') = QueryLog (jp_j s) \<or>
            (isFieldSetJob env jobSpec ''QueryLogFile'' \<and> QueryLog (jp_j s') \<noteq> None))"
proof -
  from assms(1) consider
    "f = field_Start env jobSpec"
    | "f = field_Stop env jobSpec"
    | "f = field_Queries env df jobSpec"
    | "f = field_QueryFiles env df jobSpec basedir"
    | "f = field_QueryArgsFile env jobSpec basedir"
    | "f = field_QueryArgsDelim env jobSpec"
    | "f = field_QueryResultsFile env jobSpec basedir"
    | "f = field_Rate env jobSpec"
    | "f = field_BatchSize env jobSpec"
    | "f = field_QueueDepth env jobSpec"
    | "f = field_Concurrency env jobSpec"
    | "f = field_Count env jobSpec"
    | "f = field_MultiQueryMode env jobSpec"
    | "f = field_QueryLogFile env jobSpec basedir"
    by (auto simp: jobFields_def)
  then show ?thesis
  proof cases
    case 1
    with assms(2) show ?thesis
      by (auto simp: field_Start_def split: if_splits sum.splits)
  next
    case 2
    with assms(2) show ?thesis
      by (auto simp: field_Stop_def split: if_splits sum.splits)
  next
    case 3
    with assms(2) show ?thesis
      by (auto simp: field_Queries_def split: if_splits sum.splits)
  next
    case 4
    with assms(2) show ?thesis
      by (auto simp: field_QueryFiles_def split: if_splits sum.splits)
  next
    case 5
    with assms(2) show ?thesis
      by (auto simp: field_QueryArgsFile_def split: if_splits sum.splits)
  next
    case 6
    with assms(2) show ?thesis
      by (auto simp: field_QueryArgsDelim_def split: if_splits sum.splits)
  next
    case 7
    with assms(2) show ?thesis
      by (auto simp: field_QueryResultsFile_def split: if_splits sum.splits)
  next
    case 8
    with assms(2) show ?thesis
      by (auto simp: field_Rate_def split: if_splits sum.splits)
  next
    case 9
    with assms(2) show ?thesis
      by (auto simp: field_BatchSize_def split: if_splits sum.splits)
  next
    case 10
    with assms(2) show ?thesis
      by (auto simp: field_QueueDepth_def split: if_splits sum.splits)
  next
    case 11
    with assms(2) show ?thesis
      by (auto simp: field_Concurrency_def split: if_splits sum.splits)
  next
    case 12
    with assms(2) show ?thesis
      by (auto simp: field_Count_def split: if_splits sum.splits)
  next
    case 13
    with assms(2) show ?thesis
      by (auto simp: field_MultiQueryMode_def split: if_splits sum.splits)
  next
    case 14
    with assms(2) show ?thesis
      by (auto simp: field_QueryLogFile_def split: if_splits sum.splits)
  qed
qed

lemma decode_asksRate:
  assumes a: "asksRate env rs" and d: "Decode (jobOptions env) rs seen s = Inr s'"
  shows "f64_gt0 (Rate (jp_j s'))"
proof -
  from a obtain val where mem: "(''rate'', val) \<in> set rs"
    by (auto simp: asksRate_def list_ex_iff)
  have every: "\<And>v. (''rate'', v) \<in> set rs \<Longrightarrow> \<exists>r. ParseFloat env v = Inr r \<and> f64_gt0 r"
  proof -
    fix v
    assume m: "(''rate'', v) \<in> set rs"
    from a have "\<forall>x\<in>set rs. case x of (name, v) \<Rightarrow> name = ''rate'' \<longrightarrow>
        (case ParseFloat env v of Inl err \<Rightarrow> False | Inr r \<Rightarrow> f64_gt0 r)"
      by (simp add: asksRate_def list_all_iff)
    from bspec [OF this m]
    have "case ParseFloat env v of Inl err \<Rightarrow> False | Inr r \<Rightarrow> f64_gt0 r" by simp
    then show "\<exists>r. ParseFloat env v = Inr r \<and> f64_gt0 r"
      by (cases "ParseFloat env v") simp_all
  qed
  have est: "\<And>kind parse t t'. jobOptions env ''rate'' = Some (kind, parse) \<Longrightarrow>
      parse val t = Inr t' \<Longrightarrow> f64_gt0 (Rate (jp_j t'))"
  proof -
    fix kind parse t t'
    assume o: "jobOptions env ''rate'' = Some (kind, parse)" and p: "parse val t = Inr t'"
    from every [OF mem] obtain r where r: "ParseFloat env val = Inr r" "f64_gt0 r" by blast
    from jobOptions_effect(1) [OF o p] r show "f64_gt0 (Rate (jp_j t'))" by simp
  qed
  have pres: "\<And>n v kind parse t t'. (n, v) \<in> set rs \<Longrightarrow> jobOptions env n = Some (kind, parse) \<Longrightarrow>
      f64_gt0 (Rate (jp_j t)) \<Longrightarrow> parse v t = Inr t' \<Longrightarrow> f64_gt0 (Rate (jp_j t'))"
  proof -
    fix n v kind parse t t'
    assume m: "(n, v) \<in> set rs" and o: "jobOptions env n = Some (kind, parse)"
      and q: "f64_gt0 (Rate (jp_j t))" and p: "parse v t = Inr t'"
    show "f64_gt0 (Rate (jp_j t'))"
    proof (cases "n = ''rate''")
      case True
      with m have "(''rate'', v) \<in> set rs" by simp
      from every [OF this] obtain r where r: "ParseFloat env v = Inr r" "f64_gt0 r" by blast
      from jobOptions_effect(1) [OF o p] True r show ?thesis by simp
    next
      case False
      from jobOptions_effect(1) [OF o p] False q show ?thesis by simp
    qed
  qed
  from Decode_establishes [where P = "\<lambda>t. f64_gt0 (Rate (jp_j t))" and dos = "jobOptions env",
      OF mem est pres d]
  show ?thesis .
qed

lemma decode_asksQueueDepth:
  assumes a: "asksQueueDepth env rs" and d: "Decode (jobOptions env) rs seen s = Inr s'"
  shows "0 < QueueDepth (jp_j s')"
proof -
  from a obtain nm val where mem: "(nm, val) \<in> set rs"
    and nm: "nm = ''queue-depth'' \<or> nm = ''concurrency''"
    by (auto simp: asksQueueDepth_def list_ex_iff)
  have every: "\<And>n v. (n, v) \<in> set rs \<Longrightarrow> n = ''queue-depth'' \<or> n = ''concurrency'' \<Longrightarrow>
      \<exists>k. ParseUint env v = Inr k \<and> 0 < k"
  proof -
    fix n v
    assume m: "(n, v) \<in> set rs" and n: "n = ''queue-depth'' \<or> n = ''concurrency''"
    from a have "\<forall>x\<in>set rs. case x of (name, v) \<Rightarrow> name = ''queue-depth'' \<or> name = ''concurrency'' \<longrightarrow>
        (case ParseUint env v of Inl err \<Rightarrow> False | Inr k \<Rightarrow> 0 < k)"
      by (simp add: asksQueueDepth_def list_all_iff)
    from bspec [OF this m] n
    have "case ParseUint env v of Inl err \<Rightarrow> False | Inr k \<Rightarrow> 0 < k" by blast
    then show "\<exists>k. ParseUint env v = Inr k \<and> 0 < k"
      by (cases "ParseUint env v") simp_all
  qed
  have est: "\<And>kind parse t t'. jobOptions env nm = Some (kind, parse) \<Longrightarrow>
      parse val t = Inr t' \<Longrightarrow> 0 < QueueDepth (jp_j t')"
  proof -
    fix kind parse t t'
    assume o: "jobOptions env nm = Some (kind, parse)" and p: "parse val t = Inr t'"
    from every [OF mem nm] obtain k where k: "ParseUint env val = Inr k" "0 < k" by blast
    from jobOptions_effect(2) [OF o p] nm k show "0 < QueueDepth (jp_j t')" by auto
  qed
  have pres: "\<And>n v kind parse t t'. (n, v) \<in> set rs \<Longrightarrow> jobOptions env n = Some (kind, parse) \<Longrightarrow>
      0 < QueueDepth (jp_j t) \<Longrightarrow> parse v t = Inr t' \<Longrightarrow> 0 < QueueDepth (jp_j t')"
  proof -
    fix n v kind parse t t'
    assume m: "(n, v) \<in> set rs" and o: "jobOptions env n = Some (kind, parse)"
      and q: "0 < QueueDepth (jp_j t)" and p: "parse v t = Inr t'"
    show "0 < QueueDepth (jp_j t')"
    proof (cases "n = ''queue-depth'' \<or> n = ''concurrency''")
      case True
      from every [OF m True] obtain k where k: "ParseUint env v = Inr k" "0 < k" by blast
      from jobOptions_effect(2) [OF o p] True k show ?thesis by auto
    next
      case False
      from jobOptions_effect(2) [OF o p] False q show ?thesis by simp
    qed
  qed
  from Decode_establishes [where P = "\<lambda>t. 0 < QueueDepth (jp_j t)" and dos = "jobOptions env",
      OF mem est pres d]
  show ?thesis .
qed

lemma decode_asksQueryLog:
  assumes a: "asksQueryLog rs" and d: "Decode (jobOptions env) rs seen s = Inr s'"
  shows "QueryLog (jp_j s') \<noteq> None"
proof -
  from a obtain val where mem: "(''query-log-file'', val) \<in> set rs"
    by (auto simp: asksQueryLog_def list_ex_iff)
  have est: "\<And>kind parse t t'. jobOptions env ''query-log-file'' = Some (kind, parse) \<Longrightarrow>
      parse val t = Inr t' \<Longrightarrow> QueryLog (jp_j t') \<noteq> None"
  proof -
    fix kind parse t t'
    assume o: "jobOptions env ''query-log-file'' = Some (kind, parse)" and p: "parse val t = Inr t'"
    from jobOptions_effect(3) [OF o p] show "QueryLog (jp_j t') \<noteq> None" by simp
  qed
  have pres: "\<And>n v kind parse t t'. (n, v) \<in> set rs \<Longrightarrow> jobOptions env n = Some (kind, parse) \<Longrightarrow>
      QueryLog (jp_j t) \<noteq> None \<Longrightarrow> parse v t = Inr t' \<Longrightarrow> QueryLog (jp_j t') \<noteq> None"
  proof -
    fix n v kind parse t t'
    assume o: "jobOptions env n = Some (kind, parse)"
      and q: "QueryLog (jp_j t) \<noteq> None" and p: "parse v t = Inr t'"
    show "QueryLog (jp_j t') \<noteq> None"
    proof (cases "n = ''query-log-file''")
      case True
      from jobOptions_effect(3) [OF o p] True show ?thesis by simp
    next
      case False
      from jobOptions_effect(4) [OF o p] False q show ?thesis by simp
    qed
  qed
  from Decode_establishes [where P = "\<lambda>t. QueryLog (jp_j t) \<noteq> None" and dos = "jobOptions env",
      OF mem est pres d]
  show ?thesis .
qed

lemma decode_asksNone:
  assumes a: "asksNone rs" and z: "zeroJobType (jp_j s)"
    and d: "Decode (jobOptions env) rs seen s = Inr s'"
  shows "zeroJobType (jp_j s')"
proof -
  from a have every: "\<And>n v. (n, v) \<in> set rs \<Longrightarrow>
      n \<noteq> ''rate'' \<and> n \<noteq> ''queue-depth'' \<and> n \<noteq> ''concurrency'' \<and> n \<noteq> ''query-log-file''"
    by (auto simp: asksNone_def list_all_iff)
  have pres: "\<And>n v kind parse t t'. (n, v) \<in> set rs \<Longrightarrow> jobOptions env n = Some (kind, parse) \<Longrightarrow>
      zeroJobType (jp_j t) \<Longrightarrow> parse v t = Inr t' \<Longrightarrow> zeroJobType (jp_j t')"
  proof -
    fix n v kind parse t t'
    assume m: "(n, v) \<in> set rs" and o: "jobOptions env n = Some (kind, parse)"
      and q: "zeroJobType (jp_j t)" and p: "parse v t = Inr t'"
    from every [OF m] have n: "n \<noteq> ''rate''" "n \<noteq> ''queue-depth''" "n \<noteq> ''concurrency''"
      "n \<noteq> ''query-log-file''" by simp_all
    from jobOptions_effect(1) [OF o p] n have r: "Rate (jp_j t') = Rate (jp_j t)" by simp
    from jobOptions_effect(2) [OF o p] n have k: "QueueDepth (jp_j t') = QueueDepth (jp_j t)" by simp
    from jobOptions_effect(4) [OF o p] n have l: "QueryLog (jp_j t') = QueryLog (jp_j t)" by simp
    from q r k l show "zeroJobType (jp_j t')" by (simp add: zeroJobType_def)
  qed
  from Decode_invariant [where P = "\<lambda>t. zeroJobType (jp_j t)" and dos = "jobOptions env",
      OF pres z d]
  show ?thesis .
qed

lemma differentJobTypes_two:
  assumes "twoOrMore (f64_gt0 (Rate job)) (0 < QueueDepth job) (QueryLog job \<noteq> None)"
  shows "1 < differentJobTypes job"
  using assms by (auto simp: twoOrMore_def differentJobTypes_def)

lemma decodeJobSection_two_or_more:
  assumes t: "twoOrMore (asksRate env rs) (asksQueueDepth env rs) (asksQueryLog rs)"
  shows "(\<exists>err. decodeJobSection env df rs basedir job0 = Inl err)
       \<and> (Decode (jobOptions env) rs [] (newJobParser job0 df basedir) = Inr jp \<and> otherInvariants jp
            \<longrightarrow> decodeJobSection env df rs basedir job0 = Inl onlyOneOf)"
proof (cases "Decode (jobOptions env) rs [] (newJobParser job0 df basedir)")
  case (Inl e)
  then show ?thesis by (simp add: decodeJobSection_def)
next
  case (Inr jp1)
  have a: "asksRate env rs \<Longrightarrow> f64_gt0 (Rate (jp_j jp1))"
    using decode_asksRate [OF _ Inr] .
  have b: "asksQueueDepth env rs \<Longrightarrow> 0 < QueueDepth (jp_j jp1)"
    using decode_asksQueueDepth [OF _ Inr] .
  have c: "asksQueryLog rs \<Longrightarrow> QueryLog (jp_j jp1) \<noteq> None"
    using decode_asksQueryLog [OF _ Inr] .
  from t a b c
  have "twoOrMore (f64_gt0 (Rate (jp_j jp1))) (0 < QueueDepth (jp_j jp1)) (QueryLog (jp_j jp1) \<noteq> None)"
    unfolding twoOrMore_def by blast
  then have m: "1 < differentJobTypes (jp_j jp1)" by (rule differentJobTypes_two)
  from decodeJobSection_many_types [OF Inr m] Inr show ?thesis by auto
qed

lemma decodeJobSection_asks_none:
  assumes a: "asksNone rs" and z: "zeroJobType job0"
    and d: "Decode (jobOptions env) rs [] (newJobParser job0 df basedir) = Inr jp"
  shows "decodeJobSection env df rs basedir job0 \<noteq> Inl onlyOneOf
       \<and> (otherInvariants jp \<longrightarrow>
            decodeJobSection env df rs basedir job0 =
              Inr (wireQueryArgs jp ((jp_j jp)\<lparr>QueueDepth := 1\<rparr>)))
       \<and> (\<forall>job. decodeJobSection env df rs basedir job0 = Inr job \<longrightarrow> QueueDepth job = 1)"
proof -
  from z have "zeroJobType (jp_j (newJobParser job0 df basedir))" by (simp add: newJobParser_def)
  from decode_asksNone [OF a this d] have "zeroJobType (jp_j jp)" .
  then have n: "differentJobTypes (jp_j jp) = 0" by (simp add: differentJobTypes_zero zeroJobType_def)
  from decodeJobSection_no_type [OF d n]
  have g1: "decodeJobSection env df rs basedir job0 \<noteq> Inl onlyOneOf"
    and g2: "otherInvariants jp \<longrightarrow> decodeJobSection env df rs basedir job0 =
              Inr (wireQueryArgs jp ((jp_j jp)\<lparr>QueueDepth := 1\<rparr>))" by simp_all
  have g3: "\<forall>job. decodeJobSection env df rs basedir job0 = Inr job \<longrightarrow> QueueDepth job = 1"
  proof (intro allI impI)
    fix job
    assume "decodeJobSection env df rs basedir job0 = Inr job"
    with d n show "QueueDepth job = 1"
      by (auto simp: decodeJobSection_def Let_def split: if_splits)
  qed
  from g1 g2 g3 show ?thesis by (intro conjI)
qed

lemma field_Rate_in_jobFields: "field_Rate env jobSpec \<in> set (jobFields env df jobSpec basedir)"
  by (simp add: jobFields_def)

lemma field_QueueDepth_in_jobFields: "field_QueueDepth env jobSpec \<in> set (jobFields env df jobSpec basedir)"
  by (simp add: jobFields_def)

lemma field_QueryLogFile_in_jobFields:
  "field_QueryLogFile env jobSpec basedir \<in> set (jobFields env df jobSpec basedir)"
  by (simp add: jobFields_def)

lemma blocks_setsRate:
  assumes a: "setsRate env jobSpec"
    and r: "runBlocks (jobFields env df jobSpec basedir) s = Inr s'"
  shows "f64_gt0 (Rate (jp_j s'))"
proof -
  from a have isset: "isFieldSetJob env jobSpec ''Rate''" and pos: "f64_gt0 (opt_Rate jobSpec)"
    by (simp_all add: setsRate_def)
  have est: "\<And>t t'. field_Rate env jobSpec t = Inr t' \<Longrightarrow> Rate (jp_j t') = opt_Rate jobSpec"
    using isset by (auto simp: field_Rate_def split: if_splits)
  have pres: "\<And>f t t'. f \<in> set (jobFields env df jobSpec basedir) \<Longrightarrow>
      Rate (jp_j t) = opt_Rate jobSpec \<Longrightarrow> f t = Inr t' \<Longrightarrow> Rate (jp_j t') = opt_Rate jobSpec"
  proof -
    fix f t t'
    assume m: "f \<in> set (jobFields env df jobSpec basedir)"
      and q: "Rate (jp_j t) = opt_Rate jobSpec" and p: "f t = Inr t'"
    from jobFields_effect [OF m p] q show "Rate (jp_j t') = opt_Rate jobSpec" by auto
  qed
  from runBlocks_establishes [where P = "\<lambda>t. Rate (jp_j t) = opt_Rate jobSpec",
      OF field_Rate_in_jobFields est pres r]
  have "Rate (jp_j s') = opt_Rate jobSpec" .
  with pos show ?thesis by simp
qed

lemma blocks_setsQueueDepth:
  assumes a: "setsQueueDepth env jobSpec"
    and r: "runBlocks (jobFields env df jobSpec basedir) s = Inr s'"
  shows "0 < QueueDepth (jp_j s')"
proof (cases "isFieldSetJob env jobSpec ''Concurrency''")
  case True
  from jobFields_concurrency [OF True r] have "QueueDepth (jp_j s') = opt_Concurrency jobSpec" .
  with a True show ?thesis by (simp add: setsQueueDepth_def)
next
  case False
  with a have isset: "isFieldSetJob env jobSpec ''QueueDepth''" and pos: "0 < opt_QueueDepth jobSpec"
    by (simp_all add: setsQueueDepth_def)
  have est: "\<And>t t'. field_QueueDepth env jobSpec t = Inr t' \<Longrightarrow>
      QueueDepth (jp_j t') = opt_QueueDepth jobSpec"
    using isset by (auto simp: field_QueueDepth_def split: if_splits)
  have pres: "\<And>f t t'. f \<in> set (jobFields env df jobSpec basedir) \<Longrightarrow>
      QueueDepth (jp_j t) = opt_QueueDepth jobSpec \<Longrightarrow> f t = Inr t' \<Longrightarrow>
      QueueDepth (jp_j t') = opt_QueueDepth jobSpec"
  proof -
    fix f t t'
    assume m: "f \<in> set (jobFields env df jobSpec basedir)"
      and q: "QueueDepth (jp_j t) = opt_QueueDepth jobSpec" and p: "f t = Inr t'"
    from jobFields_effect [OF m p] q False
    show "QueueDepth (jp_j t') = opt_QueueDepth jobSpec" by auto
  qed
  from runBlocks_establishes [where P = "\<lambda>t. QueueDepth (jp_j t) = opt_QueueDepth jobSpec",
      OF field_QueueDepth_in_jobFields est pres r]
  have "QueueDepth (jp_j s') = opt_QueueDepth jobSpec" .
  with pos show ?thesis by simp
qed

lemma blocks_setsQueryLog:
  assumes a: "setsQueryLog env jobSpec"
    and r: "runBlocks (jobFields env df jobSpec basedir) s = Inr s'"
  shows "QueryLog (jp_j s') \<noteq> None"
proof -
  from a have isset: "isFieldSetJob env jobSpec ''QueryLogFile''" by (simp add: setsQueryLog_def)
  have est: "\<And>t t'. field_QueryLogFile env jobSpec basedir t = Inr t' \<Longrightarrow> QueryLog (jp_j t') \<noteq> None"
    using isset by (auto simp: field_QueryLogFile_def split: if_splits sum.splits)
  have pres: "\<And>f t t'. f \<in> set (jobFields env df jobSpec basedir) \<Longrightarrow>
      QueryLog (jp_j t) \<noteq> None \<Longrightarrow> f t = Inr t' \<Longrightarrow> QueryLog (jp_j t') \<noteq> None"
  proof -
    fix f t t'
    assume m: "f \<in> set (jobFields env df jobSpec basedir)"
      and q: "QueryLog (jp_j t) \<noteq> None" and p: "f t = Inr t'"
    from jobFields_effect [OF m p] q show "QueryLog (jp_j t') \<noteq> None" by auto
  qed
  from runBlocks_establishes [where P = "\<lambda>t. QueryLog (jp_j t) \<noteq> None",
      OF field_QueryLogFile_in_jobFields est pres r]
  show ?thesis .
qed

lemma blocks_setsNone:
  assumes a: "setsNone env jobSpec" and z: "zeroJobType (jp_j s)"
    and r: "runBlocks (jobFields env df jobSpec basedir) s = Inr s'"
  shows "zeroJobType (jp_j s')"
proof -
  from a have n: "\<not> isFieldSetJob env jobSpec ''Rate''" "\<not> isFieldSetJob env jobSpec ''QueueDepth''"
    "\<not> isFieldSetJob env jobSpec ''Concurrency''" "\<not> isFieldSetJob env jobSpec ''QueryLogFile''"
    by (simp_all add: setsNone_def)
  have pres: "\<And>f t t'. f \<in> set (jobFields env df jobSpec basedir) \<Longrightarrow>
      zeroJobType (jp_j t) \<Longrightarrow> f t = Inr t' \<Longrightarrow> zeroJobType (jp_j t')"
  proof -
    fix f t t'
    assume m: "f \<in> set (jobFields env df jobSpec basedir)"
      and q: "zeroJobType (jp_j t)" and p: "f t = Inr t'"
    from jobFields_effect [OF m p] n
    have "Rate (jp_j t') = Rate (jp_j t)" "QueueDepth (jp_j t') = QueueDepth (jp_j t)"
      "QueryLog (jp_j t') = QueryLog (jp_j t)" by simp_all
    with q show "zeroJobType (jp_j t')" by (simp add: zeroJobType_def)
  qed
  from runBlocks_invariant [where P = "\<lambda>t. zeroJobType (jp_j t)", OF pres z r]
  show ?thesis .
qed

lemma validateJobSection_two_or_more:
  assumes t: "twoOrMore (setsRate env jobSpec) (setsQueueDepth env jobSpec) (setsQueryLog env jobSpec)"
  shows "(\<exists>err. validateJobSection env df jobSpec basedir job0 = Inl err)
       \<and> (runBlocks (jobFields env df jobSpec basedir) (newJobParser job0 df basedir) = Inr jp
            \<and> otherInvariants jp
            \<longrightarrow> validateJobSection env df jobSpec basedir job0 = Inl onlyOneOf)"
proof (cases "runBlocks (jobFields env df jobSpec basedir) (newJobParser job0 df basedir)")
  case (Inl e)
  then show ?thesis by (simp add: validateJobSection_def)
next
  case (Inr jp1)
  have a: "setsRate env jobSpec \<Longrightarrow> f64_gt0 (Rate (jp_j jp1))"
    using blocks_setsRate [OF _ Inr] .
  have b: "setsQueueDepth env jobSpec \<Longrightarrow> 0 < QueueDepth (jp_j jp1)"
    using blocks_setsQueueDepth [OF _ Inr] .
  have c: "setsQueryLog env jobSpec \<Longrightarrow> QueryLog (jp_j jp1) \<noteq> None"
    using blocks_setsQueryLog [OF _ Inr] .
  from t a b c
  have "twoOrMore (f64_gt0 (Rate (jp_j jp1))) (0 < QueueDepth (jp_j jp1)) (QueryLog (jp_j jp1) \<noteq> None)"
    unfolding twoOrMore_def by blast
  then have m: "1 < differentJobTypes (jp_j jp1)" by (rule differentJobTypes_two)
  from validateJobSection_many_types [OF Inr m] Inr show ?thesis by auto
qed

lemma validateJobSection_sets_none:
  assumes a: "setsNone env jobSpec" and z: "zeroJobType job0"
    and d: "runBlocks (jobFields env df jobSpec basedir) (newJobParser job0 df basedir) = Inr jp"
  shows "validateJobSection env df jobSpec basedir job0 \<noteq> Inl onlyOneOf
       \<and> (otherInvariants jp \<longrightarrow>
            validateJobSection env df jobSpec basedir job0 =
              Inr (wireQueryArgs jp ((jp_j jp)\<lparr>QueueDepth := 1\<rparr>)))
       \<and> (\<forall>job. validateJobSection env df jobSpec basedir job0 = Inr job \<longrightarrow> QueueDepth job = 1)"
proof -
  from z have "zeroJobType (jp_j (newJobParser job0 df basedir))" by (simp add: newJobParser_def)
  from blocks_setsNone [OF a this d] have zj: "zeroJobType (jp_j jp)" .
  then have n: "differentJobTypes (jp_j jp) = 0" by (simp add: differentJobTypes_zero zeroJobType_def)
  from validateJobSection_no_type [OF d n]
  have g1: "validateJobSection env df jobSpec basedir job0 \<noteq> Inl onlyOneOf"
    and g2: "otherInvariants jp \<longrightarrow> validateJobSection env df jobSpec basedir job0 =
              Inr (wireQueryArgs jp ((jp_j jp)\<lparr>QueueDepth := 1\<rparr>))" by simp_all
  have g3: "\<forall>job. validateJobSection env df jobSpec basedir job0 = Inr job \<longrightarrow> QueueDepth job = 1"
  proof (intro allI impI)
    fix job
    assume "validateJobSection env df jobSpec basedir job0 = Inr job"
    with d n zj show "QueueDepth job = 1"
      by (auto simp: validateJobSection_def Let_def zeroJobType_def split: if_splits)
  qed
  from g1 g2 g3 show ?thesis by (intro conjI)
qed

lemma decodeJobsLoop_fails:
  assumes m: "name \<in> set names" and nr: "\<not> reservedName name"
    and f: "decodeJobSection env df (Section iniConfig name) basedir (newJob\<lparr>Name := name\<rparr>) = Inl e"
  shows "\<exists>n e'. decodeJobsLoop env df iniConfig basedir names jobs = Inl (ErrorParsingJob n e')"
  using m
proof (induction names arbitrary: jobs)
  case Nil
  then show ?case by simp
next
  case (Cons x names)
  show ?case
  proof (cases "x = name")
    case True
    with nr f show ?thesis by (simp add: reservedName_def)
  next
    case False
    with Cons.prems have mem: "name \<in> set names" by simp
    show ?thesis
    proof (cases "x = ''setup'' \<or> x = ''teardown'' \<or> x = ''global''")
      case True
      from Cons.IH [OF mem, of jobs] True show ?thesis by simp
    next
      case nres: False
      show ?thesis
      proof (cases "decodeJobSection env df (Section iniConfig x) basedir (newJob\<lparr>Name := x\<rparr>)")
        case (Inl e1)
        with nres show ?thesis by simp
      next
        case (Inr job)
        from Cons.IH [OF mem, of "putJob jobs x job"] nres Inr show ?thesis by simp
      qed
    qed
  qed
qed

lemma validateJobsLoop_fails:
  assumes m: "(name, jobSpec) \<in> set entries" and nr: "\<not> reservedName name"
    and f: "validateJobSection env df jobSpec basedir (newJob\<lparr>Name := name\<rparr>) = Inl e"
  shows "\<exists>n e'. validateJobsLoop env df basedir entries jobs = Inl (ErrorParsingJob n e')"
  using m
proof (induction entries arbitrary: jobs)
  case Nil
  then show ?case by simp
next
  case (Cons x entries)
  obtain xn xs where x: "x = (xn, xs)" by (cases x)
  show ?case
  proof (cases "x = (name, jobSpec)")
    case True
    with x nr f show ?thesis by (simp add: reservedName_def)
  next
    case False
    with Cons.prems have mem: "(name, jobSpec) \<in> set entries" by simp
    show ?thesis
    proof (cases "xn = ''setup'' \<or> xn = ''teardown'' \<or> xn = ''global''")
      case True
      from Cons.IH [OF mem, of jobs] True x show ?thesis by simp
    next
      case nres: False
      show ?thesis
      proof (cases "validateJobSection env df xs basedir (newJob\<lparr>Name := xn\<rparr>)")
        case (Inl e1)
        with nres x show ?thesis by simp
      next
        case (Inr job)
        from Cons.IH [OF mem, of "putJob jobs xn job"] nres Inr x show ?thesis by simp
      qed
    qed
  qed
qed

lemma parseIniConfig_job_fails:
  assumes "decodeJobsLoop env df iniConfig basedir (map fst (Sections iniConfig)) [] = Inl e"
  shows "\<exists>err. parseIniConfig env df iniConfig basedir = Inl err"
  using assms
  by (simp add: parseIniConfig_def iniSections_def decodeConfigJobs_def split: sum.splits)

lemma parseJSONConfig_job_fails:
  assumes "isFieldSetConfig env jsonConfig ''Jobs''"
    and "validateJobsLoop env df basedir (json_Jobs jsonConfig) [] = Inl e"
  shows "\<exists>err. parseJSONConfig env df jsonConfig basedir = Inl err"
  using assms
  by (simp add: parseJSONConfig_def jsonSections_def validateConfigJobs_def split: sum.splits)

lemma main_run_parse_fails:
  assumes "parseConfig env df configFile baseDir = Inl err"
  shows "main_run env r connect df configFile baseDir = ParsingConfigFile err"
  using assms by (simp add: main_run_def)

text \<open>
  Claim C1, amended. A job that \<^verbatim>\<open>decodeJobSection\<close> or \<^verbatim>\<open>validateJobSection\<close> accepts
  has exactly one of \<^verbatim>\<open>rate > 0\<close>, \<^verbatim>\<open>queueDepth > 0\<close> and \<^verbatim>\<open>queryLog != nil\<close>. A section
  that asks for two or more of a rate above zero, a queue depth above zero and a query log
  is rejected: the function returns an error, which is
  \<^verbatim>\<open>Can only specify one of rate, queue-depth, or query-log-file\<close> when the properties
  parse and no earlier test fails; the loop over the jobs then returns an error for a job,
  \<^verbatim>\<open>parseIniConfig\<close>, \<^verbatim>\<open>parseJSONConfig\<close> and \<^verbatim>\<open>parseConfig\<close> return an error, and
  \<^verbatim>\<open>main\<close> ends in \<^verbatim>\<open>log.Fatalf("parsing config file %v", err)\<close>, before the database
  is connected and before \<^verbatim>\<open>runTest\<close>. A section that has none of the properties
  \<^verbatim>\<open>rate\<close>, \<^verbatim>\<open>queue-depth\<close>, \<^verbatim>\<open>concurrency\<close> and \<^verbatim>\<open>query-log-file\<close>, and whose other
  properties parse, is not rejected with that error, a job accepted from it has
  \<^verbatim>\<open>QueueDepth\<close> 1, and it is accepted with \<^verbatim>\<open>QueueDepth\<close> 1 when none of the six earlier
  tests fails.
\<close>

theorem exactly_one_job_type:
  fixes r :: "('db, 'stats) Runner"
  shows
  "(decodeJobSection env df rs basedir blank = Inr job \<longrightarrow> exactlyOneJobType job)
   \<and> (validateJobSection env df jobSpec basedir blank = Inr job \<longrightarrow> exactlyOneJobType job)
   \<and> (twoOrMore (asksRate env rs) (asksQueueDepth env rs) (asksQueryLog rs) \<longrightarrow>
        (\<exists>err. decodeJobSection env df rs basedir blank = Inl err) \<and>
        (Decode (jobOptions env) rs [] (newJobParser blank df basedir) = Inr jp \<and> otherInvariants jp
           \<longrightarrow> decodeJobSection env df rs basedir blank = Inl onlyOneOf))
   \<and> (twoOrMore (setsRate env jobSpec) (setsQueueDepth env jobSpec) (setsQueryLog env jobSpec) \<longrightarrow>
        (\<exists>err. validateJobSection env df jobSpec basedir blank = Inl err) \<and>
        (runBlocks (jobFields env df jobSpec basedir) (newJobParser blank df basedir) = Inr jp'
           \<and> otherInvariants jp'
           \<longrightarrow> validateJobSection env df jobSpec basedir blank = Inl onlyOneOf))
   \<and> (name \<in> set (map fst (Sections iniConfig)) \<and> \<not> reservedName name \<and>
        twoOrMore (asksRate env (Section iniConfig name)) (asksQueueDepth env (Section iniConfig name))
          (asksQueryLog (Section iniConfig name)) \<longrightarrow>
        (\<exists>n e. decodeJobsLoop env df iniConfig basedir (map fst (Sections iniConfig)) [] =
                  Inl (ErrorParsingJob n e)) \<and>
        (\<exists>err. parseIniConfig env df iniConfig basedir = Inl err) \<and>
        (\<not> isJSONFile env configFile \<and> ParseIniFile env configFile = Inr iniConfig \<longrightarrow>
           (\<exists>err. parseConfig env df configFile basedir = Inl err \<and>
                  main_run env r connect df configFile basedir = ParsingConfigFile err)))
   \<and> ((jname, jobSpec) \<in> set (json_Jobs jsonConfig) \<and> \<not> reservedName jname \<and>
        isFieldSetConfig env jsonConfig ''Jobs'' \<and>
        twoOrMore (setsRate env jobSpec) (setsQueueDepth env jobSpec) (setsQueryLog env jobSpec) \<longrightarrow>
        (\<exists>n e. validateJobsLoop env df basedir (json_Jobs jsonConfig) [] = Inl (ErrorParsingJob n e)) \<and>
        (\<exists>err. parseJSONConfig env df jsonConfig basedir = Inl err) \<and>
        (isJSONFile env jsonFile \<and> ReadJSONFile env jsonFile = Inr jsonConfig \<longrightarrow>
           (\<exists>err. parseConfig env df jsonFile basedir = Inl err \<and>
                  main_run env r connect df jsonFile basedir = ParsingConfigFile err)))
   \<and> (asksNone rs \<and> zeroJobType blank \<and>
        Decode (jobOptions env) rs [] (newJobParser blank df basedir) = Inr jp \<longrightarrow>
        decodeJobSection env df rs basedir blank \<noteq> Inl onlyOneOf \<and>
        (otherInvariants jp \<longrightarrow>
           decodeJobSection env df rs basedir blank =
             Inr (wireQueryArgs jp ((jp_j jp)\<lparr>QueueDepth := 1\<rparr>))) \<and>
        (\<forall>accepted. decodeJobSection env df rs basedir blank = Inr accepted \<longrightarrow>
           QueueDepth accepted = 1))
   \<and> (setsNone env jobSpec \<and> zeroJobType blank \<and>
        runBlocks (jobFields env df jobSpec basedir) (newJobParser blank df basedir) = Inr jp' \<longrightarrow>
        validateJobSection env df jobSpec basedir blank \<noteq> Inl onlyOneOf \<and>
        (otherInvariants jp' \<longrightarrow>
           validateJobSection env df jobSpec basedir blank =
             Inr (wireQueryArgs jp' ((jp_j jp')\<lparr>QueueDepth := 1\<rparr>))) \<and>
        (\<forall>accepted. validateJobSection env df jobSpec basedir blank = Inr accepted \<longrightarrow>
           QueueDepth accepted = 1))"
proof -
  have c1: "decodeJobSection env df rs basedir blank = Inr job \<longrightarrow> exactlyOneJobType job"
    by (rule impI) (rule decodeJobSection_accepts)
  have c2: "validateJobSection env df jobSpec basedir blank = Inr job \<longrightarrow> exactlyOneJobType job"
    by (rule impI) (rule validateJobSection_accepts)
  have c3: "twoOrMore (asksRate env rs) (asksQueueDepth env rs) (asksQueryLog rs) \<longrightarrow>
        (\<exists>err. decodeJobSection env df rs basedir blank = Inl err) \<and>
        (Decode (jobOptions env) rs [] (newJobParser blank df basedir) = Inr jp \<and> otherInvariants jp
           \<longrightarrow> decodeJobSection env df rs basedir blank = Inl onlyOneOf)"
    by (rule impI) (rule decodeJobSection_two_or_more)
  have c4: "twoOrMore (setsRate env jobSpec) (setsQueueDepth env jobSpec) (setsQueryLog env jobSpec) \<longrightarrow>
        (\<exists>err. validateJobSection env df jobSpec basedir blank = Inl err) \<and>
        (runBlocks (jobFields env df jobSpec basedir) (newJobParser blank df basedir) = Inr jp'
           \<and> otherInvariants jp'
           \<longrightarrow> validateJobSection env df jobSpec basedir blank = Inl onlyOneOf)"
    by (rule impI) (rule validateJobSection_two_or_more)
  have c5: "name \<in> set (map fst (Sections iniConfig)) \<and> \<not> reservedName name \<and>
        twoOrMore (asksRate env (Section iniConfig name)) (asksQueueDepth env (Section iniConfig name))
          (asksQueryLog (Section iniConfig name)) \<longrightarrow>
        (\<exists>n e. decodeJobsLoop env df iniConfig basedir (map fst (Sections iniConfig)) [] =
                  Inl (ErrorParsingJob n e)) \<and>
        (\<exists>err. parseIniConfig env df iniConfig basedir = Inl err) \<and>
        (\<not> isJSONFile env configFile \<and> ParseIniFile env configFile = Inr iniConfig \<longrightarrow>
           (\<exists>err. parseConfig env df configFile basedir = Inl err \<and>
                  main_run env r connect df configFile basedir = ParsingConfigFile err))"
  proof (rule impI)
    assume h: "name \<in> set (map fst (Sections iniConfig)) \<and> \<not> reservedName name \<and>
        twoOrMore (asksRate env (Section iniConfig name)) (asksQueueDepth env (Section iniConfig name))
          (asksQueryLog (Section iniConfig name))"
    then have m: "name \<in> set (map fst (Sections iniConfig))" and nr: "\<not> reservedName name"
      and t: "twoOrMore (asksRate env (Section iniConfig name))
          (asksQueueDepth env (Section iniConfig name)) (asksQueryLog (Section iniConfig name))"
      by simp_all
    from decodeJobSection_two_or_more [OF t] obtain e where
      f: "decodeJobSection env df (Section iniConfig name) basedir (newJob\<lparr>Name := name\<rparr>) = Inl e"
      by blast
    from decodeJobsLoop_fails [OF m nr f] obtain n e' where
      l: "decodeJobsLoop env df iniConfig basedir (map fst (Sections iniConfig)) [] =
            Inl (ErrorParsingJob n e')" by blast
    from parseIniConfig_job_fails [OF l] obtain err where
      p: "parseIniConfig env df iniConfig basedir = Inl err" by blast
    have g: "\<not> isJSONFile env configFile \<and> ParseIniFile env configFile = Inr iniConfig \<longrightarrow>
           (\<exists>err. parseConfig env df configFile basedir = Inl err \<and>
                  main_run env r connect df configFile basedir = ParsingConfigFile err)"
    proof (rule impI)
      assume "\<not> isJSONFile env configFile \<and> ParseIniFile env configFile = Inr iniConfig"
      with p have pc: "parseConfig env df configFile basedir = Inl err"
        by (simp add: parseConfig_def)
      from pc main_run_parse_fails [OF pc]
      show "\<exists>err. parseConfig env df configFile basedir = Inl err \<and>
                  main_run env r connect df configFile basedir = ParsingConfigFile err" by blast
    qed
    from l p g show "(\<exists>n e. decodeJobsLoop env df iniConfig basedir (map fst (Sections iniConfig)) [] =
                  Inl (ErrorParsingJob n e)) \<and>
        (\<exists>err. parseIniConfig env df iniConfig basedir = Inl err) \<and>
        (\<not> isJSONFile env configFile \<and> ParseIniFile env configFile = Inr iniConfig \<longrightarrow>
           (\<exists>err. parseConfig env df configFile basedir = Inl err \<and>
                  main_run env r connect df configFile basedir = ParsingConfigFile err))" by blast
  qed
  have c6: "(jname, jobSpec) \<in> set (json_Jobs jsonConfig) \<and> \<not> reservedName jname \<and>
        isFieldSetConfig env jsonConfig ''Jobs'' \<and>
        twoOrMore (setsRate env jobSpec) (setsQueueDepth env jobSpec) (setsQueryLog env jobSpec) \<longrightarrow>
        (\<exists>n e. validateJobsLoop env df basedir (json_Jobs jsonConfig) [] = Inl (ErrorParsingJob n e)) \<and>
        (\<exists>err. parseJSONConfig env df jsonConfig basedir = Inl err) \<and>
        (isJSONFile env jsonFile \<and> ReadJSONFile env jsonFile = Inr jsonConfig \<longrightarrow>
           (\<exists>err. parseConfig env df jsonFile basedir = Inl err \<and>
                  main_run env r connect df jsonFile basedir = ParsingConfigFile err))"
  proof (rule impI)
    assume h: "(jname, jobSpec) \<in> set (json_Jobs jsonConfig) \<and> \<not> reservedName jname \<and>
        isFieldSetConfig env jsonConfig ''Jobs'' \<and>
        twoOrMore (setsRate env jobSpec) (setsQueueDepth env jobSpec) (setsQueryLog env jobSpec)"
    then have m: "(jname, jobSpec) \<in> set (json_Jobs jsonConfig)" and nr: "\<not> reservedName jname"
      and isset: "isFieldSetConfig env jsonConfig ''Jobs''"
      and t: "twoOrMore (setsRate env jobSpec) (setsQueueDepth env jobSpec) (setsQueryLog env jobSpec)"
      by simp_all
    from validateJobSection_two_or_more [OF t] obtain e where
      f: "validateJobSection env df jobSpec basedir (newJob\<lparr>Name := jname\<rparr>) = Inl e"
      by blast
    from validateJobsLoop_fails [OF m nr f] obtain n e' where
      l: "validateJobsLoop env df basedir (json_Jobs jsonConfig) [] = Inl (ErrorParsingJob n e')"
      by blast
    from parseJSONConfig_job_fails [OF isset l] obtain err where
      p: "parseJSONConfig env df jsonConfig basedir = Inl err" by blast
    have g: "isJSONFile env jsonFile \<and> ReadJSONFile env jsonFile = Inr jsonConfig \<longrightarrow>
           (\<exists>err. parseConfig env df jsonFile basedir = Inl err \<and>
                  main_run env r connect df jsonFile basedir = ParsingConfigFile err)"
    proof (rule impI)
      assume "isJSONFile env jsonFile \<and> ReadJSONFile env jsonFile = Inr jsonConfig"
      with p have pc: "parseConfig env df jsonFile basedir = Inl err"
        by (simp add: parseConfig_def)
      from pc main_run_parse_fails [OF pc]
      show "\<exists>err. parseConfig env df jsonFile basedir = Inl err \<and>
                  main_run env r connect df jsonFile basedir = ParsingConfigFile err" by blast
    qed
    from l p g show "(\<exists>n e. validateJobsLoop env df basedir (json_Jobs jsonConfig) [] =
                  Inl (ErrorParsingJob n e)) \<and>
        (\<exists>err. parseJSONConfig env df jsonConfig basedir = Inl err) \<and>
        (isJSONFile env jsonFile \<and> ReadJSONFile env jsonFile = Inr jsonConfig \<longrightarrow>
           (\<exists>err. parseConfig env df jsonFile basedir = Inl err \<and>
                  main_run env r connect df jsonFile basedir = ParsingConfigFile err))" by blast
  qed
  have c7: "asksNone rs \<and> zeroJobType blank \<and>
        Decode (jobOptions env) rs [] (newJobParser blank df basedir) = Inr jp \<longrightarrow>
        decodeJobSection env df rs basedir blank \<noteq> Inl onlyOneOf \<and>
        (otherInvariants jp \<longrightarrow>
           decodeJobSection env df rs basedir blank =
             Inr (wireQueryArgs jp ((jp_j jp)\<lparr>QueueDepth := 1\<rparr>))) \<and>
        (\<forall>accepted. decodeJobSection env df rs basedir blank = Inr accepted \<longrightarrow>
           QueueDepth accepted = 1)"
  proof (rule impI)
    assume "asksNone rs \<and> zeroJobType blank \<and>
        Decode (jobOptions env) rs [] (newJobParser blank df basedir) = Inr jp"
    then have a: "asksNone rs" and z: "zeroJobType blank"
      and d: "Decode (jobOptions env) rs [] (newJobParser blank df basedir) = Inr jp" by simp_all
    from decodeJobSection_asks_none [OF a z d]
    show "decodeJobSection env df rs basedir blank \<noteq> Inl onlyOneOf \<and>
        (otherInvariants jp \<longrightarrow>
           decodeJobSection env df rs basedir blank =
             Inr (wireQueryArgs jp ((jp_j jp)\<lparr>QueueDepth := 1\<rparr>))) \<and>
        (\<forall>accepted. decodeJobSection env df rs basedir blank = Inr accepted \<longrightarrow>
           QueueDepth accepted = 1)" .
  qed
  have c8: "setsNone env jobSpec \<and> zeroJobType blank \<and>
        runBlocks (jobFields env df jobSpec basedir) (newJobParser blank df basedir) = Inr jp' \<longrightarrow>
        validateJobSection env df jobSpec basedir blank \<noteq> Inl onlyOneOf \<and>
        (otherInvariants jp' \<longrightarrow>
           validateJobSection env df jobSpec basedir blank =
             Inr (wireQueryArgs jp' ((jp_j jp')\<lparr>QueueDepth := 1\<rparr>))) \<and>
        (\<forall>accepted. validateJobSection env df jobSpec basedir blank = Inr accepted \<longrightarrow>
           QueueDepth accepted = 1)"
  proof (rule impI)
    assume "setsNone env jobSpec \<and> zeroJobType blank \<and>
        runBlocks (jobFields env df jobSpec basedir) (newJobParser blank df basedir) = Inr jp'"
    then have a: "setsNone env jobSpec" and z: "zeroJobType blank"
      and d: "runBlocks (jobFields env df jobSpec basedir) (newJobParser blank df basedir) = Inr jp'"
      by simp_all
    from validateJobSection_sets_none [OF a z d]
    show "validateJobSection env df jobSpec basedir blank \<noteq> Inl onlyOneOf \<and>
        (otherInvariants jp' \<longrightarrow>
           validateJobSection env df jobSpec basedir blank =
             Inr (wireQueryArgs jp' ((jp_j jp')\<lparr>QueueDepth := 1\<rparr>))) \<and>
        (\<forall>accepted. validateJobSection env df jobSpec basedir blank = Inr accepted \<longrightarrow>
           QueueDepth accepted = 1)" .
  qed
  from c1 c2 c3 c4 c5 c6 c7 c8 show ?thesis by (intro conjI)
qed

text \<open>
  The claim as the specification states it does not hold. A section with \<^verbatim>\<open>rate=0\<close> and
  \<^verbatim>\<open>queue-depth=2\<close> specifies two of the three and is accepted, as a job of queue depth 2,
  and the configuration that holds it parses; a section with none of the three and no
  query is rejected, so that nothing sets its queue depth to 1.
\<close>

theorem zero_rate_with_queue_depth_accepted_counterexample:
  "decodeJobSection sampleEnv sampleFlavor
       [(''rate'', ''0''), (''queue-depth'', ''2''), (''query'', ''select 1'')] ''/base''
       (newJob\<lparr>Name := ''mixed''\<rparr>)
     = Inr (newJob\<lparr>Name := ''mixed'', Queries := [''select 1''], QueueDepth := 2\<rparr>)
   \<and> parseConfig (sampleEnvWithIni zeroRateIni) sampleFlavor ''run.ini'' ''/base''
     = Inr ((newConfig sampleFlavor)
              \<lparr>Jobs := [(''mixed'', newJob\<lparr>Name := ''mixed'', Queries := [''select 1''],
                                           QueueDepth := 2\<rparr>)]\<rparr>)
   \<and> decodeJobSection sampleEnv sampleFlavor [] ''/base'' newJob = Inl (New ''no query provided'')
   \<and> validateJobSection sampleEnv sampleFlavor noJobOptions ''/base'' newJob
     = Inl (New ''no query provided'')"
  by (simp add: c1_defs model_defs sample_defs)

lemma eval_decode_two_types:
  "Decode (jobOptions (sampleEnvWithIni twoTypesIni)) twoTypesSection []
       (newJobParser newJob sampleFlavor ''/base'')
     = Inr ((newJobParser newJob sampleFlavor ''/base'')
              \<lparr>jp_j := newJob\<lparr>Queries := [''select 1''], Rate := Finite 10, QueueDepth := 2\<rparr>\<rparr>)"
  by (simp add: c1_defs model_defs sample_defs)

lemma eval_blocks_two_types:
  "runBlocks (jobFields (sampleEnvWithJSON twoTypesJSON) sampleFlavor twoTypesSpec ''/base'')
       (newJobParser newJob sampleFlavor ''/base'')
     = Inr ((newJobParser newJob sampleFlavor ''/base'')
              \<lparr>jp_j := newJob\<lparr>Queries := [''select 1''], Rate := Finite 10, QueueDepth := 2\<rparr>\<rparr>)"
  by (simp add: c1_defs model_defs sample_defs)

lemma eval_decode_default:
  "Decode (jobOptions sampleEnv) defaultSection [] (newJobParser newJob sampleFlavor ''/base'')
     = Inr ((newJobParser newJob sampleFlavor ''/base'')\<lparr>jp_j := newJob\<lparr>Queries := [''select 1'']\<rparr>\<rparr>)"
  by (simp add: c1_defs model_defs sample_defs)

lemma eval_blocks_default:
  "runBlocks (jobFields sampleEnv sampleFlavor defaultSpec ''/base'')
       (newJobParser newJob sampleFlavor ''/base'')
     = Inr ((newJobParser newJob sampleFlavor ''/base'')\<lparr>jp_j := newJob\<lparr>Queries := [''select 1'']\<rparr>\<rparr>)"
  by (simp add: c1_defs model_defs sample_defs)

lemma eval_asks_two_types:
  "twoOrMore (asksRate (sampleEnvWithIni twoTypesIni) twoTypesSection)
     (asksQueueDepth (sampleEnvWithIni twoTypesIni) twoTypesSection) (asksQueryLog twoTypesSection)"
  by (simp add: twoOrMore_def asksRate_def asksQueueDepth_def asksQueryLog_def c1_defs sample_defs
      f64_gt0_def)

lemma eval_section_both: "Section twoTypesIni ''both'' = twoTypesSection"
  by (simp add: Section_def twoTypesIni_def)

lemma eval_sets_two_types:
  "twoOrMore (setsRate (sampleEnvWithJSON twoTypesJSON) twoTypesSpec)
     (setsQueueDepth (sampleEnvWithJSON twoTypesJSON) twoTypesSpec)
     (setsQueryLog (sampleEnvWithJSON twoTypesJSON) twoTypesSpec)"
  by (simp add: twoOrMore_def setsRate_def setsQueueDepth_def setsQueryLog_def c1_defs sample_defs
      f64_gt0_def)

lemma eval_parse_two_types_ini:
  "parseConfig (sampleEnvWithIni twoTypesIni) sampleFlavor ''run.ini'' ''/base''
     = Inl (ErrorParsingJob ''both'' onlyOneOf)"
  by (simp add: c1_defs model_defs sample_defs onlyOneOf_def)

lemma eval_parse_two_types_json:
  "parseConfig (sampleEnvWithJSON twoTypesJSON) sampleFlavor ''run.json'' ''/base''
     = Inl (ErrorParsingJob ''both'' onlyOneOf)"
  by (simp add: c1_defs model_defs sample_defs onlyOneOf_def)

theorem exactly_one_job_type_witness:
  "twoOrMore (asksRate (sampleEnvWithIni twoTypesIni) twoTypesSection)
     (asksQueueDepth (sampleEnvWithIni twoTypesIni) twoTypesSection) (asksQueryLog twoTypesSection)
   \<and> decodeJobSection (sampleEnvWithIni twoTypesIni) sampleFlavor twoTypesSection ''/base'' newJob
     = Inl onlyOneOf
   \<and> parseConfig (sampleEnvWithIni twoTypesIni) sampleFlavor ''run.ini'' ''/base''
     = Inl (ErrorParsingJob ''both'' onlyOneOf)
   \<and> main_run (sampleEnvWithIni twoTypesIni) sampleRunner (Inr []) sampleFlavor ''run.ini'' ''/base''
     = ParsingConfigFile (ErrorParsingJob ''both'' onlyOneOf)
   \<and> twoOrMore (setsRate (sampleEnvWithJSON twoTypesJSON) twoTypesSpec)
       (setsQueueDepth (sampleEnvWithJSON twoTypesJSON) twoTypesSpec)
       (setsQueryLog (sampleEnvWithJSON twoTypesJSON) twoTypesSpec)
   \<and> validateJobSection (sampleEnvWithJSON twoTypesJSON) sampleFlavor twoTypesSpec ''/base'' newJob
     = Inl onlyOneOf
   \<and> parseConfig (sampleEnvWithJSON twoTypesJSON) sampleFlavor ''run.json'' ''/base''
     = Inl (ErrorParsingJob ''both'' onlyOneOf)
   \<and> main_run (sampleEnvWithJSON twoTypesJSON) sampleRunner (Inr []) sampleFlavor ''run.json'' ''/base''
     = ParsingConfigFile (ErrorParsingJob ''both'' onlyOneOf)
   \<and> asksNone defaultSection
   \<and> decodeJobSection sampleEnv sampleFlavor defaultSection ''/base'' newJob
     = Inr (newJob\<lparr>Queries := [''select 1''], QueueDepth := 1\<rparr>)
   \<and> setsNone sampleEnv defaultSpec
   \<and> validateJobSection sampleEnv sampleFlavor defaultSpec ''/base'' newJob
     = Inr (newJob\<lparr>Queries := [''select 1''], QueueDepth := 1\<rparr>)
   \<and> exactlyOneJobType (newJob\<lparr>Queries := [''select 1''], QueueDepth := 1\<rparr>)"
proof -
  let ?envI = "sampleEnvWithIni twoTypesIni"
  let ?envJ = "sampleEnvWithJSON twoTypesJSON"
  let ?jp2 = "(newJobParser newJob sampleFlavor ''/base'')
              \<lparr>jp_j := newJob\<lparr>Queries := [''select 1''], Rate := Finite 10, QueueDepth := 2\<rparr>\<rparr>"
  let ?jp0 = "(newJobParser newJob sampleFlavor ''/base'')\<lparr>jp_j := newJob\<lparr>Queries := [''select 1'']\<rparr>\<rparr>"
  let ?job1 = "newJob\<lparr>Queries := [''select 1''], QueueDepth := 1\<rparr>"
  let ?conn = "Inr [] :: error + string list"
  have o2: "otherInvariants ?jp2"
    by (simp add: otherInvariants_def newJobParser_def newJob_def f64_eq0_def)
  have o0: "otherInvariants ?jp0"
    by (simp add: otherInvariants_def newJobParser_def newJob_def f64_eq0_def)
  have w0: "wireQueryArgs ?jp0 ((jp_j ?jp0)\<lparr>QueueDepth := 1\<rparr>) = ?job1"
    by (simp add: wireQueryArgs_def newJobParser_def)
  have z: "zeroJobType newJob" by (simp add: zeroJobType_def newJob_def f64_gt0_def)
  have nr: "\<not> reservedName ''both''" by (simp add: reservedName_def)
  have an: "asksNone defaultSection" by (simp add: asksNone_def defaultSection_def)
  have sn: "setsNone sampleEnv defaultSpec" by (simp add: setsNone_def c1_defs sample_defs)
  note ini = exactly_one_job_type [where env = ?envI and df = sampleFlavor and rs = twoTypesSection
      and basedir = "''/base''" and blank = newJob and jp = ?jp2 and name = "''both''"
      and iniConfig = twoTypesIni and configFile = "''run.ini''" and r = sampleRunner
      and connect = ?conn]
  note ini3 = ini [THEN conjunct2, THEN conjunct2, THEN conjunct1]
  from ini3 eval_asks_two_types eval_decode_two_types o2
  have g1: "decodeJobSection ?envI sampleFlavor twoTypesSection ''/base'' newJob = Inl onlyOneOf"
    by blast
  note ini5 = ini [THEN conjunct2, THEN conjunct2, THEN conjunct2, THEN conjunct2, THEN conjunct1]
  have m: "''both'' \<in> set (map fst (Sections twoTypesIni))" by (simp add: twoTypesIni_def)
  have t: "twoOrMore (asksRate ?envI (Section twoTypesIni ''both''))
      (asksQueueDepth ?envI (Section twoTypesIni ''both'')) (asksQueryLog (Section twoTypesIni ''both''))"
    unfolding eval_section_both by (rule eval_asks_two_types)
  have f: "\<not> isJSONFile ?envI ''run.ini'' \<and> ParseIniFile ?envI ''run.ini'' = Inr twoTypesIni"
    by (simp add: sampleEnvWithIni_def sampleEnv_def)
  from ini5 m nr t f
  have "\<exists>err. parseConfig ?envI sampleFlavor ''run.ini'' ''/base'' = Inl err \<and>
      main_run ?envI sampleRunner ?conn sampleFlavor ''run.ini'' ''/base'' = ParsingConfigFile err"
    by blast
  with eval_parse_two_types_ini
  have g2: "main_run ?envI sampleRunner ?conn sampleFlavor ''run.ini'' ''/base''
      = ParsingConfigFile (ErrorParsingJob ''both'' onlyOneOf)" by auto
  note json = exactly_one_job_type [where env = ?envJ and df = sampleFlavor and jobSpec = twoTypesSpec
      and basedir = "''/base''" and blank = newJob and jp' = ?jp2 and jname = "''both''"
      and jsonConfig = twoTypesJSON and jsonFile = "''run.json''" and r = sampleRunner
      and connect = ?conn]
  note json4 = json [THEN conjunct2, THEN conjunct2, THEN conjunct2, THEN conjunct1]
  from json4 eval_sets_two_types eval_blocks_two_types o2
  have g3: "validateJobSection ?envJ sampleFlavor twoTypesSpec ''/base'' newJob = Inl onlyOneOf"
    by blast
  note json6 = json [THEN conjunct2, THEN conjunct2, THEN conjunct2, THEN conjunct2, THEN conjunct2,
      THEN conjunct1]
  have mj: "(''both'', twoTypesSpec) \<in> set (json_Jobs twoTypesJSON)" by (simp add: twoTypesJSON_def)
  have sj: "isFieldSetConfig ?envJ twoTypesJSON ''Jobs''"
    by (simp add: c1_defs sample_defs)
  have fj: "isJSONFile ?envJ ''run.json'' \<and> ReadJSONFile ?envJ ''run.json'' = Inr twoTypesJSON"
    by (simp add: sampleEnvWithJSON_def sampleEnv_def)
  from json6 mj nr sj eval_sets_two_types fj
  have "\<exists>err. parseConfig ?envJ sampleFlavor ''run.json'' ''/base'' = Inl err \<and>
      main_run ?envJ sampleRunner ?conn sampleFlavor ''run.json'' ''/base'' = ParsingConfigFile err"
    by blast
  with eval_parse_two_types_json
  have g4: "main_run ?envJ sampleRunner ?conn sampleFlavor ''run.json'' ''/base''
      = ParsingConfigFile (ErrorParsingJob ''both'' onlyOneOf)" by auto
  note dflt = exactly_one_job_type [where env = sampleEnv and df = sampleFlavor and rs = defaultSection
      and jobSpec = defaultSpec and basedir = "''/base''" and blank = newJob and jp = ?jp0
      and jp' = ?jp0 and job = ?job1 and r = sampleRunner and connect = ?conn]
  note dflt1 = dflt [THEN conjunct1]
  note dflt7 = dflt [THEN conjunct2, THEN conjunct2, THEN conjunct2, THEN conjunct2, THEN conjunct2,
      THEN conjunct2, THEN conjunct1]
  note dflt8 = dflt [THEN conjunct2, THEN conjunct2, THEN conjunct2, THEN conjunct2, THEN conjunct2,
      THEN conjunct2, THEN conjunct2]
  from dflt7 an z eval_decode_default o0
  have "decodeJobSection sampleEnv sampleFlavor defaultSection ''/base'' newJob =
      Inr (wireQueryArgs ?jp0 ((jp_j ?jp0)\<lparr>QueueDepth := 1\<rparr>))" by blast
  then have g5: "decodeJobSection sampleEnv sampleFlavor defaultSection ''/base'' newJob = Inr ?job1"
    by (simp only: w0)
  from dflt8 sn z eval_blocks_default o0
  have "validateJobSection sampleEnv sampleFlavor defaultSpec ''/base'' newJob =
      Inr (wireQueryArgs ?jp0 ((jp_j ?jp0)\<lparr>QueueDepth := 1\<rparr>))" by blast
  then have g6: "validateJobSection sampleEnv sampleFlavor defaultSpec ''/base'' newJob = Inr ?job1"
    by (simp only: w0)
  from dflt1 g5 have g7: "exactlyOneJobType ?job1" by blast
  from eval_asks_two_types g1 eval_parse_two_types_ini g2 eval_sets_two_types g3
    eval_parse_two_types_json g4 an g5 sn g6 g7
  show ?thesis by (intro conjI)
qed

subsection \<open>The rate and the batch size\<close>

lemma f64_not_NaN:
  assumes "x \<noteq> NaN" and "\<not> f64_lt0 x"
  shows "f64_ge0 x" and "\<not> f64_eq0 x \<longrightarrow> f64_gt0 x"
  using assms by (cases x; simp add: f64_lt0_def f64_ge0_def f64_eq0_def f64_gt0_def)+

lemma jobOptions_rate_nonneg:
  assumes "jobOptions env n = Some (kind, parse)" and "parse v s = Inr s'"
    and "\<not> f64_lt0 (Rate (jp_j s))"
  shows "\<not> f64_lt0 (Rate (jp_j s'))"
  using assms
  by (auto simp: jobOptions_def parse_start_def parse_stop_def parse_query_def parse_query_file_def
      parse_query_args_file_def parse_query_args_delim_def parse_query_results_file_def
      parse_rate_def parse_batch_size_def parse_queue_depth_def parse_count_def
      parse_multi_query_mode_def parse_query_log_file_def
      split: if_splits sum.splits option.splits)

lemma jobOptions_effect_batch:
  assumes "jobOptions env n = Some (kind, parse)" and "parse v s = Inr s'"
  shows "BatchSize (jp_j s') =
           (if n = ''batch-size''
            then (case ParseUint env v of Inr k \<Rightarrow> k | Inl e \<Rightarrow> BatchSize (jp_j s))
            else BatchSize (jp_j s))"
  using assms
  by (auto simp: jobOptions_def parse_start_def parse_stop_def parse_query_def parse_query_file_def
      parse_query_args_file_def parse_query_args_delim_def parse_query_results_file_def
      parse_rate_def parse_batch_size_def parse_queue_depth_def parse_count_def
      parse_multi_query_mode_def parse_query_log_file_def
      split: if_splits sum.splits option.splits)

lemma jobFields_rate_nonneg:
  assumes "f \<in> set (jobFields env df jobSpec basedir)" and "f s = Inr s'"
    and "\<not> f64_lt0 (Rate (jp_j s))"
  shows "\<not> f64_lt0 (Rate (jp_j s'))"
proof -
  from assms(1) consider
    "f = field_Start env jobSpec"
    | "f = field_Stop env jobSpec"
    | "f = field_Queries env df jobSpec"
    | "f = field_QueryFiles env df jobSpec basedir"
    | "f = field_QueryArgsFile env jobSpec basedir"
    | "f = field_QueryArgsDelim env jobSpec"
    | "f = field_QueryResultsFile env jobSpec basedir"
    | "f = field_Rate env jobSpec"
    | "f = field_BatchSize env jobSpec"
    | "f = field_QueueDepth env jobSpec"
    | "f = field_Concurrency env jobSpec"
    | "f = field_Count env jobSpec"
    | "f = field_MultiQueryMode env jobSpec"
    | "f = field_QueryLogFile env jobSpec basedir"
    by (auto simp: jobFields_def)
  then show ?thesis
  proof cases
    case 1
    with assms(2,3) show ?thesis
      by (auto simp: field_Start_def split: if_splits sum.splits)
  next
    case 2
    with assms(2,3) show ?thesis
      by (auto simp: field_Stop_def split: if_splits sum.splits)
  next
    case 3
    with assms(2,3) show ?thesis
      by (auto simp: field_Queries_def split: if_splits sum.splits)
  next
    case 4
    with assms(2,3) show ?thesis
      by (auto simp: field_QueryFiles_def split: if_splits sum.splits)
  next
    case 5
    with assms(2,3) show ?thesis
      by (auto simp: field_QueryArgsFile_def split: if_splits sum.splits)
  next
    case 6
    with assms(2,3) show ?thesis
      by (auto simp: field_QueryArgsDelim_def split: if_splits sum.splits)
  next
    case 7
    with assms(2,3) show ?thesis
      by (auto simp: field_QueryResultsFile_def split: if_splits sum.splits)
  next
    case 8
    with assms(2,3) show ?thesis
      by (auto simp: field_Rate_def split: if_splits sum.splits)
  next
    case 9
    with assms(2,3) show ?thesis
      by (auto simp: field_BatchSize_def split: if_splits sum.splits)
  next
    case 10
    with assms(2,3) show ?thesis
      by (auto simp: field_QueueDepth_def split: if_splits sum.splits)
  next
    case 11
    with assms(2,3) show ?thesis
      by (auto simp: field_Concurrency_def split: if_splits sum.splits)
  next
    case 12
    with assms(2,3) show ?thesis
      by (auto simp: field_Count_def split: if_splits sum.splits)
  next
    case 13
    with assms(2,3) show ?thesis
      by (auto simp: field_MultiQueryMode_def split: if_splits sum.splits)
  next
    case 14
    with assms(2,3) show ?thesis
      by (auto simp: field_QueryLogFile_def split: if_splits sum.splits)
  qed
qed

lemma jobFields_effect_batch:
  assumes "f \<in> set (jobFields env df jobSpec basedir)" and "f s = Inr s'"
  shows "BatchSize (jp_j s') = BatchSize (jp_j s) \<or>
           (isFieldSetJob env jobSpec ''BatchSize'' \<and> BatchSize (jp_j s') = opt_BatchSize jobSpec)"
proof -
  from assms(1) consider
    "f = field_Start env jobSpec"
    | "f = field_Stop env jobSpec"
    | "f = field_Queries env df jobSpec"
    | "f = field_QueryFiles env df jobSpec basedir"
    | "f = field_QueryArgsFile env jobSpec basedir"
    | "f = field_QueryArgsDelim env jobSpec"
    | "f = field_QueryResultsFile env jobSpec basedir"
    | "f = field_Rate env jobSpec"
    | "f = field_BatchSize env jobSpec"
    | "f = field_QueueDepth env jobSpec"
    | "f = field_Concurrency env jobSpec"
    | "f = field_Count env jobSpec"
    | "f = field_MultiQueryMode env jobSpec"
    | "f = field_QueryLogFile env jobSpec basedir"
    by (auto simp: jobFields_def)
  then show ?thesis
  proof cases
    case 1
    with assms(2) show ?thesis
      by (auto simp: field_Start_def split: if_splits sum.splits)
  next
    case 2
    with assms(2) show ?thesis
      by (auto simp: field_Stop_def split: if_splits sum.splits)
  next
    case 3
    with assms(2) show ?thesis
      by (auto simp: field_Queries_def split: if_splits sum.splits)
  next
    case 4
    with assms(2) show ?thesis
      by (auto simp: field_QueryFiles_def split: if_splits sum.splits)
  next
    case 5
    with assms(2) show ?thesis
      by (auto simp: field_QueryArgsFile_def split: if_splits sum.splits)
  next
    case 6
    with assms(2) show ?thesis
      by (auto simp: field_QueryArgsDelim_def split: if_splits sum.splits)
  next
    case 7
    with assms(2) show ?thesis
      by (auto simp: field_QueryResultsFile_def split: if_splits sum.splits)
  next
    case 8
    with assms(2) show ?thesis
      by (auto simp: field_Rate_def split: if_splits sum.splits)
  next
    case 9
    with assms(2) show ?thesis
      by (auto simp: field_BatchSize_def split: if_splits sum.splits)
  next
    case 10
    with assms(2) show ?thesis
      by (auto simp: field_QueueDepth_def split: if_splits sum.splits)
  next
    case 11
    with assms(2) show ?thesis
      by (auto simp: field_Concurrency_def split: if_splits sum.splits)
  next
    case 12
    with assms(2) show ?thesis
      by (auto simp: field_Count_def split: if_splits sum.splits)
  next
    case 13
    with assms(2) show ?thesis
      by (auto simp: field_MultiQueryMode_def split: if_splits sum.splits)
  next
    case 14
    with assms(2) show ?thesis
      by (auto simp: field_QueryLogFile_def split: if_splits sum.splits)
  qed
qed

lemma decode_rate_nonneg:
  assumes z: "\<not> f64_lt0 (Rate (jp_j s))" and d: "Decode (jobOptions env) rs seen s = Inr s'"
  shows "\<not> f64_lt0 (Rate (jp_j s'))"
proof -
  have pres: "\<And>n v kind parse t t'. (n, v) \<in> set rs \<Longrightarrow> jobOptions env n = Some (kind, parse) \<Longrightarrow>
      \<not> f64_lt0 (Rate (jp_j t)) \<Longrightarrow> parse v t = Inr t' \<Longrightarrow> \<not> f64_lt0 (Rate (jp_j t'))"
  proof -
    fix n v kind parse t t'
    assume o: "jobOptions env n = Some (kind, parse)" and q: "\<not> f64_lt0 (Rate (jp_j t))"
      and p: "parse v t = Inr t'"
    from jobOptions_rate_nonneg [OF o p q] show "\<not> f64_lt0 (Rate (jp_j t'))" .
  qed
  from Decode_invariant [where P = "\<lambda>t. \<not> f64_lt0 (Rate (jp_j t))" and dos = "jobOptions env",
      OF pres z d]
  show ?thesis .
qed

lemma blocks_rate_nonneg:
  assumes z: "\<not> f64_lt0 (Rate (jp_j s))"
    and r: "runBlocks (jobFields env df jobSpec basedir) s = Inr s'"
  shows "\<not> f64_lt0 (Rate (jp_j s'))"
proof -
  have pres: "\<And>f t t'. f \<in> set (jobFields env df jobSpec basedir) \<Longrightarrow>
      \<not> f64_lt0 (Rate (jp_j t)) \<Longrightarrow> f t = Inr t' \<Longrightarrow> \<not> f64_lt0 (Rate (jp_j t'))"
  proof -
    fix f t t'
    assume m: "f \<in> set (jobFields env df jobSpec basedir)"
      and q: "\<not> f64_lt0 (Rate (jp_j t))" and p: "f t = Inr t'"
    from jobFields_rate_nonneg [OF m p q] show "\<not> f64_lt0 (Rate (jp_j t'))" .
  qed
  from runBlocks_invariant [where P = "\<lambda>t. \<not> f64_lt0 (Rate (jp_j t))", OF pres z r]
  show ?thesis .
qed

lemma decodeJobSection_accepted_shape:
  assumes "decodeJobSection env df rs basedir blank = Inr job"
  shows "\<exists>jp. Decode (jobOptions env) rs [] (newJobParser blank df basedir) = Inr jp \<and>
           Rate job = Rate (jp_j jp) \<and>
           \<not> (f64_eq0 (Rate (jp_j jp)) \<and> 0 < BatchSize (jp_j jp)) \<and>
           BatchSize job = (if f64_gt0 (Rate (jp_j jp)) \<and> BatchSize (jp_j jp) = 0 then 1
                            else BatchSize (jp_j jp))"
proof (cases "Decode (jobOptions env) rs [] (newJobParser blank df basedir)")
  case (Inl e)
  with assms show ?thesis by (simp add: decodeJobSection_def)
next
  case (Inr jp)
  from assms Inr have c: "\<not> (f64_eq0 (Rate (jp_j jp)) \<and> 0 < BatchSize (jp_j jp))"
    by (auto simp: decodeJobSection_def Let_def split: if_splits)
  have "differentJobTypes (jp_j jp) = 0 \<or> differentJobTypes (jp_j jp) = 1 \<or> 1 < differentJobTypes (jp_j jp)"
    by arith
  then have "Rate job = Rate (jp_j jp) \<and>
      BatchSize job = (if f64_gt0 (Rate (jp_j jp)) \<and> BatchSize (jp_j jp) = 0 then 1
                       else BatchSize (jp_j jp))"
  proof (elim disjE)
    assume z: "differentJobTypes (jp_j jp) = 0"
    then have "\<not> f64_gt0 (Rate (jp_j jp))" by (simp add: differentJobTypes_zero)
    with assms Inr z show ?thesis
      by (auto simp: decodeJobSection_def Let_def split: if_splits)
  next
    assume o: "differentJobTypes (jp_j jp) = 1"
    with assms Inr show ?thesis
      by (auto simp: decodeJobSection_def Let_def split: if_splits)
  next
    assume "1 < differentJobTypes (jp_j jp)"
    with assms Inr show ?thesis
      by (simp add: decodeJobSection_def Let_def split: if_splits)
  qed
  with Inr c show ?thesis by blast
qed

lemma validateJobSection_accepted_shape:
  assumes "validateJobSection env df jobSpec basedir blank = Inr job"
  shows "\<exists>jp. runBlocks (jobFields env df jobSpec basedir) (newJobParser blank df basedir) = Inr jp \<and>
           Rate job = Rate (jp_j jp) \<and>
           \<not> (f64_eq0 (Rate (jp_j jp)) \<and> 0 < BatchSize (jp_j jp)) \<and>
           BatchSize job = (if f64_gt0 (Rate (jp_j jp)) \<and> BatchSize (jp_j jp) = 0 then 1
                            else BatchSize (jp_j jp))"
proof (cases "runBlocks (jobFields env df jobSpec basedir) (newJobParser blank df basedir)")
  case (Inl e)
  with assms show ?thesis by (simp add: validateJobSection_def)
next
  case (Inr jp)
  from assms Inr have c: "\<not> (f64_eq0 (Rate (jp_j jp)) \<and> 0 < BatchSize (jp_j jp))"
    by (auto simp: validateJobSection_def Let_def split: if_splits)
  have "differentJobTypes (jp_j jp) = 0 \<or> differentJobTypes (jp_j jp) = 1 \<or> 1 < differentJobTypes (jp_j jp)"
    by arith
  then have "Rate job = Rate (jp_j jp) \<and>
      BatchSize job = (if f64_gt0 (Rate (jp_j jp)) \<and> BatchSize (jp_j jp) = 0 then 1
                       else BatchSize (jp_j jp))"
  proof (elim disjE)
    assume z: "differentJobTypes (jp_j jp) = 0"
    then have "\<not> f64_gt0 (Rate (jp_j jp))" by (simp add: differentJobTypes_zero)
    with assms Inr z show ?thesis
      by (auto simp: validateJobSection_def Let_def split: if_splits)
  next
    assume o: "differentJobTypes (jp_j jp) = 1"
    with assms Inr show ?thesis
      by (auto simp: validateJobSection_def Let_def split: if_splits)
  next
    assume "1 < differentJobTypes (jp_j jp)"
    with assms Inr show ?thesis
      by (simp add: validateJobSection_def Let_def split: if_splits)
  qed
  with Inr c show ?thesis by blast
qed

lemma jobOptions_rate: "jobOptions env ''rate'' = Some (UniqueOption, parse_rate env)"
  by (simp add: jobOptions_def)

lemma decode_negativeRate:
  assumes a: "negativeRate env rs"
  shows "\<exists>err. Decode (jobOptions env) rs seen s = Inl err"
proof -
  from a obtain x where xm: "x \<in> set rs"
    and xp: "case x of (name, v) \<Rightarrow> name = ''rate'' \<and>
                (case ParseFloat env v of Inl err \<Rightarrow> False | Inr r \<Rightarrow> f64_lt0 r)"
    unfolding negativeRate_def list_ex_iff by blast
  obtain n v where x: "x = (n, v)" by (cases x)
  from xp x have n: "n = ''rate''"
    and c: "case ParseFloat env v of Inl err \<Rightarrow> False | Inr r \<Rightarrow> f64_lt0 r" by simp_all
  from c obtain r where r: "ParseFloat env v = Inr r" "f64_lt0 r"
    by (cases "ParseFloat env v") simp_all
  from xm x n have mem: "(''rate'', v) \<in> set rs" by simp
  have fails: "\<And>dst. \<exists>err. parse_rate env v dst = Inl err"
    using r by (simp add: parse_rate_def)
  from Decode_fails [where dos = "jobOptions env" and name = "''rate''" and parse = "parse_rate env",
      OF mem jobOptions_rate fails]
  show ?thesis .
qed

lemma decode_zeroRate:
  assumes a: "zeroRate env rs" and z: "f64_eq0 (Rate (jp_j s))"
    and d: "Decode (jobOptions env) rs seen s = Inr s'"
  shows "f64_eq0 (Rate (jp_j s'))"
proof -
  have every: "\<And>v. (''rate'', v) \<in> set rs \<Longrightarrow> \<exists>r. ParseFloat env v = Inr r \<and> f64_eq0 r"
  proof -
    fix v
    assume m: "(''rate'', v) \<in> set rs"
    from a have "\<forall>x\<in>set rs. case x of (name, v) \<Rightarrow> name = ''rate'' \<longrightarrow>
        (case ParseFloat env v of Inl err \<Rightarrow> False | Inr r \<Rightarrow> f64_eq0 r)"
      by (simp add: zeroRate_def list_all_iff)
    from bspec [OF this m]
    have "case ParseFloat env v of Inl err \<Rightarrow> False | Inr r \<Rightarrow> f64_eq0 r" by simp
    then show "\<exists>r. ParseFloat env v = Inr r \<and> f64_eq0 r"
      by (cases "ParseFloat env v") simp_all
  qed
  have pres: "\<And>n v kind parse t t'. (n, v) \<in> set rs \<Longrightarrow> jobOptions env n = Some (kind, parse) \<Longrightarrow>
      f64_eq0 (Rate (jp_j t)) \<Longrightarrow> parse v t = Inr t' \<Longrightarrow> f64_eq0 (Rate (jp_j t'))"
  proof -
    fix n v kind parse t t'
    assume m: "(n, v) \<in> set rs" and o: "jobOptions env n = Some (kind, parse)"
      and q: "f64_eq0 (Rate (jp_j t))" and p: "parse v t = Inr t'"
    show "f64_eq0 (Rate (jp_j t'))"
    proof (cases "n = ''rate''")
      case True
      with m have "(''rate'', v) \<in> set rs" by simp
      from every [OF this] obtain r where r: "ParseFloat env v = Inr r" "f64_eq0 r" by blast
      from jobOptions_effect(1) [OF o p] True r show ?thesis by simp
    next
      case False
      from jobOptions_effect(1) [OF o p] False q show ?thesis by simp
    qed
  qed
  from Decode_invariant [where P = "\<lambda>t. f64_eq0 (Rate (jp_j t))" and dos = "jobOptions env",
      OF pres z d]
  show ?thesis .
qed

lemma decode_asksBatchSize:
  assumes a: "asksBatchSize env rs" and d: "Decode (jobOptions env) rs seen s = Inr s'"
  shows "0 < BatchSize (jp_j s')"
proof -
  from a obtain val where mem: "(''batch-size'', val) \<in> set rs"
    by (auto simp: asksBatchSize_def list_ex_iff)
  have every: "\<And>v. (''batch-size'', v) \<in> set rs \<Longrightarrow> \<exists>k. ParseUint env v = Inr k \<and> 0 < k"
  proof -
    fix v
    assume m: "(''batch-size'', v) \<in> set rs"
    from a have "\<forall>x\<in>set rs. case x of (name, v) \<Rightarrow> name = ''batch-size'' \<longrightarrow>
        (case ParseUint env v of Inl err \<Rightarrow> False | Inr k \<Rightarrow> 0 < k)"
      by (simp add: asksBatchSize_def list_all_iff)
    from bspec [OF this m]
    have "case ParseUint env v of Inl err \<Rightarrow> False | Inr k \<Rightarrow> 0 < k" by simp
    then show "\<exists>k. ParseUint env v = Inr k \<and> 0 < k"
      by (cases "ParseUint env v") simp_all
  qed
  have est: "\<And>kind parse t t'. jobOptions env ''batch-size'' = Some (kind, parse) \<Longrightarrow>
      parse val t = Inr t' \<Longrightarrow> 0 < BatchSize (jp_j t')"
  proof -
    fix kind parse t t'
    assume o: "jobOptions env ''batch-size'' = Some (kind, parse)" and p: "parse val t = Inr t'"
    from every [OF mem] obtain k where k: "ParseUint env val = Inr k" "0 < k" by blast
    from jobOptions_effect_batch [OF o p] k show "0 < BatchSize (jp_j t')" by simp
  qed
  have pres: "\<And>n v kind parse t t'. (n, v) \<in> set rs \<Longrightarrow> jobOptions env n = Some (kind, parse) \<Longrightarrow>
      0 < BatchSize (jp_j t) \<Longrightarrow> parse v t = Inr t' \<Longrightarrow> 0 < BatchSize (jp_j t')"
  proof -
    fix n v kind parse t t'
    assume m: "(n, v) \<in> set rs" and o: "jobOptions env n = Some (kind, parse)"
      and q: "0 < BatchSize (jp_j t)" and p: "parse v t = Inr t'"
    show "0 < BatchSize (jp_j t')"
    proof (cases "n = ''batch-size''")
      case True
      with m have "(''batch-size'', v) \<in> set rs" by simp
      from every [OF this] obtain k where k: "ParseUint env v = Inr k" "0 < k" by blast
      from jobOptions_effect_batch [OF o p] True k show ?thesis by simp
    next
      case False
      from jobOptions_effect_batch [OF o p] False q show ?thesis by simp
    qed
  qed
  from Decode_establishes [where P = "\<lambda>t. 0 < BatchSize (jp_j t)" and dos = "jobOptions env",
      OF mem est pres d]
  show ?thesis .
qed

lemma decode_noBatchSize:
  assumes a: "noBatchSize rs" and d: "Decode (jobOptions env) rs seen s = Inr s'"
  shows "BatchSize (jp_j s') = BatchSize (jp_j s)"
proof -
  from a have every: "\<And>n v. (n, v) \<in> set rs \<Longrightarrow> n \<noteq> ''batch-size''"
    by (auto simp: noBatchSize_def list_all_iff)
  have pres: "\<And>n v kind parse t t'. (n, v) \<in> set rs \<Longrightarrow> jobOptions env n = Some (kind, parse) \<Longrightarrow>
      BatchSize (jp_j t) = BatchSize (jp_j s) \<Longrightarrow> parse v t = Inr t' \<Longrightarrow>
      BatchSize (jp_j t') = BatchSize (jp_j s)"
  proof -
    fix n v kind parse t t'
    assume m: "(n, v) \<in> set rs" and o: "jobOptions env n = Some (kind, parse)"
      and q: "BatchSize (jp_j t) = BatchSize (jp_j s)" and p: "parse v t = Inr t'"
    from jobOptions_effect_batch [OF o p] every [OF m] q
    show "BatchSize (jp_j t') = BatchSize (jp_j s)" by simp
  qed
  have "BatchSize (jp_j s) = BatchSize (jp_j s)" by simp
  from Decode_invariant [where P = "\<lambda>t. BatchSize (jp_j t) = BatchSize (jp_j s)"
      and dos = "jobOptions env", OF pres this d]
  show ?thesis .
qed

lemma blocks_setsNegativeRate:
  assumes a: "setsNegativeRate env jobSpec"
  shows "\<exists>err. runBlocks (jobFields env df jobSpec basedir) s = Inl err"
proof -
  from a have fails: "\<And>t. \<exists>err. field_Rate env jobSpec t = Inl err"
    by (simp add: setsNegativeRate_def field_Rate_def)
  from runBlocks_fails [OF field_Rate_in_jobFields fails] show ?thesis .
qed

lemma blocks_setsZeroRate:
  assumes a: "setsZeroRate env jobSpec" and z: "f64_eq0 (Rate (jp_j s))"
    and r: "runBlocks (jobFields env df jobSpec basedir) s = Inr s'"
  shows "f64_eq0 (Rate (jp_j s'))"
proof -
  have pres: "\<And>f t t'. f \<in> set (jobFields env df jobSpec basedir) \<Longrightarrow>
      f64_eq0 (Rate (jp_j t)) \<Longrightarrow> f t = Inr t' \<Longrightarrow> f64_eq0 (Rate (jp_j t'))"
  proof -
    fix f t t'
    assume m: "f \<in> set (jobFields env df jobSpec basedir)"
      and q: "f64_eq0 (Rate (jp_j t))" and p: "f t = Inr t'"
    from jobFields_effect [OF m p]
    have "Rate (jp_j t') = Rate (jp_j t) \<or>
        (isFieldSetJob env jobSpec ''Rate'' \<and> Rate (jp_j t') = opt_Rate jobSpec)" by simp
    with a q show "f64_eq0 (Rate (jp_j t'))" by (auto simp: setsZeroRate_def)
  qed
  from runBlocks_invariant [where P = "\<lambda>t. f64_eq0 (Rate (jp_j t))", OF pres z r]
  show ?thesis .
qed

lemma field_BatchSize_in_jobFields: "field_BatchSize env jobSpec \<in> set (jobFields env df jobSpec basedir)"
  by (simp add: jobFields_def)

lemma blocks_setsBatchSize:
  assumes a: "setsBatchSize env jobSpec"
    and r: "runBlocks (jobFields env df jobSpec basedir) s = Inr s'"
  shows "0 < BatchSize (jp_j s')"
proof -
  from a have isset: "isFieldSetJob env jobSpec ''BatchSize''" and pos: "0 < opt_BatchSize jobSpec"
    by (simp_all add: setsBatchSize_def)
  have est: "\<And>t t'. field_BatchSize env jobSpec t = Inr t' \<Longrightarrow>
      BatchSize (jp_j t') = opt_BatchSize jobSpec"
    using isset by (auto simp: field_BatchSize_def split: if_splits)
  have pres: "\<And>f t t'. f \<in> set (jobFields env df jobSpec basedir) \<Longrightarrow>
      BatchSize (jp_j t) = opt_BatchSize jobSpec \<Longrightarrow> f t = Inr t' \<Longrightarrow>
      BatchSize (jp_j t') = opt_BatchSize jobSpec"
  proof -
    fix f t t'
    assume m: "f \<in> set (jobFields env df jobSpec basedir)"
      and q: "BatchSize (jp_j t) = opt_BatchSize jobSpec" and p: "f t = Inr t'"
    from jobFields_effect_batch [OF m p] q show "BatchSize (jp_j t') = opt_BatchSize jobSpec" by auto
  qed
  from runBlocks_establishes [where P = "\<lambda>t. BatchSize (jp_j t) = opt_BatchSize jobSpec",
      OF field_BatchSize_in_jobFields est pres r]
  have "BatchSize (jp_j s') = opt_BatchSize jobSpec" .
  with pos show ?thesis by simp
qed

lemma blocks_no_batch_size:
  assumes a: "\<not> isFieldSetJob env jobSpec ''BatchSize''"
    and r: "runBlocks (jobFields env df jobSpec basedir) s = Inr s'"
  shows "BatchSize (jp_j s') = BatchSize (jp_j s)"
proof -
  have pres: "\<And>f t t'. f \<in> set (jobFields env df jobSpec basedir) \<Longrightarrow>
      BatchSize (jp_j t) = BatchSize (jp_j s) \<Longrightarrow> f t = Inr t' \<Longrightarrow>
      BatchSize (jp_j t') = BatchSize (jp_j s)"
  proof -
    fix f t t'
    assume m: "f \<in> set (jobFields env df jobSpec basedir)"
      and q: "BatchSize (jp_j t) = BatchSize (jp_j s)" and p: "f t = Inr t'"
    from jobFields_effect_batch [OF m p] a q show "BatchSize (jp_j t') = BatchSize (jp_j s)" by simp
  qed
  have "BatchSize (jp_j s) = BatchSize (jp_j s)" by simp
  from runBlocks_invariant [where P = "\<lambda>t. BatchSize (jp_j t) = BatchSize (jp_j s)", OF pres this r]
  show ?thesis .
qed

lemma decodeJobSection_invariants:
  assumes d: "decodeJobSection env df rs basedir blank = Inr job" and z: "\<not> f64_lt0 (Rate blank)"
  shows "\<not> f64_lt0 (Rate job) \<and> (0 < BatchSize job \<longrightarrow> \<not> f64_eq0 (Rate job)) \<and>
         (f64_gt0 (Rate job) \<longrightarrow> 0 < BatchSize job) \<and> (Rate job \<noteq> NaN \<longrightarrow> rateInvariants job)"
proof -
  from decodeJobSection_accepted_shape [OF d] obtain jp where
    dd: "Decode (jobOptions env) rs [] (newJobParser blank df basedir) = Inr jp"
    and r: "Rate job = Rate (jp_j jp)"
    and c: "\<not> (f64_eq0 (Rate (jp_j jp)) \<and> 0 < BatchSize (jp_j jp))"
    and b: "BatchSize job = (if f64_gt0 (Rate (jp_j jp)) \<and> BatchSize (jp_j jp) = 0 then 1
                            else BatchSize (jp_j jp))" by blast
  from z have "\<not> f64_lt0 (Rate (jp_j (newJobParser blank df basedir)))"
    by (simp add: newJobParser_def)
  from decode_rate_nonneg [OF this dd] r have g1: "\<not> f64_lt0 (Rate job)" by simp
  have ne: "f64_gt0 (Rate (jp_j jp)) \<Longrightarrow> \<not> f64_eq0 (Rate (jp_j jp))"
    by (cases "Rate (jp_j jp)") (simp_all add: f64_gt0_def f64_eq0_def)
  from r c b ne have g2: "0 < BatchSize job \<longrightarrow> \<not> f64_eq0 (Rate job)" by (auto split: if_splits)
  from r b have g3: "f64_gt0 (Rate job) \<longrightarrow> 0 < BatchSize job" by (auto split: if_splits)
  have g4: "Rate job \<noteq> NaN \<longrightarrow> rateInvariants job"
  proof
    assume n: "Rate job \<noteq> NaN"
    from f64_not_NaN [OF n g1] g2 show "rateInvariants job" by (simp add: rateInvariants_def)
  qed
  from g1 g2 g3 g4 show ?thesis by (intro conjI)
qed

lemma validateJobSection_invariants:
  assumes d: "validateJobSection env df jobSpec basedir blank = Inr job" and z: "\<not> f64_lt0 (Rate blank)"
  shows "\<not> f64_lt0 (Rate job) \<and> (0 < BatchSize job \<longrightarrow> \<not> f64_eq0 (Rate job)) \<and>
         (f64_gt0 (Rate job) \<longrightarrow> 0 < BatchSize job) \<and> (Rate job \<noteq> NaN \<longrightarrow> rateInvariants job)"
proof -
  from validateJobSection_accepted_shape [OF d] obtain jp where
    dd: "runBlocks (jobFields env df jobSpec basedir) (newJobParser blank df basedir) = Inr jp"
    and r: "Rate job = Rate (jp_j jp)"
    and c: "\<not> (f64_eq0 (Rate (jp_j jp)) \<and> 0 < BatchSize (jp_j jp))"
    and b: "BatchSize job = (if f64_gt0 (Rate (jp_j jp)) \<and> BatchSize (jp_j jp) = 0 then 1
                            else BatchSize (jp_j jp))" by blast
  from z have "\<not> f64_lt0 (Rate (jp_j (newJobParser blank df basedir)))"
    by (simp add: newJobParser_def)
  from blocks_rate_nonneg [OF this dd] r have g1: "\<not> f64_lt0 (Rate job)" by simp
  have ne: "f64_gt0 (Rate (jp_j jp)) \<Longrightarrow> \<not> f64_eq0 (Rate (jp_j jp))"
    by (cases "Rate (jp_j jp)") (simp_all add: f64_gt0_def f64_eq0_def)
  from r c b ne have g2: "0 < BatchSize job \<longrightarrow> \<not> f64_eq0 (Rate job)" by (auto split: if_splits)
  from r b have g3: "f64_gt0 (Rate job) \<longrightarrow> 0 < BatchSize job" by (auto split: if_splits)
  have g4: "Rate job \<noteq> NaN \<longrightarrow> rateInvariants job"
  proof
    assume n: "Rate job \<noteq> NaN"
    from f64_not_NaN [OF n g1] g2 show "rateInvariants job" by (simp add: rateInvariants_def)
  qed
  from g1 g2 g3 g4 show ?thesis by (intro conjI)
qed

lemma decodeJobSection_negative_rate:
  assumes "negativeRate env rs"
  shows "\<exists>err. decodeJobSection env df rs basedir blank = Inl err"
proof -
  from decode_negativeRate [OF assms] obtain err where
    "Decode (jobOptions env) rs [] (newJobParser blank df basedir) = Inl err" by blast
  then show ?thesis by (simp add: decodeJobSection_def)
qed

lemma validateJobSection_negative_rate:
  assumes "setsNegativeRate env jobSpec"
  shows "\<exists>err. validateJobSection env df jobSpec basedir blank = Inl err"
proof -
  from blocks_setsNegativeRate [OF assms] obtain err where
    "runBlocks (jobFields env df jobSpec basedir) (newJobParser blank df basedir) = Inl err" by blast
  then show ?thesis by (simp add: validateJobSection_def)
qed

lemma decodeJobSection_batch_without_rate:
  assumes a: "asksBatchSize env rs" and zr: "zeroRate env rs" and z: "f64_eq0 (Rate blank)"
  shows "\<exists>err. decodeJobSection env df rs basedir blank = Inl err"
proof (cases "Decode (jobOptions env) rs [] (newJobParser blank df basedir)")
  case (Inl e)
  then show ?thesis by (simp add: decodeJobSection_def)
next
  case (Inr jp)
  from z have "f64_eq0 (Rate (jp_j (newJobParser blank df basedir)))" by (simp add: newJobParser_def)
  from decode_zeroRate [OF zr this Inr] have r: "f64_eq0 (Rate (jp_j jp))" .
  from decode_asksBatchSize [OF a Inr] have b: "0 < BatchSize (jp_j jp)" .
  from Inr r b show ?thesis by (simp add: decodeJobSection_def Let_def)
qed

lemma validateJobSection_batch_without_rate:
  assumes a: "setsBatchSize env jobSpec" and zr: "setsZeroRate env jobSpec" and z: "f64_eq0 (Rate blank)"
  shows "\<exists>err. validateJobSection env df jobSpec basedir blank = Inl err"
proof (cases "runBlocks (jobFields env df jobSpec basedir) (newJobParser blank df basedir)")
  case (Inl e)
  then show ?thesis by (simp add: validateJobSection_def)
next
  case (Inr jp)
  from z have "f64_eq0 (Rate (jp_j (newJobParser blank df basedir)))" by (simp add: newJobParser_def)
  from blocks_setsZeroRate [OF zr this Inr] have r: "f64_eq0 (Rate (jp_j jp))" .
  from blocks_setsBatchSize [OF a Inr] have b: "0 < BatchSize (jp_j jp)" .
  from Inr r b show ?thesis by (simp add: validateJobSection_def Let_def)
qed

lemma decodeJobSection_default_batch:
  assumes a: "asksRate env rs" and n: "noBatchSize rs" and z: "BatchSize blank = 0"
    and d: "decodeJobSection env df rs basedir blank = Inr job"
  shows "BatchSize job = 1"
proof -
  from decodeJobSection_accepted_shape [OF d] obtain jp where
    dd: "Decode (jobOptions env) rs [] (newJobParser blank df basedir) = Inr jp"
    and b: "BatchSize job = (if f64_gt0 (Rate (jp_j jp)) \<and> BatchSize (jp_j jp) = 0 then 1
                            else BatchSize (jp_j jp))" by blast
  from decode_asksRate [OF a dd] have r: "f64_gt0 (Rate (jp_j jp))" .
  from decode_noBatchSize [OF n dd] z have "BatchSize (jp_j jp) = 0" by (simp add: newJobParser_def)
  with r b show ?thesis by simp
qed

lemma validateJobSection_default_batch:
  assumes a: "setsRate env jobSpec" and n: "\<not> isFieldSetJob env jobSpec ''BatchSize''"
    and z: "BatchSize blank = 0"
    and d: "validateJobSection env df jobSpec basedir blank = Inr job"
  shows "BatchSize job = 1"
proof -
  from validateJobSection_accepted_shape [OF d] obtain jp where
    dd: "runBlocks (jobFields env df jobSpec basedir) (newJobParser blank df basedir) = Inr jp"
    and b: "BatchSize job = (if f64_gt0 (Rate (jp_j jp)) \<and> BatchSize (jp_j jp) = 0 then 1
                            else BatchSize (jp_j jp))" by blast
  from blocks_setsRate [OF a dd] have r: "f64_gt0 (Rate (jp_j jp))" .
  from blocks_no_batch_size [OF n dd] z have "BatchSize (jp_j jp) = 0" by (simp add: newJobParser_def)
  with r b show ?thesis by simp
qed

lemmas c7_defs = nanRateSection_def nanRateIni_def pacedSection_def pacedSpec_def
  negativeSection_def negativeSpec_def batchOnlySection_def batchOnlySpec_def sampleEnvWithIni_def

text \<open>
  Claim C7, as far as it holds. A section with a negative rate is rejected; a section with
  a batch size above zero and a rate of zero, or no rate, is rejected; a job accepted
  from a section with a rate above zero and no batch size has a batch size of 1. A job
  that \<^verbatim>\<open>decodeJobSection\<close> or \<^verbatim>\<open>validateJobSection\<close> accepts has a rate that is not below
  zero, a rate other than zero when its batch size is above zero, and a batch size above
  zero when its rate is above zero; when its rate is a number, and not NaN, it has
  \<^verbatim>\<open>rate >= 0\<close>, and \<^verbatim>\<open>batchSize > 0\<close> implies \<^verbatim>\<open>rate > 0\<close>.
\<close>

theorem rate_and_batch_size:
  "(decodeJobSection env df rs basedir blank = Inr job \<and> \<not> f64_lt0 (Rate blank) \<longrightarrow>
      \<not> f64_lt0 (Rate job) \<and> (0 < BatchSize job \<longrightarrow> \<not> f64_eq0 (Rate job)) \<and>
      (f64_gt0 (Rate job) \<longrightarrow> 0 < BatchSize job) \<and> (Rate job \<noteq> NaN \<longrightarrow> rateInvariants job))
   \<and> (validateJobSection env df jobSpec basedir blank = Inr job' \<and> \<not> f64_lt0 (Rate blank) \<longrightarrow>
      \<not> f64_lt0 (Rate job') \<and> (0 < BatchSize job' \<longrightarrow> \<not> f64_eq0 (Rate job')) \<and>
      (f64_gt0 (Rate job') \<longrightarrow> 0 < BatchSize job') \<and> (Rate job' \<noteq> NaN \<longrightarrow> rateInvariants job'))
   \<and> (negativeRate env rs \<longrightarrow> (\<exists>err. decodeJobSection env df rs basedir blank = Inl err))
   \<and> (setsNegativeRate env jobSpec \<longrightarrow>
        (\<exists>err. validateJobSection env df jobSpec basedir blank = Inl err))
   \<and> (asksBatchSize env rs \<and> zeroRate env rs \<and> f64_eq0 (Rate blank) \<longrightarrow>
        (\<exists>err. decodeJobSection env df rs basedir blank = Inl err))
   \<and> (setsBatchSize env jobSpec \<and> setsZeroRate env jobSpec \<and> f64_eq0 (Rate blank) \<longrightarrow>
        (\<exists>err. validateJobSection env df jobSpec basedir blank = Inl err))
   \<and> (asksRate env rs \<and> noBatchSize rs \<and> BatchSize blank = 0 \<and>
        decodeJobSection env df rs basedir blank = Inr job \<longrightarrow> BatchSize job = 1)
   \<and> (setsRate env jobSpec \<and> \<not> isFieldSetJob env jobSpec ''BatchSize'' \<and> BatchSize blank = 0 \<and>
        validateJobSection env df jobSpec basedir blank = Inr job' \<longrightarrow> BatchSize job' = 1)"
proof -
  have c1: "decodeJobSection env df rs basedir blank = Inr job \<and> \<not> f64_lt0 (Rate blank) \<longrightarrow>
      \<not> f64_lt0 (Rate job) \<and> (0 < BatchSize job \<longrightarrow> \<not> f64_eq0 (Rate job)) \<and>
      (f64_gt0 (Rate job) \<longrightarrow> 0 < BatchSize job) \<and> (Rate job \<noteq> NaN \<longrightarrow> rateInvariants job)"
  proof (rule impI)
    assume "decodeJobSection env df rs basedir blank = Inr job \<and> \<not> f64_lt0 (Rate blank)"
    then have d: "decodeJobSection env df rs basedir blank = Inr job" and z: "\<not> f64_lt0 (Rate blank)"
      by simp_all
    from decodeJobSection_invariants [OF d z]
    show "\<not> f64_lt0 (Rate job) \<and> (0 < BatchSize job \<longrightarrow> \<not> f64_eq0 (Rate job)) \<and>
      (f64_gt0 (Rate job) \<longrightarrow> 0 < BatchSize job) \<and> (Rate job \<noteq> NaN \<longrightarrow> rateInvariants job)" .
  qed
  have c2: "validateJobSection env df jobSpec basedir blank = Inr job' \<and> \<not> f64_lt0 (Rate blank) \<longrightarrow>
      \<not> f64_lt0 (Rate job') \<and> (0 < BatchSize job' \<longrightarrow> \<not> f64_eq0 (Rate job')) \<and>
      (f64_gt0 (Rate job') \<longrightarrow> 0 < BatchSize job') \<and> (Rate job' \<noteq> NaN \<longrightarrow> rateInvariants job')"
  proof (rule impI)
    assume "validateJobSection env df jobSpec basedir blank = Inr job' \<and> \<not> f64_lt0 (Rate blank)"
    then have d: "validateJobSection env df jobSpec basedir blank = Inr job'"
      and z: "\<not> f64_lt0 (Rate blank)" by simp_all
    from validateJobSection_invariants [OF d z]
    show "\<not> f64_lt0 (Rate job') \<and> (0 < BatchSize job' \<longrightarrow> \<not> f64_eq0 (Rate job')) \<and>
      (f64_gt0 (Rate job') \<longrightarrow> 0 < BatchSize job') \<and> (Rate job' \<noteq> NaN \<longrightarrow> rateInvariants job')" .
  qed
  have c3: "negativeRate env rs \<longrightarrow> (\<exists>err. decodeJobSection env df rs basedir blank = Inl err)"
    by (rule impI) (rule decodeJobSection_negative_rate)
  have c4: "setsNegativeRate env jobSpec \<longrightarrow>
        (\<exists>err. validateJobSection env df jobSpec basedir blank = Inl err)"
    by (rule impI) (rule validateJobSection_negative_rate)
  have c5: "asksBatchSize env rs \<and> zeroRate env rs \<and> f64_eq0 (Rate blank) \<longrightarrow>
        (\<exists>err. decodeJobSection env df rs basedir blank = Inl err)"
  proof (rule impI)
    assume "asksBatchSize env rs \<and> zeroRate env rs \<and> f64_eq0 (Rate blank)"
    then have a: "asksBatchSize env rs" and zr: "zeroRate env rs" and z: "f64_eq0 (Rate blank)"
      by simp_all
    from decodeJobSection_batch_without_rate [OF a zr z]
    show "\<exists>err. decodeJobSection env df rs basedir blank = Inl err" .
  qed
  have c6: "setsBatchSize env jobSpec \<and> setsZeroRate env jobSpec \<and> f64_eq0 (Rate blank) \<longrightarrow>
        (\<exists>err. validateJobSection env df jobSpec basedir blank = Inl err)"
  proof (rule impI)
    assume "setsBatchSize env jobSpec \<and> setsZeroRate env jobSpec \<and> f64_eq0 (Rate blank)"
    then have a: "setsBatchSize env jobSpec" and zr: "setsZeroRate env jobSpec"
      and z: "f64_eq0 (Rate blank)" by simp_all
    from validateJobSection_batch_without_rate [OF a zr z]
    show "\<exists>err. validateJobSection env df jobSpec basedir blank = Inl err" .
  qed
  have c7: "asksRate env rs \<and> noBatchSize rs \<and> BatchSize blank = 0 \<and>
        decodeJobSection env df rs basedir blank = Inr job \<longrightarrow> BatchSize job = 1"
  proof (rule impI)
    assume "asksRate env rs \<and> noBatchSize rs \<and> BatchSize blank = 0 \<and>
        decodeJobSection env df rs basedir blank = Inr job"
    then have a: "asksRate env rs" and n: "noBatchSize rs" and z: "BatchSize blank = 0"
      and d: "decodeJobSection env df rs basedir blank = Inr job" by simp_all
    from decodeJobSection_default_batch [OF a n z d] show "BatchSize job = 1" .
  qed
  have c8: "setsRate env jobSpec \<and> \<not> isFieldSetJob env jobSpec ''BatchSize'' \<and> BatchSize blank = 0 \<and>
        validateJobSection env df jobSpec basedir blank = Inr job' \<longrightarrow> BatchSize job' = 1"
  proof (rule impI)
    assume "setsRate env jobSpec \<and> \<not> isFieldSetJob env jobSpec ''BatchSize'' \<and> BatchSize blank = 0 \<and>
        validateJobSection env df jobSpec basedir blank = Inr job'"
    then have a: "setsRate env jobSpec" and n: "\<not> isFieldSetJob env jobSpec ''BatchSize''"
      and z: "BatchSize blank = 0"
      and d: "validateJobSection env df jobSpec basedir blank = Inr job'" by simp_all
    from validateJobSection_default_batch [OF a n z d] show "BatchSize job' = 1" .
  qed
  from c1 c2 c3 c4 c5 c6 c7 c8 show ?thesis by (intro conjI)
qed

lemma eval_paced:
  "decodeJobSection sampleEnv sampleFlavor pacedSection ''/base'' newJob
     = Inr (newJob\<lparr>Queries := [''select 1''], Rate := Finite 10, BatchSize := 1\<rparr>)"
  "validateJobSection sampleEnv sampleFlavor pacedSpec ''/base'' newJob
     = Inr (newJob\<lparr>Queries := [''select 1''], Rate := Finite 10, BatchSize := 1\<rparr>)"
  by (simp_all add: c7_defs model_defs sample_defs)

lemma eval_negative:
  "decodeJobSection sampleEnv sampleFlavor negativeSection ''/base'' newJob
     = Inl (New ''invalid negative value for rate'')"
  "validateJobSection sampleEnv sampleFlavor negativeSpec ''/base'' newJob
     = Inl (New ''invalid negative value for rate'')"
  by (simp_all add: c7_defs model_defs sample_defs)

lemma eval_batch_only:
  "decodeJobSection sampleEnv sampleFlavor batchOnlySection ''/base'' newJob
     = Inl (New ''can only specify batch-size with rate'')"
  "validateJobSection sampleEnv sampleFlavor batchOnlySpec ''/base'' newJob
     = Inl (New ''can only specify batchSize with rate'')"
  by (simp_all add: c7_defs model_defs sample_defs)

lemma eval_rate_sections:
  "asksRate sampleEnv pacedSection" "noBatchSize pacedSection"
  "setsRate sampleEnv pacedSpec" "\<not> isFieldSetJob sampleEnv pacedSpec ''BatchSize''"
  "negativeRate sampleEnv negativeSection" "setsNegativeRate sampleEnv negativeSpec"
  "asksBatchSize sampleEnv batchOnlySection" "zeroRate sampleEnv batchOnlySection"
  "setsBatchSize sampleEnv batchOnlySpec" "setsZeroRate sampleEnv batchOnlySpec"
  by (simp_all add: asksRate_def noBatchSize_def setsRate_def negativeRate_def setsNegativeRate_def
      asksBatchSize_def zeroRate_def setsBatchSize_def setsZeroRate_def c7_defs sample_defs
      f64_gt0_def f64_lt0_def f64_eq0_def)

theorem rate_and_batch_size_witness:
  "asksRate sampleEnv pacedSection \<and> noBatchSize pacedSection
   \<and> decodeJobSection sampleEnv sampleFlavor pacedSection ''/base'' newJob
     = Inr (newJob\<lparr>Queries := [''select 1''], Rate := Finite 10, BatchSize := 1\<rparr>)
   \<and> setsRate sampleEnv pacedSpec
   \<and> validateJobSection sampleEnv sampleFlavor pacedSpec ''/base'' newJob
     = Inr (newJob\<lparr>Queries := [''select 1''], Rate := Finite 10, BatchSize := 1\<rparr>)
   \<and> rateInvariants (newJob\<lparr>Queries := [''select 1''], Rate := Finite 10, BatchSize := 1\<rparr>)
   \<and> BatchSize (newJob\<lparr>Queries := [''select 1''], Rate := Finite 10, BatchSize := 1\<rparr>) = 1
   \<and> negativeRate sampleEnv negativeSection
   \<and> decodeJobSection sampleEnv sampleFlavor negativeSection ''/base'' newJob
     = Inl (New ''invalid negative value for rate'')
   \<and> setsNegativeRate sampleEnv negativeSpec
   \<and> validateJobSection sampleEnv sampleFlavor negativeSpec ''/base'' newJob
     = Inl (New ''invalid negative value for rate'')
   \<and> asksBatchSize sampleEnv batchOnlySection \<and> zeroRate sampleEnv batchOnlySection
   \<and> decodeJobSection sampleEnv sampleFlavor batchOnlySection ''/base'' newJob
     = Inl (New ''can only specify batch-size with rate'')
   \<and> setsBatchSize sampleEnv batchOnlySpec \<and> setsZeroRate sampleEnv batchOnlySpec
   \<and> validateJobSection sampleEnv sampleFlavor batchOnlySpec ''/base'' newJob
     = Inl (New ''can only specify batchSize with rate'')"
proof -
  let ?paced = "newJob\<lparr>Queries := [''select 1''], Rate := Finite 10, BatchSize := 1\<rparr>"
  have z: "\<not> f64_lt0 (Rate newJob)" "f64_eq0 (Rate newJob)" "BatchSize newJob = 0"
    by (simp_all add: newJob_def f64_lt0_def f64_eq0_def)
  have nn: "Rate ?paced \<noteq> NaN" by simp
  note paced = rate_and_batch_size [where env = sampleEnv and df = sampleFlavor and rs = pacedSection
      and jobSpec = pacedSpec and basedir = "''/base''" and blank = newJob and job = ?paced
      and job' = ?paced]
  note paced1 = paced [THEN conjunct1]
  note paced2 = paced [THEN conjunct2, THEN conjunct1]
  note paced7 = paced [THEN conjunct2, THEN conjunct2, THEN conjunct2, THEN conjunct2, THEN conjunct2,
      THEN conjunct2, THEN conjunct1]
  note paced8 = paced [THEN conjunct2, THEN conjunct2, THEN conjunct2, THEN conjunct2, THEN conjunct2,
      THEN conjunct2, THEN conjunct2]
  from paced1 eval_paced(1) z(1) nn have g1: "rateInvariants ?paced" by blast
  from paced2 eval_paced(2) z(1) nn have g1': "rateInvariants ?paced" by blast
  from paced7 eval_rate_sections(1,2) z(3) eval_paced(1) have g2: "BatchSize ?paced = 1" by blast
  from paced8 eval_rate_sections(3,4) z(3) eval_paced(2) have g2': "BatchSize ?paced = 1" by blast
  note neg = rate_and_batch_size [where env = sampleEnv and df = sampleFlavor
      and rs = negativeSection and jobSpec = negativeSpec and basedir = "''/base''" and blank = newJob]
  note neg3 = neg [THEN conjunct2, THEN conjunct2, THEN conjunct1]
  note neg4 = neg [THEN conjunct2, THEN conjunct2, THEN conjunct2, THEN conjunct1]
  from neg3 eval_rate_sections(5)
  have "\<exists>err. decodeJobSection sampleEnv sampleFlavor negativeSection ''/base'' newJob = Inl err"
    by blast
  with eval_negative(1)
  have g3: "decodeJobSection sampleEnv sampleFlavor negativeSection ''/base'' newJob
     = Inl (New ''invalid negative value for rate'')" by simp
  from neg4 eval_rate_sections(6)
  have "\<exists>err. validateJobSection sampleEnv sampleFlavor negativeSpec ''/base'' newJob = Inl err"
    by blast
  with eval_negative(2)
  have g4: "validateJobSection sampleEnv sampleFlavor negativeSpec ''/base'' newJob
     = Inl (New ''invalid negative value for rate'')" by simp
  note bat = rate_and_batch_size [where env = sampleEnv and df = sampleFlavor
      and rs = batchOnlySection and jobSpec = batchOnlySpec and basedir = "''/base''"
      and blank = newJob]
  note bat5 = bat [THEN conjunct2, THEN conjunct2, THEN conjunct2, THEN conjunct2, THEN conjunct1]
  note bat6 = bat [THEN conjunct2, THEN conjunct2, THEN conjunct2, THEN conjunct2, THEN conjunct2,
      THEN conjunct1]
  from bat5 eval_rate_sections(7,8) z(2)
  have "\<exists>err. decodeJobSection sampleEnv sampleFlavor batchOnlySection ''/base'' newJob = Inl err"
    by blast
  with eval_batch_only(1)
  have g5: "decodeJobSection sampleEnv sampleFlavor batchOnlySection ''/base'' newJob
     = Inl (New ''can only specify batch-size with rate'')" by simp
  from bat6 eval_rate_sections(9,10) z(2)
  have "\<exists>err. validateJobSection sampleEnv sampleFlavor batchOnlySpec ''/base'' newJob = Inl err"
    by blast
  with eval_batch_only(2)
  have g6: "validateJobSection sampleEnv sampleFlavor batchOnlySpec ''/base'' newJob
     = Inl (New ''can only specify batchSize with rate'')" by simp
  from eval_rate_sections(1,2) eval_paced(1) eval_rate_sections(3) eval_paced(2) g1 g2
    eval_rate_sections(5) g3 eval_rate_sections(6) g4 eval_rate_sections(7,8) g5
    eval_rate_sections(9,10) g6
  show ?thesis by (intro conjI)
qed

text \<open>
  The invariant of claim C7 fails for a rate that is not a number. \<^verbatim>\<open>strconv.ParseFloat\<close>
  parses the text \<^verbatim>\<open>NaN\<close> without an error, and NaN is neither below zero nor equal to
  zero: the section is accepted, with its batch size of 5, and the configuration that
  holds it parses. The job has neither \<^verbatim>\<open>rate >= 0\<close> nor \<^verbatim>\<open>rate > 0\<close>.
\<close>

theorem nan_rate_accepted_counterexample:
  "decodeJobSection sampleEnv sampleFlavor
       [(''rate'', ''NaN''), (''batch-size'', ''5''), (''query'', ''select 1'')] ''/base''
       (newJob\<lparr>Name := ''paced''\<rparr>)
     = Inr (newJob\<lparr>Name := ''paced'', Queries := [''select 1''], Rate := NaN, BatchSize := 5,
                    QueueDepth := 1\<rparr>)
   \<and> \<not> f64_ge0 (Rate (newJob\<lparr>Name := ''paced'', Queries := [''select 1''], Rate := NaN,
                               BatchSize := 5, QueueDepth := 1\<rparr>))
   \<and> 0 < BatchSize (newJob\<lparr>Name := ''paced'', Queries := [''select 1''], Rate := NaN,
                              BatchSize := 5, QueueDepth := 1\<rparr>)
   \<and> \<not> f64_gt0 (Rate (newJob\<lparr>Name := ''paced'', Queries := [''select 1''], Rate := NaN,
                               BatchSize := 5, QueueDepth := 1\<rparr>))
   \<and> \<not> rateInvariants (newJob\<lparr>Name := ''paced'', Queries := [''select 1''], Rate := NaN,
                                 BatchSize := 5, QueueDepth := 1\<rparr>)
   \<and> parseConfig (sampleEnvWithIni nanRateIni) sampleFlavor ''run.ini'' ''/base''
     = Inr ((newConfig sampleFlavor)
              \<lparr>Jobs := [(''paced'', newJob\<lparr>Name := ''paced'', Queries := [''select 1''],
                                           Rate := NaN, BatchSize := 5, QueueDepth := 1\<rparr>)]\<rparr>)"
  by (simp add: c7_defs model_defs sample_defs rateInvariants_def)

end
